theory Spec2Isabelle
  imports Main
begin

section \<open>The classifier training script \<^verbatim>\<open>ulmfit/train_clas.py\<close>\<close>

text \<open>
  The script has one function, \<^verbatim>\<open>new_train_clas\<close>. It checks its arguments, prepares the
  data (a vocabulary and the token ids of three splits, computed or read back from a cache
  on disk), and hands the data to the training framework in a fixed order of calls.
  The model below follows the function line by line: the file system and the printed and
  called things are an explicit state, every exception is an error value, and the framework's
  learners are symbolic terms that record what was done to them.
\<close>

subsection \<open>The constants of \<^verbatim>\<open>fastai_contrib.utils\<close>\<close>

text \<open>
  Line 11 imports \<^verbatim>\<open>PAD, UNK, PAD_TOKEN_ID, DATASETS, TRN, VAL, TST\<close>. The module is not part
  of the sources at hand, so the constants are a parameter of every definition.
\<close>

record utils =
  UNK :: string
  PAD :: string
  PAD_TOKEN_ID :: int
  DATASETS :: "string list"
  TRN :: string
  VAL :: string
  TST :: string

subsection \<open>The vocabulary (lines 71 to 76)\<close>

text \<open>
  \<^verbatim>\<open>Counter(word for example in toks[TRN] for word in example)\<close>: a dictionary from word to
  count. A Python dictionary keeps its keys in the order of their first insertion, so the
  counter is an association list in that order; counting a word again changes its count in
  place.
\<close>

fun counter_add :: "(string \<times> nat) list \<Rightarrow> string \<Rightarrow> (string \<times> nat) list" where
  "counter_add [] w = [(w, 1)]"
| "counter_add ((k, c) # kcs) w =
     (if k = w then (k, c + 1) # kcs else (k, c) # counter_add kcs w)"

definition Counter :: "string list \<Rightarrow> (string \<times> nat) list" where
  "Counter ws = foldl counter_add [] ws"

text \<open>
  \<^verbatim>\<open>counter.most_common(n=max_vocab)\<close> is \<^verbatim>\<open>heapq.nlargest(n, items, key=count)\<close>: the first
  \<open>n\<close> items of the stable sort by descending count (items of equal count keep their
  order of insertion), and no item when \<open>n \<le> 0\<close>.
\<close>

definition most_common :: "int \<Rightarrow> (string \<times> nat) list \<Rightarrow> (string \<times> nat) list" where
  "most_common n items = take (nat n) (sort_key (\<lambda>kc. - int (snd kc)) items)"

text \<open>
  \<^verbatim>\<open>itos = [word for word, count in counter.most_common(n=max_vocab)]\<close>,
  \<^verbatim>\<open>itos.insert(0, PAD)\<close>, \<^verbatim>\<open>itos.insert(0, UNK)\<close>.
\<close>

definition build_itos :: "utils \<Rightarrow> int \<Rightarrow> string list list \<Rightarrow> string list" where
  "build_itos k max_vocab examples =
     (let counter = Counter (concat examples);
          itos = map fst (most_common max_vocab counter);
          itos = PAD k # itos;
          itos = UNK k # itos
      in itos)"

text \<open>
  \<^verbatim>\<open>Vocab(itos)\<close> is the framework's class (fastai.text.transform). Its constructor keeps
  the list and sets \<^verbatim>\<open>stoi = defaultdict(int, {v: k for k, v in enumerate(itos)})\<close>: the
  entries are stored from the left, so a string that stands twice in the list keeps the
  later index. A vocabulary is represented by its list; \<open>Vocab_stoi\<close> is the dictionary.
\<close>

definition Vocab_stoi :: "string list \<Rightarrow> (string \<rightharpoonup> nat)" where
  "Vocab_stoi itos = fold (\<lambda>(i, w) m. m(w \<mapsto> i)) (enumerate 0 itos) Map.empty"

text \<open>
  \<^verbatim>\<open>stoi[UNK]\<close> on a \<^verbatim>\<open>defaultdict(int)\<close> gives 0 for a missing key, and
  \<^verbatim>\<open>stoi.get(w, d)\<close> gives \<open>d\<close> for one.
\<close>

definition stoi_getitem :: "(string \<rightharpoonup> nat) \<Rightarrow> string \<Rightarrow> nat" where
  "stoi_getitem stoi w = (case stoi w of Some i \<Rightarrow> i | None \<Rightarrow> 0)"

definition stoi_get :: "(string \<rightharpoonup> nat) \<Rightarrow> string \<Rightarrow> nat \<Rightarrow> nat" where
  "stoi_get stoi w d = (case stoi w of Some i \<Rightarrow> i | None \<Rightarrow> d)"

text \<open>Lines 82 and 83: \<^verbatim>\<open>[[stoi.get(w, stoi[UNK]) for w in s] for s in toks[split]]\<close>.\<close>

definition numericalize :: "utils \<Rightarrow> (string \<rightharpoonup> nat) \<Rightarrow> string list list \<Rightarrow> nat list list" where
  "numericalize k stoi examples =
     map (\<lambda>s. map (\<lambda>w. stoi_get stoi w (stoi_getitem stoi (UNK k))) s) examples"

subsection \<open>Paths\<close>

text \<open>
  A \<^verbatim>\<open>pathlib.Path\<close> is the list of its parts; the root of an absolute path is the part
  \<^verbatim>\<open>/\<close>. Every string the script joins to a path is taken as one part (the names of data
  sets and splits and the language code hold no separator); joining the empty string
  changes nothing, as in pathlib.
\<close>

type_synonym path = "string list"

definition path_name :: "path \<Rightarrow> string" where
  "path_name p = (if p = [] \<or> p = [''/''] then [] else last p)"

definition path_parent :: "path \<Rightarrow> path" where
  "path_parent p = (if p = [] \<or> p = [''/''] then p else butlast p)"

definition path_join :: "path \<Rightarrow> string \<Rightarrow> path" where
  "path_join p s = (if s = [] then p else p @ [s])"

fun path_str :: "path \<Rightarrow> string" where
  "path_str [] = ''.''"
| "path_str [c] = c"
| "path_str (c # d # cs) =
     (if c = ''/'' then c @ path_str (d # cs) else c @ ''/'' @ path_str (d # cs))"

definition ids_file :: "path \<Rightarrow> string \<Rightarrow> string \<Rightarrow> path" where
  "ids_file tmp_dir split lang = path_join tmp_dir (split @ ''_'' @ lang @ ''_ids.npy'')"

definition lbl_file :: "path \<Rightarrow> string \<Rightarrow> string \<Rightarrow> path" where
  "lbl_file tmp_dir split lang = path_join tmp_dir (split @ ''_'' @ lang @ ''_lbl.npy'')"

definition vocab_pkl :: "path \<Rightarrow> string \<Rightarrow> path" where
  "vocab_pkl tmp_dir lang = path_join tmp_dir (''vocab_'' @ lang @ ''.pkl'')"

subsection \<open>What the framework is given and what it returns\<close>

text \<open>A float literal \<^verbatim>\<open>5e-3\<close> is kept as written: mantissa and decimal exponent.\<close>

datatype dec = Dec int int

record lm_bunch =
  lm_path :: path
  lm_vocab :: "string list"
  lm_trn_ids :: "nat list list"
  lm_val_ids :: "nat list list"
  lm_bs :: int
  lm_bptt :: int

record clas_bunch =
  cl_path :: path
  cl_vocab :: "string list"
  cl_trn_ids :: "nat list list"
  cl_val_ids :: "nat list list"
  cl_trn_lbls :: "int list"
  cl_val_lbls :: "int list"
  cl_bs :: int

record arch =
  a_bptt :: int
  a_emb_sz :: int
  a_nh :: int
  a_nl :: int
  a_qrnn :: bool
  a_pad_token :: int

text \<open>
  The network of a learner is the term of the calls that made it: the framework's training
  is not computed, only recorded, so two learners are equal when they were made from the
  same data by the same calls.
\<close>

datatype net =
    Language_model lm_bunch arch "string \<times> string"
  | Text_classifier clas_bunch arch
  | Unfrozen net
  | Frozen_to int net
  | Fitted nat "dec \<times> dec" net
  | One_cycle nat dec "dec \<times> dec" dec net
  | With_encoder net net

record learner =
  l_path :: path
  l_model_dir :: string
  l_net :: net

subsection \<open>State, errors and the order of effects\<close>

datatype content =
    Npy_ids "nat list list"
  | Npy_lbl "int list"
  | Pickle_vocab "string list"
  | Encoder_pth net
  | Model_pth net

datatype msg =
    Msg_cuda_unavailable
  | Msg_dataset string string
  | Msg_using_qrnn
  | Msg_reading
  | Msg_loading
  | Msg_sizes nat nat nat
  | Msg_fine_tuning
  | Msg_saving path

datatype target = LM | CLAS

datatype event =
    Print msg
  | Set_device int
  | Read_clas_data path string string
  | Lm_from_ids lm_bunch
  | Clas_from_ids clas_bunch
  | Language_model_learner
  | Text_classifier_learner
  | Unfreeze target
  | Fit target nat
  | Save_encoder string
  | Load_encoder string
  | Fit_one_cycle target nat
  | Freeze_to target int
  | Save string

datatype error =
    AssertionError string
  | KeyError string
  | FileNotFoundError path
  | FileExistsError path
  | IsADirectoryError path
  | NotADirectoryError path
  | ValueError path

record state =
  dirs :: "path set"
  files :: "path \<rightharpoonup> content"
  trace :: "event list"

text \<open>
  A step of the script takes the state and returns a value or the exception raised,
  with the state reached. Nothing in the script catches an exception: \<open>bind_m\<close> hands the
  first one through, with the state as it was when the exception was raised.
\<close>

type_synonym 'a prog = "state \<Rightarrow> (error + 'a) \<times> state"

definition return :: "'a \<Rightarrow> 'a prog" where
  "return x = (\<lambda>s. (Inr x, s))"

definition raise :: "error \<Rightarrow> 'a prog" where
  "raise e = (\<lambda>s. (Inl e, s))"

definition bind_m :: "'a prog \<Rightarrow> ('a \<Rightarrow> 'b prog) \<Rightarrow> 'b prog" where
  "bind_m m f = (\<lambda>s. case m s of (Inl e, s') \<Rightarrow> (Inl e, s') | (Inr x, s') \<Rightarrow> f x s')"

definition emit :: "event \<Rightarrow> unit prog" where
  "emit ev = (\<lambda>s. (Inr (), s\<lparr>trace := trace s @ [ev]\<rparr>))"

definition assert :: "bool \<Rightarrow> string \<Rightarrow> unit prog" where
  "assert b m = (if b then return () else raise (AssertionError m))"

definition getitem :: "(string \<rightharpoonup> 'a) \<Rightarrow> string \<Rightarrow> 'a prog" where
  "getitem d key = (case d key of Some v \<Rightarrow> return v | None \<Rightarrow> raise (KeyError key))"

subsection \<open>The file system\<close>

definition path_exists :: "state \<Rightarrow> path \<Rightarrow> bool" where
  "path_exists s p = (p \<in> dirs s \<or> files s p \<noteq> None)"

definition exists_m :: "path \<Rightarrow> bool prog" where
  "exists_m p = (\<lambda>s. (Inr (path_exists s p), s))"

definition no_parent_error :: "state \<Rightarrow> path \<Rightarrow> error" where
  "no_parent_error s p =
     (if files s (path_parent p) \<noteq> None then NotADirectoryError p else FileNotFoundError p)"

text \<open>\<^verbatim>\<open>tmp_dir.mkdir(exist_ok=True)\<close>.\<close>

definition mkdir_exist_ok :: "path \<Rightarrow> unit prog" where
  "mkdir_exist_ok p = (\<lambda>s.
     if p \<in> dirs s then (Inr (), s)
     else if files s p \<noteq> None then (Inl (FileExistsError p), s)
     else if path_parent p \<notin> dirs s then (Inl (no_parent_error s p), s)
     else (Inr (), s\<lparr>dirs := insert p (dirs s)\<rparr>))"

text \<open>
  Writing a file (\<^verbatim>\<open>open(vocab_file, 'wb')\<close> with \<^verbatim>\<open>pickle.dump\<close>, \<^verbatim>\<open>np.save\<close>,
  \<^verbatim>\<open>torch.save\<close>) and reading one (\<^verbatim>\<open>np.load\<close>, \<^verbatim>\<open>pickle.load\<close>, \<^verbatim>\<open>torch.load\<close>). What is
  read is what was written; a file of another kind is refused.
\<close>

definition write_file :: "path \<Rightarrow> content \<Rightarrow> unit prog" where
  "write_file p c = (\<lambda>s.
     if p \<in> dirs s then (Inl (IsADirectoryError p), s)
     else if path_parent p \<notin> dirs s then (Inl (no_parent_error s p), s)
     else (Inr (), s\<lparr>files := (files s)(p \<mapsto> c)\<rparr>))"

definition read_file :: "path \<Rightarrow> content prog" where
  "read_file p = (\<lambda>s.
     case files s p of
       Some c \<Rightarrow> (Inr c, s)
     | None \<Rightarrow> (Inl (if p \<in> dirs s then IsADirectoryError p else FileNotFoundError p), s))"

definition np_load_ids :: "path \<Rightarrow> nat list list prog" where
  "np_load_ids p =
     bind_m (read_file p) (\<lambda>c. case c of Npy_ids a \<Rightarrow> return a | _ \<Rightarrow> raise (ValueError p))"

definition np_load_lbl :: "path \<Rightarrow> int list prog" where
  "np_load_lbl p =
     bind_m (read_file p) (\<lambda>c. case c of Npy_lbl a \<Rightarrow> return a | _ \<Rightarrow> raise (ValueError p))"

definition pickle_load_vocab :: "path \<Rightarrow> string list prog" where
  "pickle_load_vocab p =
     bind_m (read_file p) (\<lambda>c. case c of Pickle_vocab v \<Rightarrow> return v | _ \<Rightarrow> raise (ValueError p))"

definition torch_load_encoder :: "path \<Rightarrow> net prog" where
  "torch_load_encoder p =
     bind_m (read_file p) (\<lambda>c. case c of Encoder_pth e \<Rightarrow> return e | _ \<Rightarrow> raise (ValueError p))"

subsection \<open>Arguments and surroundings\<close>

record args =
  data_dir :: path
  lang :: string
  cuda_id :: int
  pretrain_name :: string
  model_dir :: path
  qrnn :: bool
  fine_tune :: bool
  max_vocab :: int
  bs :: int
  bptt :: int
  name :: string
  dataset :: string

text \<open>
  \<^verbatim>\<open>torch.cuda.is_available()\<close> and \<^verbatim>\<open>read_clas_data\<close> (of \<^verbatim>\<open>fastai_contrib.utils\<close>, not among
  the sources at hand) are given from outside: the reader returns two dictionaries from split
  name to the tokenized examples and to the labels, or raises.
\<close>

type_synonym toks = "string \<rightharpoonup> string list list"
type_synonym lbls = "string \<rightharpoonup> int list"
type_synonym ids = "string \<rightharpoonup> nat list list"

record env =
  cuda_is_available :: bool
  read_clas_data :: "path \<Rightarrow> string \<Rightarrow> string \<Rightarrow> error + (toks \<times> lbls)"

definition call_read_clas_data :: "env \<Rightarrow> path \<Rightarrow> string \<Rightarrow> string \<Rightarrow> (toks \<times> lbls) prog" where
  "call_read_clas_data e dataset_dir ds lg =
     bind_m (emit (Read_clas_data dataset_dir ds lg)) (\<lambda>_.
       case read_clas_data e dataset_dir ds lg of Inl err \<Rightarrow> raise err | Inr r \<Rightarrow> return r)"

subsection \<open>Lines 45 to 56: the assertions\<close>

definition assert_exists :: "path \<Rightarrow> unit prog" where
  "assert_exists p = (\<lambda>s.
     assert (path_exists s p) (''Error: '' @ path_str p @ '' does not exist.'') s)"

definition check_inputs :: "utils \<Rightarrow> args \<Rightarrow> unit prog" where
  "check_inputs k a =
     bind_m (assert (dataset a \<in> set (DATASETS k))
               (''Error: '' @ dataset a @ '' processing is not implemented.'')) (\<lambda>_.
     bind_m (assert ((dataset a = ''imdb'' \<and> lang a = ''en'') \<or> \<not> dataset a = ''imdb'')
               ''Error: IMDb is only available in English.'') (\<lambda>_.
     bind_m (assert (path_name (data_dir a) = ''data'')
               (''Error: Name of data directory should be data, not ''
                  @ path_name (data_dir a) @ ''.'')) (\<lambda>_.
     bind_m (assert_exists (data_dir a)) (\<lambda>_.
     bind_m (assert_exists (path_join (data_dir a) (dataset a))) (\<lambda>_.
     assert_exists (model_dir a))))))"

subsection \<open>Lines 62 to 93: the data, computed or read back\<close>

text \<open>The loop of lines 81 to 85, over the splits still to do.\<close>

fun save_splits ::
  "utils \<Rightarrow> path \<Rightarrow> string \<Rightarrow> (string \<rightharpoonup> nat) \<Rightarrow> toks \<Rightarrow> lbls \<Rightarrow> string list \<Rightarrow> ids \<Rightarrow> ids prog"
where
  "save_splits k tmp_dir lg stoi tk lb [] idm = return idm"
| "save_splits k tmp_dir lg stoi tk lb (split # rest) idm =
     bind_m (getitem tk split) (\<lambda>examples.
     bind_m (write_file (ids_file tmp_dir split lg) (Npy_ids (numericalize k stoi examples))) (\<lambda>_.
     bind_m (getitem lb split) (\<lambda>labels.
     bind_m (write_file (lbl_file tmp_dir split lg) (Npy_lbl labels)) (\<lambda>_.
     save_splits k tmp_dir lg stoi tk lb rest
       (idm(split \<mapsto> numericalize k stoi examples))))))"

text \<open>Lines 67 to 85.\<close>

definition tokenize_and_cache :: "utils \<Rightarrow> env \<Rightarrow> args \<Rightarrow> path \<Rightarrow> path \<Rightarrow> (ids \<times> lbls \<times> string list) prog" where
  "tokenize_and_cache k e a dataset_dir tmp_dir =
     bind_m (emit (Print Msg_reading)) (\<lambda>_.
     bind_m (call_read_clas_data e dataset_dir (dataset a) (lang a)) (\<lambda>(tk, lb).
     bind_m (getitem tk (TRN k)) (\<lambda>trn.
     bind_m (write_file (vocab_pkl tmp_dir (lang a))
               (Pickle_vocab (build_itos k (max_vocab a) trn))) (\<lambda>_.
     bind_m (save_splits k tmp_dir (lang a) (Vocab_stoi (build_itos k (max_vocab a) trn))
               tk lb [TRN k, VAL k, TST k] Map.empty) (\<lambda>idm.
     return (idm, lb, build_itos k (max_vocab a) trn))))))"

text \<open>The loop of lines 89 to 91.\<close>

fun load_splits :: "path \<Rightarrow> string \<Rightarrow> string list \<Rightarrow> ids \<Rightarrow> lbls \<Rightarrow> (ids \<times> lbls) prog" where
  "load_splits tmp_dir lg [] idm lb = return (idm, lb)"
| "load_splits tmp_dir lg (split # rest) idm lb =
     bind_m (np_load_ids (ids_file tmp_dir split lg)) (\<lambda>i.
     bind_m (np_load_lbl (lbl_file tmp_dir split lg)) (\<lambda>l.
     load_splits tmp_dir lg rest (idm(split \<mapsto> i)) (lb(split \<mapsto> l))))"

text \<open>Lines 87 to 93.\<close>

definition load_cached :: "utils \<Rightarrow> args \<Rightarrow> path \<Rightarrow> (ids \<times> lbls \<times> string list) prog" where
  "load_cached k a tmp_dir =
     bind_m (emit (Print Msg_loading)) (\<lambda>_.
     bind_m (load_splits tmp_dir (lang a) [TRN k, VAL k, TST k] Map.empty Map.empty) (\<lambda>(idm, lb).
     bind_m (pickle_load_vocab (vocab_pkl tmp_dir (lang a))) (\<lambda>itos.
     return (idm, lb, itos))))"

definition dataset_dir_of :: "args \<Rightarrow> path" where
  "dataset_dir_of a = path_join (data_dir a) (dataset a)"

definition tmp_dir_of :: "args \<Rightarrow> path" where
  "tmp_dir_of a = path_join (dataset_dir_of a) ''tmp''"

definition prepare_data :: "utils \<Rightarrow> env \<Rightarrow> args \<Rightarrow> (ids \<times> lbls \<times> string list) prog" where
  "prepare_data k e a =
     bind_m (mkdir_exist_ok (tmp_dir_of a)) (\<lambda>_.
     bind_m (exists_m (ids_file (tmp_dir_of a) (TRN k) (lang a))) (\<lambda>cached.
     if \<not> cached then tokenize_and_cache k e a (dataset_dir_of a) (tmp_dir_of a)
     else load_cached k a (tmp_dir_of a)))"

subsection \<open>Lines 95 to 138: the calls of the framework\<close>

text \<open>
  \<^verbatim>\<open>learn.save_encoder(n)\<close>, \<^verbatim>\<open>learn.load_encoder(n)\<close> and \<^verbatim>\<open>learn.save(n)\<close> write and read
  the file \<^verbatim>\<open>n.pth\<close> in the directory \<^verbatim>\<open>learn.path / learn.model_dir\<close>.
\<close>

definition learner_dir :: "learner \<Rightarrow> path" where
  "learner_dir l = path_join (l_path l) (l_model_dir l)"

definition pth_file :: "learner \<Rightarrow> string \<Rightarrow> path" where
  "pth_file l n = path_join (learner_dir l) (n @ ''.pth'')"

definition save_encoder :: "learner \<Rightarrow> string \<Rightarrow> unit prog" where
  "save_encoder l n =
     bind_m (emit (Save_encoder n)) (\<lambda>_. write_file (pth_file l n) (Encoder_pth (l_net l)))"

definition load_encoder :: "learner \<Rightarrow> string \<Rightarrow> learner prog" where
  "load_encoder l n =
     bind_m (emit (Load_encoder n)) (\<lambda>_.
     bind_m (torch_load_encoder (pth_file l n)) (\<lambda>enc.
     return (l\<lparr>l_net := With_encoder enc (l_net l)\<rparr>)))"

definition save :: "learner \<Rightarrow> string \<Rightarrow> unit prog" where
  "save l n =
     bind_m (emit (Save n)) (\<lambda>_. write_file (pth_file l n) (Model_pth (l_net l)))"

definition unfreeze :: "target \<Rightarrow> learner \<Rightarrow> learner prog" where
  "unfreeze t l = bind_m (emit (Unfreeze t)) (\<lambda>_. return (l\<lparr>l_net := Unfrozen (l_net l)\<rparr>))"

definition freeze_to :: "target \<Rightarrow> int \<Rightarrow> learner \<Rightarrow> learner prog" where
  "freeze_to t n l =
     bind_m (emit (Freeze_to t n)) (\<lambda>_. return (l\<lparr>l_net := Frozen_to n (l_net l)\<rparr>))"

definition fit :: "target \<Rightarrow> nat \<Rightarrow> dec \<times> dec \<Rightarrow> learner \<Rightarrow> learner prog" where
  "fit t epochs lr l =
     bind_m (emit (Fit t epochs)) (\<lambda>_. return (l\<lparr>l_net := Fitted epochs lr (l_net l)\<rparr>))"

definition fit_one_cycle :: "target \<Rightarrow> learner \<Rightarrow> nat \<Rightarrow> dec \<Rightarrow> dec \<times> dec \<Rightarrow> dec \<Rightarrow> learner prog" where
  "fit_one_cycle t l cyc_len max_lr moms wd =
     bind_m (emit (Fit_one_cycle t cyc_len)) (\<lambda>_.
     return (l\<lparr>l_net := One_cycle cyc_len max_lr moms wd (l_net l)\<rparr>))"

text \<open>Lines 106 to 109.\<close>

definition arch_of :: "utils \<Rightarrow> args \<Rightarrow> arch" where
  "arch_of k a =
     \<lparr>a_bptt = bptt a, a_emb_sz = 400, a_nh = (if qrnn a then 1550 else 1150), a_nl = 3,
      a_qrnn = qrnn a, a_pad_token = PAD_TOKEN_ID k\<rparr>"

text \<open>Lines 116 to 122.\<close>

definition fine_tune_lm :: "learner \<Rightarrow> unit prog" where
  "fine_tune_lm l =
     bind_m (emit (Print Msg_fine_tuning)) (\<lambda>_.
     bind_m (unfreeze LM l) (\<lambda>l.
     bind_m (fit LM 2 (Dec 1 (- 4), Dec 1 (- 2)) l) (\<lambda>l.
     save_encoder l ''enc'')))"

text \<open>Line 60.\<close>

definition model_name :: "args \<Rightarrow> string" where
  "model_name a = (if qrnn a then ''qrnn'' else ''lstm'')"

text \<open>Lines 124 to 138, from the learner that \<^verbatim>\<open>text_classifier_learner\<close> returned.\<close>

definition train_clas :: "args \<Rightarrow> learner \<Rightarrow> unit prog" where
  "train_clas a l =
     bind_m (emit Text_classifier_learner) (\<lambda>_.
     bind_m (load_encoder l ''enc'') (\<lambda>l.
     bind_m (fit_one_cycle CLAS l 1 (Dec 5 (- 3)) (Dec 8 (- 1), Dec 7 (- 1)) (Dec 1 (- 7))) (\<lambda>l.
     bind_m (freeze_to CLAS (- 2) l) (\<lambda>l.
     bind_m (fit_one_cycle CLAS l 1 (Dec 5 (- 3)) (Dec 8 (- 1), Dec 7 (- 1)) (Dec 1 (- 7))) (\<lambda>l.
     bind_m (unfreeze CLAS l) (\<lambda>l.
     bind_m (fit_one_cycle CLAS l 10 (Dec 5 (- 3)) (Dec 8 (- 1), Dec 7 (- 1)) (Dec 1 (- 7))) (\<lambda>l.
     bind_m (emit (Print (Msg_saving (learner_dir l)))) (\<lambda>_.
     save l (model_name a @ ''_'' @ name a)))))))))"

text \<open>
  Lines 98 to 104: the two data bunches. Neither is given the ids or the labels of the
  test split.
\<close>

definition data_lm_of :: "args \<Rightarrow> string list \<Rightarrow> nat list list \<Rightarrow> nat list list \<Rightarrow> lm_bunch" where
  "data_lm_of a vocab trn_ids val_ids =
     \<lparr>lm_path = tmp_dir_of a, lm_vocab = vocab, lm_trn_ids = trn_ids, lm_val_ids = val_ids,
      lm_bs = bs a, lm_bptt = bptt a\<rparr>"

definition data_clas_of ::
  "args \<Rightarrow> string list \<Rightarrow> nat list list \<Rightarrow> nat list list \<Rightarrow> int list \<Rightarrow> int list \<Rightarrow> clas_bunch"
where
  "data_clas_of a vocab trn_ids val_ids trn_lbls val_lbls =
     \<lparr>cl_path = tmp_dir_of a, cl_vocab = vocab, cl_trn_ids = trn_ids, cl_val_ids = val_ids,
      cl_trn_lbls = trn_lbls, cl_val_lbls = val_lbls, cl_bs = bs a\<rparr>"

text \<open>Lines 110 to 114 and 124 to 126: the two learners as the framework returns them.\<close>

definition language_model_learner :: "utils \<Rightarrow> args \<Rightarrow> lm_bunch \<Rightarrow> learner" where
  "language_model_learner k a data_lm =
     \<lparr>l_path = path_parent (model_dir a), l_model_dir = path_name (model_dir a),
      l_net = Language_model data_lm (arch_of k a)
                (''lstm_'' @ pretrain_name a, ''itos_'' @ pretrain_name a)\<rparr>"

definition text_classifier_learner :: "utils \<Rightarrow> args \<Rightarrow> clas_bunch \<Rightarrow> learner" where
  "text_classifier_learner k a data_clas =
     \<lparr>l_path = path_parent (model_dir a), l_model_dir = path_name (model_dir a),
      l_net = Text_classifier data_clas (arch_of k a)\<rparr>"

text \<open>Lines 95 to 138.\<close>

definition train :: "utils \<Rightarrow> args \<Rightarrow> ids \<times> lbls \<times> string list \<Rightarrow> unit prog" where
  "train k a d = (case d of (idm, lb, vocab) \<Rightarrow>
     bind_m (getitem idm (TRN k)) (\<lambda>trn_ids.
     bind_m (getitem idm (VAL k)) (\<lambda>val_ids.
     bind_m (getitem idm (TST k)) (\<lambda>tst_ids.
     bind_m (emit (Print (Msg_sizes (length trn_ids) (length val_ids) (length tst_ids)))) (\<lambda>_.
     bind_m (emit (Lm_from_ids (data_lm_of a vocab trn_ids val_ids))) (\<lambda>_.
     bind_m (getitem lb (TRN k)) (\<lambda>trn_lbls.
     bind_m (getitem lb (VAL k)) (\<lambda>val_lbls.
     bind_m (emit (Clas_from_ids (data_clas_of a vocab trn_ids val_ids trn_lbls val_lbls))) (\<lambda>_.
     bind_m (emit Language_model_learner) (\<lambda>_.
     bind_m (if fine_tune a
             then fine_tune_lm (language_model_learner k a (data_lm_of a vocab trn_ids val_ids))
             else return ()) (\<lambda>_.
     train_clas a
       (text_classifier_learner k a
          (data_clas_of a vocab trn_ids val_ids trn_lbls val_lbls)))))))))))))"

subsection \<open>The whole function\<close>

definition new_train_clas :: "utils \<Rightarrow> env \<Rightarrow> args \<Rightarrow> unit prog" where
  "new_train_clas k e a =
     bind_m (if \<not> cuda_is_available e then emit (Print Msg_cuda_unavailable) else return ()) (\<lambda>_.
     bind_m (emit (Set_device (if \<not> cuda_is_available e then - 1 else cuda_id a))) (\<lambda>_.
     bind_m (emit (Print (Msg_dataset (dataset a) (lang a)))) (\<lambda>_.
     bind_m (check_inputs k a) (\<lambda>_.
     bind_m (if qrnn a then emit (Print Msg_using_qrnn) else return ()) (\<lambda>_.
     bind_m (prepare_data k e a) (\<lambda>d.
     train k a d))))))"

subsection \<open>Notions used to state the properties\<close>

text \<open>
  The items of the counter in the order \<^verbatim>\<open>most_common\<close> sorts them, and the words of the first
  \<open>n\<close> of them: what lines 71 and 72 leave in \<^verbatim>\<open>itos\<close> before the two reserved tokens are
  put in front.
\<close>

definition sorted_items :: "string list \<Rightarrow> (string \<times> nat) list" where
  "sorted_items ws = sort_key (\<lambda>kc. - int (snd kc)) (Counter ws)"

definition top_tokens :: "int \<Rightarrow> string list \<Rightarrow> string list" where
  "top_tokens n ws = take (nat n) (map fst (sorted_items ws))"

subsection \<open>A run on a small corpus\<close>

text \<open>
  Concrete values on which the properties below are instantiated: the constants as the
  repository could define them, a corpus of one example per split, and a file system that
  holds the three directories the script asks for and no cache.
\<close>

definition ex_utils :: utils where
  "ex_utils = \<lparr>UNK = ''<unk>'', PAD = ''<pad>'', PAD_TOKEN_ID = 1, DATASETS = [''imdb'', ''xnli''],
     TRN = ''train'', VAL = ''val'', TST = ''test''\<rparr>"

definition ex_args :: args where
  "ex_args = \<lparr>data_dir = [''data''], lang = ''en'', cuda_id = 0, pretrain_name = ''wt-103'',
     model_dir = [''models''], qrnn = True, fine_tune = True, max_vocab = 2, bs = 70, bptt = 70,
     name = ''imdb-clas'', dataset = ''imdb''\<rparr>"

definition ex_toks :: toks where
  "ex_toks = [''train'' \<mapsto> [[''a'', ''b'', ''a'']], ''val'' \<mapsto> [[''b'', ''c'']], ''test'' \<mapsto> [[''d'']]]"

definition ex_lbls :: lbls where
  "ex_lbls = [''train'' \<mapsto> [1], ''val'' \<mapsto> [0], ''test'' \<mapsto> [1]]"

definition ex_env :: env where
  "ex_env = \<lparr>cuda_is_available = False, read_clas_data = (\<lambda>p d l. Inr (ex_toks, ex_lbls))\<rparr>"

definition ex_state :: state where
  "ex_state = \<lparr>dirs = {[''data''], [''data'', ''imdb''], [''models'']}, files = Map.empty, trace = []\<rparr>"

definition ex_itos :: "string list" where
  "ex_itos = [''<unk>'', ''<pad>'', ''a'', ''b'']"

definition ex_ids :: ids where
  "ex_ids = [''train'' \<mapsto> [[2, 3, 2]], ''val'' \<mapsto> [[3, 0]], ''test'' \<mapsto> [[0]]]"

definition ex_cache :: "path \<rightharpoonup> content" where
  "ex_cache =
     [[''data'', ''imdb'', ''tmp'', ''vocab_en.pkl''] \<mapsto> Pickle_vocab ex_itos,
      [''data'', ''imdb'', ''tmp'', ''train_en_ids.npy''] \<mapsto> Npy_ids [[2, 3, 2]],
      [''data'', ''imdb'', ''tmp'', ''train_en_lbl.npy''] \<mapsto> Npy_lbl [1],
      [''data'', ''imdb'', ''tmp'', ''val_en_ids.npy''] \<mapsto> Npy_ids [[3, 0]],
      [''data'', ''imdb'', ''tmp'', ''val_en_lbl.npy''] \<mapsto> Npy_lbl [0],
      [''data'', ''imdb'', ''tmp'', ''test_en_ids.npy''] \<mapsto> Npy_ids [[0]],
      [''data'', ''imdb'', ''tmp'', ''test_en_lbl.npy''] \<mapsto> Npy_lbl [1]]"

text \<open>A second corpus: the same training and validation splits, another test split.\<close>

definition ex_toks2 :: toks where
  "ex_toks2 = [''train'' \<mapsto> [[''a'', ''b'', ''a'']], ''val'' \<mapsto> [[''b'', ''c'']],
               ''test'' \<mapsto> [[''b'', ''zz''], [''a'']]]"

definition ex_lbls2 :: lbls where
  "ex_lbls2 = [''train'' \<mapsto> [1], ''val'' \<mapsto> [0], ''test'' \<mapsto> [0, 1]]"

definition ex_env2 :: env where
  "ex_env2 = \<lparr>cuda_is_available = True, read_clas_data = (\<lambda>p d l. Inr (ex_toks2, ex_lbls2))\<rparr>"

definition ex_ids2 :: ids where
  "ex_ids2 = [''train'' \<mapsto> [[2, 3, 2]], ''val'' \<mapsto> [[3, 0]], ''test'' \<mapsto> [[3, 0], [2]]]"

definition ex_cache2 :: "path \<rightharpoonup> content" where
  "ex_cache2 =
     [[''data'', ''imdb'', ''tmp'', ''vocab_en.pkl''] \<mapsto> Pickle_vocab ex_itos,
      [''data'', ''imdb'', ''tmp'', ''train_en_ids.npy''] \<mapsto> Npy_ids [[2, 3, 2]],
      [''data'', ''imdb'', ''tmp'', ''train_en_lbl.npy''] \<mapsto> Npy_lbl [1],
      [''data'', ''imdb'', ''tmp'', ''val_en_ids.npy''] \<mapsto> Npy_ids [[3, 0]],
      [''data'', ''imdb'', ''tmp'', ''val_en_lbl.npy''] \<mapsto> Npy_lbl [0],
      [''data'', ''imdb'', ''tmp'', ''test_en_ids.npy''] \<mapsto> Npy_ids [[3, 0], [2]],
      [''data'', ''imdb'', ''tmp'', ''test_en_lbl.npy''] \<mapsto> Npy_lbl [0, 1]]"

text \<open>
  Arguments and a file system for a data directory that exists, holds the data set, and is
  not named \<^verbatim>\<open>data\<close>; and arguments that ask for IMDb in German.
\<close>

definition cx_args :: args where
  "cx_args = ex_args\<lparr>data_dir := [''mydata'']\<rparr>"

definition cx_state :: state where
  "cx_state = \<lparr>dirs = {[''mydata''], [''mydata'', ''imdb''], [''models'']}, files = Map.empty,
     trace = []\<rparr>"

definition de_args :: args where
  "de_args = ex_args\<lparr>lang := ''de''\<rparr>"

text \<open>What lines 39 to 44 print and call before the assertions.\<close>

definition prelude :: "env \<Rightarrow> args \<Rightarrow> event list" where
  "prelude e a =
     (if \<not> cuda_is_available e then [Print Msg_cuda_unavailable] else [])
     @ [Set_device (if \<not> cuda_is_available e then - 1 else cuda_id a),
        Print (Msg_dataset (dataset a) (lang a))]"

text \<open>
  The file \<^verbatim>\<open>n.pth\<close> of the learners, both made with the parent and the name of the model
  directory; the network whose encoder \<^verbatim>\<open>save_encoder\<close> writes after the fine-tuning of lines
  118 and 119; and the classifier that line 138 saves, given the encoder it loaded.
\<close>

definition learn_dir :: "args \<Rightarrow> path" where
  "learn_dir a = path_join (path_parent (model_dir a)) (path_name (model_dir a))"

definition model_file :: "args \<Rightarrow> string \<Rightarrow> path" where
  "model_file a n = path_join (learn_dir a) (n @ ''.pth'')"

text \<open>What is printed and called by lines 116 to 122, and by lines 124 to 138.\<close>

definition fine_tune_events :: "event list" where
  "fine_tune_events = [Print Msg_fine_tuning, Unfreeze LM, Fit LM 2, Save_encoder ''enc'']"

definition clas_events :: "args \<Rightarrow> event list" where
  "clas_events a =
     [Text_classifier_learner, Load_encoder ''enc'', Fit_one_cycle CLAS 1, Freeze_to CLAS (- 2),
      Fit_one_cycle CLAS 1, Unfreeze CLAS, Fit_one_cycle CLAS 10, Print (Msg_saving (learn_dir a)),
      Save (model_name a @ ''_'' @ name a)]"

definition fine_tuned :: "net \<Rightarrow> net" where
  "fine_tuned lm = Fitted 2 (Dec 1 (- 4), Dec 1 (- 2)) (Unfrozen lm)"

definition trained :: "net \<Rightarrow> net \<Rightarrow> net" where
  "trained enc clas =
     One_cycle 10 (Dec 5 (- 3)) (Dec 8 (- 1), Dec 7 (- 1)) (Dec 1 (- 7))
       (Unfrozen
         (One_cycle 1 (Dec 5 (- 3)) (Dec 8 (- 1), Dec 7 (- 1)) (Dec 1 (- 7))
           (Frozen_to (- 2)
             (One_cycle 1 (Dec 5 (- 3)) (Dec 8 (- 1), Dec 7 (- 1)) (Dec 1 (- 7))
               (With_encoder enc clas)))))"

text \<open>The learners, the encoder and the file system after the run on the small corpus.\<close>

definition ex_data_lm :: lm_bunch where
  "ex_data_lm = data_lm_of ex_args ex_itos [[2, 3, 2]] [[3, 0]]"

definition ex_data_clas :: clas_bunch where
  "ex_data_clas = data_clas_of ex_args ex_itos [[2, 3, 2]] [[3, 0]] [1] [0]"

definition ex_enc :: net where
  "ex_enc = fine_tuned (l_net (language_model_learner ex_utils ex_args ex_data_lm))"

definition ex_weights :: net where
  "ex_weights = trained ex_enc (l_net (text_classifier_learner ex_utils ex_args ex_data_clas))"

definition ex_final_files :: "path \<rightharpoonup> content" where
  "ex_final_files =
     ex_cache([''models'', ''enc.pth''] \<mapsto> Encoder_pth ex_enc,
              [''models'', ''qrnn_imdb-clas.pth''] \<mapsto> Model_pth ex_weights)"

definition ex_final :: state where
  "ex_final =
     \<lparr>dirs = insert [''data'', ''imdb'', ''tmp''] (dirs ex_state), files = ex_final_files,
      trace =
        [Print Msg_cuda_unavailable, Set_device (- 1), Print (Msg_dataset ''imdb'' ''en''),
         Print Msg_using_qrnn, Print Msg_reading,
         Read_clas_data [''data'', ''imdb''] ''imdb'' ''en'', Print (Msg_sizes 1 1 1),
         Lm_from_ids ex_data_lm, Clas_from_ids ex_data_clas, Language_model_learner,
         Print Msg_fine_tuning, Unfreeze LM, Fit LM 2, Save_encoder ''enc'',
         Text_classifier_learner, Load_encoder ''enc'', Fit_one_cycle CLAS 1,
         Freeze_to CLAS (- 2), Fit_one_cycle CLAS 1, Unfreeze CLAS, Fit_one_cycle CLAS 10,
         Print (Msg_saving [''models'']), Save ''qrnn_imdb-clas'']\<rparr>"

text \<open>The seven files of the cache, in the order in which lines 89 to 93 read them.\<close>

definition cache_files :: "utils \<Rightarrow> args \<Rightarrow> path list" where
  "cache_files k a =
     [ids_file (tmp_dir_of a) (TRN k) (lang a), lbl_file (tmp_dir_of a) (TRN k) (lang a),
      ids_file (tmp_dir_of a) (VAL k) (lang a), lbl_file (tmp_dir_of a) (VAL k) (lang a),
      ids_file (tmp_dir_of a) (TST k) (lang a), lbl_file (tmp_dir_of a) (TST k) (lang a),
      vocab_pkl (tmp_dir_of a) (lang a)]"

text \<open>
  The file system after the data of the small corpus was computed, and one in which a run
  was cut short after it had written the vocabulary and the training ids.
\<close>

definition ex_cached :: state where
  "ex_cached =
     \<lparr>dirs = insert [''data'', ''imdb'', ''tmp''] (dirs ex_state), files = ex_cache,
      trace = [Print Msg_reading, Read_clas_data [''data'', ''imdb''] ''imdb'' ''en'']\<rparr>"

definition ex_partial :: state where
  "ex_partial =
     \<lparr>dirs = insert [''data'', ''imdb'', ''tmp''] (dirs ex_state),
      files = [[''data'', ''imdb'', ''tmp'', ''vocab_en.pkl''] \<mapsto> Pickle_vocab ex_itos,
               [''data'', ''imdb'', ''tmp'', ''train_en_ids.npy''] \<mapsto> Npy_ids [[2, 3, 2]]],
      trace = []\<rparr>"

text \<open>The file system after the run on the second corpus, where CUDA is available.\<close>

definition ex_final2 :: state where
  "ex_final2 =
     \<lparr>dirs = insert [''data'', ''imdb'', ''tmp''] (dirs ex_state),
      files = ex_cache2([''models'', ''enc.pth''] \<mapsto> Encoder_pth ex_enc,
                        [''models'', ''qrnn_imdb-clas.pth''] \<mapsto> Model_pth ex_weights),
      trace =
        [Set_device 0, Print (Msg_dataset ''imdb'' ''en''),
         Print Msg_using_qrnn, Print Msg_reading,
         Read_clas_data [''data'', ''imdb''] ''imdb'' ''en'', Print (Msg_sizes 1 1 2),
         Lm_from_ids ex_data_lm, Clas_from_ids ex_data_clas, Language_model_learner,
         Print Msg_fine_tuning, Unfreeze LM, Fit LM 2, Save_encoder ''enc'',
         Text_classifier_learner, Load_encoder ''enc'', Fit_one_cycle CLAS 1,
         Freeze_to CLAS (- 2), Fit_one_cycle CLAS 1, Unfreeze CLAS, Fit_one_cycle CLAS 10,
         Print (Msg_saving [''models'']), Save ''qrnn_imdb-clas'']\<rparr>"

text \<open>
  What a step may change. \<open>touches ok D E s s'\<close>: from \<open>s\<close> to \<open>s'\<close>, every file whose
  content changed holds a content that \<open>ok\<close> allows at its path, no directory was removed
  and the new ones are in \<open>D\<close>, and the trace grew by events that \<open>E\<close> allows. A program
  \<open>frames\<close> a relation when every one of its outcomes, value or exception, is within it.
\<close>

definition touches ::
  "(path \<Rightarrow> content \<Rightarrow> bool) \<Rightarrow> path set \<Rightarrow> (event \<Rightarrow> bool) \<Rightarrow> state \<Rightarrow> state \<Rightarrow> bool"
where
  "touches ok D E s s' \<longleftrightarrow>
     (\<forall>p. files s' p \<noteq> files s p \<longrightarrow> (\<exists>c. files s' p = Some c \<and> ok p c))
   \<and> dirs s \<subseteq> dirs s' \<and> dirs s' \<subseteq> dirs s \<union> D
   \<and> (\<exists>evs. trace s' = trace s @ evs \<and> (\<forall>ev \<in> set evs. E ev))"

definition frames :: "(state \<Rightarrow> state \<Rightarrow> bool) \<Rightarrow> 'a prog \<Rightarrow> bool" where
  "frames R m \<longleftrightarrow> (\<forall>s r s'. m s = (r, s') \<longrightarrow> R s s')"

definition is_cache_content :: "content \<Rightarrow> bool" where
  "is_cache_content c =
     (case c of Npy_ids _ \<Rightarrow> True | Npy_lbl _ \<Rightarrow> True | Pickle_vocab _ \<Rightarrow> True | _ \<Rightarrow> False)"

definition is_weights :: "content \<Rightarrow> bool" where
  "is_weights c = (case c of Encoder_pth _ \<Rightarrow> True | Model_pth _ \<Rightarrow> True | _ \<Rightarrow> False)"

text \<open>What the whole script needs to be allowed, with and without the fine-tuning.\<close>

definition permits ::
  "utils \<Rightarrow> args \<Rightarrow> (path \<Rightarrow> content \<Rightarrow> bool) \<Rightarrow> path set \<Rightarrow> (event \<Rightarrow> bool) \<Rightarrow> bool"
where
  "permits k a ok D E \<longleftrightarrow>
     tmp_dir_of a \<in> D
   \<and> (\<forall>p c. p \<in> set (cache_files k a) \<and> is_cache_content c \<longrightarrow> ok p c)
   \<and> (fine_tune a \<longrightarrow> (\<forall>n. ok (model_file a ''enc'') (Encoder_pth n)))
   \<and> (\<forall>n. ok (model_file a (model_name a @ ''_'' @ name a)) (Model_pth n))
   \<and> (\<forall>ev. ev \<notin> set fine_tune_events \<longrightarrow> E ev)
   \<and> (fine_tune a \<longrightarrow> (\<forall>ev \<in> set fine_tune_events. E ev))"

text \<open>The arguments of the small run with the fine-tuning switched off.\<close>

definition nf_args :: args where
  "nf_args = ex_args\<lparr>fine_tune := False\<rparr>"

text \<open>
  Where the small run without fine-tuning stops when no encoder was saved before
  (\<^verbatim>\<open>load_encoder\<close> finds no file), and what it prints and calls when it is started on the
  file system that the run with fine-tuning left.
\<close>

definition nf_stuck :: state where
  "nf_stuck =
     \<lparr>dirs = insert [''data'', ''imdb'', ''tmp''] (dirs ex_state), files = ex_cache,
      trace =
        [Print Msg_cuda_unavailable, Set_device (- 1), Print (Msg_dataset ''imdb'' ''en''),
         Print Msg_using_qrnn, Print Msg_reading,
         Read_clas_data [''data'', ''imdb''] ''imdb'' ''en'', Print (Msg_sizes 1 1 1),
         Lm_from_ids ex_data_lm, Clas_from_ids ex_data_clas, Language_model_learner,
         Text_classifier_learner, Load_encoder ''enc'']\<rparr>"

definition nf_events :: "event list" where
  "nf_events =
     [Print Msg_cuda_unavailable, Set_device (- 1), Print (Msg_dataset ''imdb'' ''en''),
      Print Msg_using_qrnn, Print Msg_loading, Print (Msg_sizes 1 1 1),
      Lm_from_ids ex_data_lm, Clas_from_ids ex_data_clas, Language_model_learner,
      Text_classifier_learner, Load_encoder ''enc'', Fit_one_cycle CLAS 1,
      Freeze_to CLAS (- 2), Fit_one_cycle CLAS 1, Unfreeze CLAS, Fit_one_cycle CLAS 10,
      Print (Msg_saving [''models'']), Save ''qrnn_imdb-clas'']"

definition nf_done :: state where
  "nf_done = ex_final\<lparr>trace := trace ex_final @ nf_events\<rparr>"

text \<open>
  A third corpus, whose training split holds the two reserved strings themselves, with the
  token list, the ids and the cache that the script makes of it.
\<close>

definition rs_toks :: toks where
  "rs_toks = [''train'' \<mapsto> [[''<unk>'', ''<pad>'', ''<unk>'']], ''val'' \<mapsto> [[''zz'']],
              ''test'' \<mapsto> [[''<pad>'']]]"

definition rs_env :: env where
  "rs_env = \<lparr>cuda_is_available = False, read_clas_data = (\<lambda>p d l. Inr (rs_toks, ex_lbls))\<rparr>"

definition rs_itos :: "string list" where
  "rs_itos = [''<unk>'', ''<pad>'', ''<unk>'', ''<pad>'']"

definition rs_ids :: ids where
  "rs_ids = [''train'' \<mapsto> [[2, 3, 2]], ''val'' \<mapsto> [[2]], ''test'' \<mapsto> [[3]]]"

definition rs_cache :: "path \<rightharpoonup> content" where
  "rs_cache =
     [[''data'', ''imdb'', ''tmp'', ''vocab_en.pkl''] \<mapsto> Pickle_vocab rs_itos,
      [''data'', ''imdb'', ''tmp'', ''train_en_ids.npy''] \<mapsto> Npy_ids [[2, 3, 2]],
      [''data'', ''imdb'', ''tmp'', ''train_en_lbl.npy''] \<mapsto> Npy_lbl [1],
      [''data'', ''imdb'', ''tmp'', ''val_en_ids.npy''] \<mapsto> Npy_ids [[2]],
      [''data'', ''imdb'', ''tmp'', ''val_en_lbl.npy''] \<mapsto> Npy_lbl [0],
      [''data'', ''imdb'', ''tmp'', ''test_en_ids.npy''] \<mapsto> Npy_ids [[3]],
      [''data'', ''imdb'', ''tmp'', ''test_en_lbl.npy''] \<mapsto> Npy_lbl [1]]"

section \<open>Properties\<close>

subsection \<open>The counter and the most common words\<close>

lemma counter_add_keys:
  "map fst (counter_add kcs w) = (if w \<in> set (map fst kcs) then map fst kcs else map fst kcs @ [w])"
  by (induction kcs w rule: counter_add.induct) auto

lemma counter_add_lookup:
  "distinct (map fst kcs) \<Longrightarrow>
   map_of (counter_add kcs w) v =
     (if v = w then Some (case map_of kcs w of None \<Rightarrow> 1 | Some c \<Rightarrow> c + 1) else map_of kcs v)"
  by (induction kcs w rule: counter_add.induct) (auto simp: rev_image_eqI split: option.splits)

lemma Counter_snoc: "Counter (ws @ [w]) = counter_add (Counter ws) w"
  by (simp add: Counter_def)

lemma Counter_keys: "distinct (map fst (Counter ws)) \<and> set (map fst (Counter ws)) = set ws"
proof (induction ws rule: rev_induct)
  case Nil
  show ?case by (simp add: Counter_def)
next
  case (snoc w ws)
  then show ?case by (auto simp: Counter_snoc counter_add_keys)
qed

lemma Counter_lookup:
  "map_of (Counter ws) v = (if v \<in> set ws then Some (count_list ws v) else None)"
proof (induction ws rule: rev_induct)
  case Nil
  show ?case by (simp add: Counter_def)
next
  case (snoc w ws)
  then show ?case
    using Counter_keys [of ws] by (auto simp: Counter_snoc counter_add_lookup)
qed

lemma Counter_count: "(w, c) \<in> set (Counter ws) \<Longrightarrow> c = count_list ws w"
  using Counter_keys [of ws] Counter_lookup [of ws w]
  by (auto dest!: map_of_is_SomeI [rotated] split: if_splits)

lemma sorted_items_keys:
  "distinct (map fst (sorted_items ws))" "set (map fst (sorted_items ws)) = set ws"
  using Counter_keys [of ws] by (simp_all add: sorted_items_def distinct_map)

lemma sorted_items_count: "(w, c) \<in> set (sorted_items ws) \<Longrightarrow> c = count_list ws w"
  by (simp add: sorted_items_def Counter_count)

lemma sorted_items_snd: "map snd (sorted_items ws) = map (count_list ws) (map fst (sorted_items ws))"
  by (auto simp: sorted_items_count)

lemma sorted_items_desc:
  "sorted_wrt (\<lambda>v w. count_list ws w \<le> count_list ws v) (map fst (sorted_items ws))"
proof -
  have "sorted (map (\<lambda>kc. - int (snd kc)) (sorted_items ws))"
    by (simp add: sorted_items_def)
  then have "sorted_wrt (\<lambda>x y. snd y \<le> snd x) (sorted_items ws)"
    by (simp add: sorted_wrt_map)
  then have "sorted_wrt (\<lambda>x y. count_list ws (fst y) \<le> count_list ws (fst x)) (sorted_items ws)"
    by (rule sorted_wrt_mono_rel [rotated]) (use sorted_items_count in fastforce)
  then show ?thesis by (simp add: sorted_wrt_map)
qed

lemma build_itos_eq: "build_itos k n exs = UNK k # PAD k # top_tokens n (concat exs)"
  by (simp add: build_itos_def most_common_def sorted_items_def top_tokens_def take_map)

lemma top_tokens_distinct: "distinct (top_tokens n ws)"
  by (simp add: top_tokens_def sorted_items_keys)

lemma top_tokens_subset: "set (top_tokens n ws) \<subseteq> set ws"
  using set_take_subset [of "nat n" "map fst (sorted_items ws)"]
  by (simp only: top_tokens_def sorted_items_keys)

lemma top_tokens_length: "length (top_tokens n ws) = min (nat n) (card (set ws))"
proof -
  have "length (map fst (sorted_items ws)) = card (set ws)"
    using distinct_card [OF sorted_items_keys(1), of ws] by (simp only: sorted_items_keys)
  then show ?thesis by (simp add: top_tokens_def min.commute)
qed

lemma top_tokens_desc:
  "sorted_wrt (\<lambda>v w. count_list ws w \<le> count_list ws v) (top_tokens n ws)"
  unfolding top_tokens_def by (rule sorted_wrt_take [OF sorted_items_desc])

lemma top_tokens_most_frequent:
  assumes "w \<in> set (top_tokens n ws)" and "v \<in> set ws" and "v \<notin> set (top_tokens n ws)"
  shows "count_list ws v \<le> count_list ws w"
proof -
  let ?keys = "map fst (sorted_items ws)"
  have split: "?keys = top_tokens n ws @ drop (nat n) ?keys"
    by (simp add: top_tokens_def)
  have "v \<in> set ?keys" using assms(2) by (simp only: sorted_items_keys)
  then have "v \<in> set (top_tokens n ws) \<union> set (drop (nat n) ?keys)"
    by (subst (asm) split) simp
  with assms(3) have v: "v \<in> set (drop (nat n) ?keys)" by blast
  have "sorted_wrt (\<lambda>v w. count_list ws w \<le> count_list ws v) (top_tokens n ws @ drop (nat n) ?keys)"
    using sorted_items_desc [of ws] split by simp
  then show ?thesis using assms(1) v by (simp add: sorted_wrt_append)
qed

subsection \<open>The string-to-id dictionary\<close>

lemma Vocab_stoi_Nil: "Vocab_stoi [] = Map.empty"
  by (simp add: Vocab_stoi_def)

lemma Vocab_stoi_snoc: "Vocab_stoi (xs @ [x]) = (Vocab_stoi xs)(x \<mapsto> length xs)"
  by (simp add: Vocab_stoi_def enumerate_append_eq)

lemma Vocab_stoi_dom: "dom (Vocab_stoi xs) = set xs"
proof (induction xs rule: rev_induct)
  case Nil
  show ?case by (simp add: Vocab_stoi_Nil)
next
  case (snoc x xs)
  have "dom (Vocab_stoi (xs @ [x])) = insert x (dom (Vocab_stoi xs))"
    by (simp only: Vocab_stoi_snoc dom_fun_upd) simp
  with snoc show ?case by simp
qed

lemma Vocab_stoi_Some: "Vocab_stoi xs w = Some i \<Longrightarrow> i < length xs \<and> xs ! i = w"
proof (induction xs rule: rev_induct)
  case Nil
  then show ?case by (simp add: Vocab_stoi_Nil)
next
  case (snoc x xs)
  then show ?case
    by (auto simp: Vocab_stoi_snoc nth_append less_Suc_eq split: if_splits)
qed

lemma Vocab_stoi_last:
  "i < length xs \<Longrightarrow> xs ! i = w \<Longrightarrow> w \<notin> set (drop (Suc i) xs) \<Longrightarrow> Vocab_stoi xs w = Some i"
proof (induction xs rule: rev_induct)
  case Nil
  then show ?case by simp
next
  case (snoc x xs)
  show ?case
  proof (cases "i = length xs")
    case True
    with snoc.prems show ?thesis by (simp add: Vocab_stoi_snoc)
  next
    case False
    with snoc.prems have i: "i < length xs" by simp
    with snoc.prems have "w \<noteq> x" "xs ! i = w" "w \<notin> set (drop (Suc i) xs)"
      by (auto simp: nth_append)
    with snoc.IH i show ?thesis by (simp add: Vocab_stoi_snoc)
  qed
qed

lemma Vocab_stoi_reserved:
  assumes "u \<noteq> p" and "u \<notin> set rest" and "p \<notin> set rest"
  shows "Vocab_stoi (u # p # rest) u = Some 0" and "Vocab_stoi (u # p # rest) p = Some 1"
  using assms Vocab_stoi_last [of 0 "u # p # rest" u] Vocab_stoi_last [of 1 "u # p # rest" p]
  by simp_all

lemma Vocab_stoi_UNK: "Vocab_stoi (build_itos k n exs) (UNK k) \<noteq> None"
  using Vocab_stoi_dom [of "build_itos k n exs"] by (auto simp: build_itos_eq)

lemma numericalize_length: "length (numericalize k stoi exs) = length exs"
  by (simp add: numericalize_def)

lemma numericalize_nth:
  "i < length exs \<Longrightarrow> j < length (exs ! i) \<Longrightarrow>
   length (numericalize k stoi exs ! i) = length (exs ! i) \<and>
   numericalize k stoi exs ! i ! j =
     (case stoi (exs ! i ! j) of Some n \<Rightarrow> n | None \<Rightarrow> stoi_getitem stoi (UNK k))"
  by (simp add: numericalize_def stoi_get_def)

subsection \<open>Paths of the cache\<close>

lemma ids_file_eq: "ids_file td sp lg = td @ [sp @ ''_'' @ lg @ ''_ids.npy'']"
  by (simp add: ids_file_def path_join_def)

lemma lbl_file_eq: "lbl_file td sp lg = td @ [sp @ ''_'' @ lg @ ''_lbl.npy'']"
  by (simp add: lbl_file_def path_join_def)

lemma vocab_pkl_eq: "vocab_pkl td lg = td @ [''vocab_'' @ lg @ ''.pkl'']"
  by (simp add: vocab_pkl_def path_join_def)

lemma ids_file_inj [simp]: "ids_file td sp lg = ids_file td sp' lg \<longleftrightarrow> sp = sp'"
  by (simp add: ids_file_eq)

lemma lbl_file_inj [simp]: "lbl_file td sp lg = lbl_file td sp' lg \<longleftrightarrow> sp = sp'"
  by (simp add: lbl_file_eq)

lemma ids_neq_lbl [simp]: "ids_file td sp lg \<noteq> lbl_file td sp' lg" "lbl_file td sp' lg \<noteq> ids_file td sp lg"
proof -
  have "(sp @ ''_'' @ lg) @ ''_ids.npy'' \<noteq> (sp' @ ''_'' @ lg) @ ''_lbl.npy''"
    by (subst append_eq_append_conv) simp_all
  then show "ids_file td sp lg \<noteq> lbl_file td sp' lg" "lbl_file td sp' lg \<noteq> ids_file td sp lg"
    by (auto simp: ids_file_eq lbl_file_eq)
qed

lemma vocab_neq_npy [simp]:
  "vocab_pkl td lg \<noteq> ids_file td sp lg" "ids_file td sp lg \<noteq> vocab_pkl td lg"
  "vocab_pkl td lg \<noteq> lbl_file td sp lg" "lbl_file td sp lg \<noteq> vocab_pkl td lg"
proof -
  have a: "(''vocab_'' @ lg) @ ''.pkl'' \<noteq> (sp @ ''_'' @ lg @ ''_ids'') @ ''.npy''"
    by (subst append_eq_append_conv) simp_all
  have b: "(''vocab_'' @ lg) @ ''.pkl'' \<noteq> (sp @ ''_'' @ lg @ ''_lbl'') @ ''.npy''"
    by (subst append_eq_append_conv) simp_all
  show "vocab_pkl td lg \<noteq> ids_file td sp lg" "ids_file td sp lg \<noteq> vocab_pkl td lg"
    using a by (auto simp: ids_file_eq vocab_pkl_eq)
  show "vocab_pkl td lg \<noteq> lbl_file td sp lg" "lbl_file td sp lg \<noteq> vocab_pkl td lg"
    using b by (auto simp: lbl_file_eq vocab_pkl_eq)
qed

lemma path_parent_snoc: "n \<noteq> ''/'' \<Longrightarrow> path_parent (td @ [n]) = td"
  by (simp add: path_parent_def)

lemma cache_parent [simp]:
  "path_parent (ids_file td sp lg) = td" "path_parent (lbl_file td sp lg) = td"
  "path_parent (vocab_pkl td lg) = td"
proof -
  have "sp @ ''_'' @ lg @ ''_ids.npy'' \<noteq> ''/''" "sp @ ''_'' @ lg @ ''_lbl.npy'' \<noteq> ''/''"
    "''vocab_'' @ lg @ ''.pkl'' \<noteq> ''/''"
    by (auto simp: append_eq_Cons_conv)
  then show "path_parent (ids_file td sp lg) = td" "path_parent (lbl_file td sp lg) = td"
    "path_parent (vocab_pkl td lg) = td"
    by (simp_all add: ids_file_eq lbl_file_eq vocab_pkl_eq path_parent_snoc)
qed

lemma cache_neq_dir [simp]:
  "ids_file td sp lg \<noteq> td" "lbl_file td sp lg \<noteq> td" "vocab_pkl td lg \<noteq> td"
  by (simp_all add: ids_file_eq lbl_file_eq vocab_pkl_eq)

subsection \<open>Steps in sequence\<close>

lemma bind_m_Inr:
  "bind_m m f s = (Inr v, s') \<longleftrightarrow> (\<exists>x s1. m s = (Inr x, s1) \<and> f x s1 = (Inr v, s'))"
  by (auto simp: bind_m_def split: prod.splits sum.splits)

lemma bind_m_Inl:
  "bind_m m f s = (Inl e, s') \<longleftrightarrow>
     m s = (Inl e, s') \<or> (\<exists>x s1. m s = (Inr x, s1) \<and> f x s1 = (Inl e, s'))"
  by (auto simp: bind_m_def split: prod.splits sum.splits)

lemma bind_m_step: "m s = (Inr x, s1) \<Longrightarrow> bind_m m f s = f x s1"
  by (simp add: bind_m_def)

lemma bind_m_fail: "m s = (Inl e, s1) \<Longrightarrow> bind_m m f s = (Inl e, s1)"
  by (simp add: bind_m_def)

lemma return_eq: "return x s = (r, s') \<longleftrightarrow> r = Inr x \<and> s' = s"
  by (auto simp: return_def)

lemma raise_eq: "raise e s = (r, s') \<longleftrightarrow> r = Inl e \<and> s' = s"
  by (auto simp: raise_def)

lemma emit_eq: "emit ev s = (r, s') \<longleftrightarrow> r = Inr () \<and> s' = s\<lparr>trace := trace s @ [ev]\<rparr>"
  by (auto simp: emit_def)

lemma getitem_Inr: "getitem d key s = (Inr v, s') \<longleftrightarrow> d key = Some v \<and> s' = s"
  by (auto simp: getitem_def return_def raise_def split: option.splits)

lemma write_file_Inr:
  "write_file p c s = (Inr u, s') \<longleftrightarrow>
     p \<notin> dirs s \<and> path_parent p \<in> dirs s \<and> s' = s\<lparr>files := (files s)(p \<mapsto> c)\<rparr>"
  by (auto simp: write_file_def)

lemma read_file_Inr: "read_file p s = (Inr c, s') \<longleftrightarrow> files s p = Some c \<and> s' = s"
  by (auto simp: read_file_def split: option.splits)

lemma np_load_ids_Inr: "np_load_ids p s = (Inr a, s') \<longleftrightarrow> files s p = Some (Npy_ids a) \<and> s' = s"
  by (cases "files s p")
    (auto simp: np_load_ids_def bind_m_def read_file_def return_def raise_def split: content.splits)

lemma np_load_lbl_Inr: "np_load_lbl p s = (Inr a, s') \<longleftrightarrow> files s p = Some (Npy_lbl a) \<and> s' = s"
  by (cases "files s p")
    (auto simp: np_load_lbl_def bind_m_def read_file_def return_def raise_def split: content.splits)

lemma pickle_load_vocab_Inr:
  "pickle_load_vocab p s = (Inr v, s') \<longleftrightarrow> files s p = Some (Pickle_vocab v) \<and> s' = s"
  by (cases "files s p")
    (auto simp: pickle_load_vocab_def bind_m_def read_file_def return_def raise_def split: content.splits)

lemma torch_load_encoder_Inr:
  "torch_load_encoder p s = (Inr n, s') \<longleftrightarrow> files s p = Some (Encoder_pth n) \<and> s' = s"
  by (cases "files s p")
    (auto simp: torch_load_encoder_def bind_m_def read_file_def return_def raise_def split: content.splits)

lemma mkdir_exist_ok_Inr:
  "mkdir_exist_ok p s = (Inr u, s') \<longleftrightarrow>
     (p \<in> dirs s \<and> s' = s) \<or>
     (p \<notin> dirs s \<and> files s p = None \<and> path_parent p \<in> dirs s \<and> s' = s\<lparr>dirs := insert p (dirs s)\<rparr>)"
  by (auto simp: mkdir_exist_ok_def)

lemma exists_m_eq: "exists_m p s = (r, s') \<longleftrightarrow> r = Inr (path_exists s p) \<and> s' = s"
  by (auto simp: exists_m_def)

lemma call_read_clas_data_Inr:
  "call_read_clas_data e dd ds lg s = (Inr r, s') \<longleftrightarrow>
     read_clas_data e dd ds lg = Inr r \<and> s' = s\<lparr>trace := trace s @ [Read_clas_data dd ds lg]\<rparr>"
  by (auto simp: call_read_clas_data_def bind_m_Inr emit_eq return_eq raise_eq split: sum.splits)

lemmas step_simps =
  bind_m_Inr return_eq raise_eq emit_eq getitem_Inr write_file_Inr read_file_Inr
  np_load_ids_Inr np_load_lbl_Inr pickle_load_vocab_Inr torch_load_encoder_Inr exists_m_eq
  call_read_clas_data_Inr

subsection \<open>Computing and saving the splits\<close>

lemma save_splits_Inr:
  assumes "save_splits k td lg stoi tk lb splits idm s = (Inr idm', s')"
  shows "(\<forall>sp \<in> set splits. \<exists>ex l. tk sp = Some ex \<and> lb sp = Some l
            \<and> idm' sp = Some (numericalize k stoi ex)
            \<and> files s' (ids_file td sp lg) = Some (Npy_ids (numericalize k stoi ex))
            \<and> files s' (lbl_file td sp lg) = Some (Npy_lbl l))
       \<and> (\<forall>sp. sp \<notin> set splits \<longrightarrow> idm' sp = idm sp)
       \<and> (\<forall>p. (\<forall>sp \<in> set splits. p \<noteq> ids_file td sp lg \<and> p \<noteq> lbl_file td sp lg)
             \<longrightarrow> files s' p = files s p)
       \<and> dirs s' = dirs s \<and> trace s' = trace s"
  using assms
proof (induction splits arbitrary: idm s)
  case Nil
  then show ?case by (simp add: return_eq)
next
  case (Cons sp rest)
  from Cons.prems obtain ex l where
    ex: "tk sp = Some ex" and l: "lb sp = Some l" and
    rest: "save_splits k td lg stoi tk lb rest (idm(sp \<mapsto> numericalize k stoi ex))
             (s\<lparr>files := (files s)(ids_file td sp lg \<mapsto> Npy_ids (numericalize k stoi ex),
                                   lbl_file td sp lg \<mapsto> Npy_lbl l)\<rparr>) = (Inr idm', s')"
    by (auto simp: step_simps)
  note IH = Cons.IH [OF rest]
  from IH have fr: "\<And>p. (\<forall>sp \<in> set rest. p \<noteq> ids_file td sp lg \<and> p \<noteq> lbl_file td sp lg) \<Longrightarrow>
      files s' p = ((files s)(ids_file td sp lg \<mapsto> Npy_ids (numericalize k stoi ex),
                              lbl_file td sp lg \<mapsto> Npy_lbl l)) p"
    by simp
  show ?case
  proof (intro conjI ballI allI impI)
    fix sp' assume "sp' \<in> set (sp # rest)"
    show "\<exists>ex l. tk sp' = Some ex \<and> lb sp' = Some l
            \<and> idm' sp' = Some (numericalize k stoi ex)
            \<and> files s' (ids_file td sp' lg) = Some (Npy_ids (numericalize k stoi ex))
            \<and> files s' (lbl_file td sp' lg) = Some (Npy_lbl l)"
    proof (cases "sp' \<in> set rest")
      case True
      with IH show ?thesis by blast
    next
      case False
      with \<open>sp' \<in> set (sp # rest)\<close> have eq: "sp' = sp" by simp
      from IH False eq have "idm' sp = Some (numericalize k stoi ex)" by simp
      moreover from False eq
      have "files s' (ids_file td sp lg) = Some (Npy_ids (numericalize k stoi ex))"
        using fr [of "ids_file td sp lg"] by auto
      moreover from False eq
      have "files s' (lbl_file td sp lg) = Some (Npy_lbl l)"
        using fr [of "lbl_file td sp lg"] by auto
      ultimately show ?thesis using ex l eq by simp
    qed
  next
    fix sp' assume "sp' \<notin> set (sp # rest)"
    with IH show "idm' sp' = idm sp'" by simp
  next
    fix p assume "\<forall>sp' \<in> set (sp # rest). p \<noteq> ids_file td sp' lg \<and> p \<noteq> lbl_file td sp' lg"
    then show "files s' p = files s p" using fr [of p] by simp
  next
    from IH show "dirs s' = dirs s" by simp
    from IH show "trace s' = trace s" by simp
  qed
qed

subsection \<open>Reading the splits back\<close>

lemma read_file_Inl:
  "read_file p s = (Inl err, s') \<longleftrightarrow>
     files s p = None \<and> err = (if p \<in> dirs s then IsADirectoryError p else FileNotFoundError p)
     \<and> s' = s"
  by (auto simp: read_file_def split: option.splits)

lemma np_load_ids_Inl:
  "np_load_ids p s = (Inl err, s') \<Longrightarrow>
     s' = s \<and> (\<nexists>a. files s p = Some (Npy_ids a)) \<and>
     err \<in> {FileNotFoundError p, IsADirectoryError p, ValueError p}"
  by (cases "files s p")
    (auto simp: np_load_ids_def bind_m_def read_file_def return_def raise_def
          split: content.splits if_splits)

lemma np_load_lbl_Inl:
  "np_load_lbl p s = (Inl err, s') \<Longrightarrow>
     s' = s \<and> (\<nexists>a. files s p = Some (Npy_lbl a)) \<and>
     err \<in> {FileNotFoundError p, IsADirectoryError p, ValueError p}"
  by (cases "files s p")
    (auto simp: np_load_lbl_def bind_m_def read_file_def return_def raise_def
          split: content.splits if_splits)

lemma pickle_load_vocab_Inl:
  "pickle_load_vocab p s = (Inl err, s') \<Longrightarrow>
     s' = s \<and> (\<nexists>a. files s p = Some (Pickle_vocab a)) \<and>
     err \<in> {FileNotFoundError p, IsADirectoryError p, ValueError p}"
  by (cases "files s p")
    (auto simp: pickle_load_vocab_def bind_m_def read_file_def return_def raise_def
          split: content.splits if_splits)

lemma load_missing:
  "files s p = None \<Longrightarrow> p \<notin> dirs s \<Longrightarrow>
     np_load_ids p s = (Inl (FileNotFoundError p), s) \<and>
     np_load_lbl p s = (Inl (FileNotFoundError p), s) \<and>
     pickle_load_vocab p s = (Inl (FileNotFoundError p), s)"
  by (simp add: np_load_ids_def np_load_lbl_def pickle_load_vocab_def bind_m_def read_file_def)

lemma load_splits_Inr:
  assumes "load_splits td lg splits idm lb s = (Inr (idm', lb'), s')"
  shows "s' = s
       \<and> (\<forall>sp \<in> set splits. \<exists>a l. files s (ids_file td sp lg) = Some (Npy_ids a)
             \<and> files s (lbl_file td sp lg) = Some (Npy_lbl l)
             \<and> idm' sp = Some a \<and> lb' sp = Some l)
       \<and> (\<forall>sp. sp \<notin> set splits \<longrightarrow> idm' sp = idm sp \<and> lb' sp = lb sp)"
  using assms
proof (induction splits arbitrary: idm lb)
  case Nil
  then show ?case by (simp add: return_eq)
next
  case (Cons sp rest)
  from Cons.prems obtain a l where
    a: "files s (ids_file td sp lg) = Some (Npy_ids a)" and
    l: "files s (lbl_file td sp lg) = Some (Npy_lbl l)" and
    rest: "load_splits td lg rest (idm(sp \<mapsto> a)) (lb(sp \<mapsto> l)) s = (Inr (idm', lb'), s')"
    by (auto simp: step_simps)
  note IH = Cons.IH [OF rest]
  show ?case
  proof (intro conjI ballI allI impI)
    from IH show "s' = s" by simp
  next
    fix sp' assume in_set: "sp' \<in> set (sp # rest)"
    show "\<exists>a l. files s (ids_file td sp' lg) = Some (Npy_ids a)
             \<and> files s (lbl_file td sp' lg) = Some (Npy_lbl l)
             \<and> idm' sp' = Some a \<and> lb' sp' = Some l"
    proof (cases "sp' \<in> set rest")
      case True
      with IH show ?thesis by blast
    next
      case False
      with in_set have "sp' = sp" by simp
      with IH False a l show ?thesis by simp
    qed
  next
    fix sp' assume "sp' \<notin> set (sp # rest)"
    with IH show "idm' sp' = idm sp'" by simp
  next
    fix sp' assume "sp' \<notin> set (sp # rest)"
    with IH show "lb' sp' = lb sp'" by simp
  qed
qed

lemma load_splits_Inl:
  assumes "load_splits td lg splits idm lb s = (Inl err, s')"
  shows "s' = s \<and> (\<exists>sp \<in> set splits.
           ((\<nexists>a. files s (ids_file td sp lg) = Some (Npy_ids a)) \<and>
             err \<in> {FileNotFoundError (ids_file td sp lg), IsADirectoryError (ids_file td sp lg),
                     ValueError (ids_file td sp lg)})
         \<or> ((\<nexists>l. files s (lbl_file td sp lg) = Some (Npy_lbl l)) \<and>
             err \<in> {FileNotFoundError (lbl_file td sp lg), IsADirectoryError (lbl_file td sp lg),
                     ValueError (lbl_file td sp lg)}))"
  using assms
proof (induction splits arbitrary: idm lb)
  case Nil
  then show ?case by (simp add: return_eq)
next
  case (Cons sp rest)
  from Cons.prems consider
      (ids) "np_load_ids (ids_file td sp lg) s = (Inl err, s')"
    | (lbl) a where "np_load_ids (ids_file td sp lg) s = (Inr a, s)"
        "np_load_lbl (lbl_file td sp lg) s = (Inl err, s')"
    | (rest) a l where "load_splits td lg rest (idm(sp \<mapsto> a)) (lb(sp \<mapsto> l)) s = (Inl err, s')"
    by (auto simp: bind_m_Inl np_load_ids_Inr np_load_lbl_Inr)
  then show ?case
  proof cases
    case ids
    from np_load_ids_Inl [OF ids] show ?thesis by auto
  next
    case lbl
    from np_load_lbl_Inl [OF lbl(2)] show ?thesis by auto
  next
    case rest
    from Cons.IH [OF rest] show ?thesis by auto
  qed
qed

lemma load_splits_total:
  assumes "\<forall>sp \<in> set splits. (\<exists>a. files s (ids_file td sp lg) = Some (Npy_ids a))
             \<and> (\<exists>l. files s (lbl_file td sp lg) = Some (Npy_lbl l))"
  shows "\<exists>idm' lb'. load_splits td lg splits idm lb s = (Inr (idm', lb'), s)"
proof (cases "load_splits td lg splits idm lb s")
  case (Pair r s')
  show ?thesis
  proof (cases r)
    case (Inl err)
    with Pair load_splits_Inl [of td lg splits idm lb s err s'] assms show ?thesis by blast
  next
    case (Inr v)
    with Pair load_splits_Inr [of td lg splits idm lb s "fst v" "snd v" s'] show ?thesis by auto
  qed
qed

subsection \<open>The data, computed\<close>

lemma tokenize_and_cache_Inr:
  assumes "tokenize_and_cache k e a dd td s = (Inr (idm, lb, itos), s')"
  shows "\<exists>tk trn. read_clas_data e dd (dataset a) (lang a) = Inr (tk, lb)
       \<and> tk (TRN k) = Some trn
       \<and> itos = build_itos k (max_vocab a) trn
       \<and> (\<forall>sp \<in> {TRN k, VAL k, TST k}. \<exists>ex l. tk sp = Some ex \<and> lb sp = Some l
            \<and> idm sp = Some (numericalize k (Vocab_stoi itos) ex)
            \<and> files s' (ids_file td sp (lang a)) = Some (Npy_ids (numericalize k (Vocab_stoi itos) ex))
            \<and> files s' (lbl_file td sp (lang a)) = Some (Npy_lbl l))
       \<and> (\<forall>sp. sp \<notin> {TRN k, VAL k, TST k} \<longrightarrow> idm sp = None)
       \<and> files s' (vocab_pkl td (lang a)) = Some (Pickle_vocab itos)
       \<and> (\<forall>p. p \<noteq> vocab_pkl td (lang a)
              \<and> (\<forall>sp \<in> {TRN k, VAL k, TST k}. p \<noteq> ids_file td sp (lang a) \<and> p \<noteq> lbl_file td sp (lang a))
              \<longrightarrow> files s' p = files s p)
       \<and> dirs s' = dirs s \<and> td \<in> dirs s
       \<and> trace s' = trace s @ [Print Msg_reading, Read_clas_data dd (dataset a) (lang a)]"
proof -
  from assms obtain tk trn s1 where
    rd: "read_clas_data e dd (dataset a) (lang a) = Inr (tk, lb)" and
    trn: "tk (TRN k) = Some trn" and
    itos: "itos = build_itos k (max_vocab a) trn" and
    td: "td \<in> dirs s" and
    s1: "s1 = s\<lparr>trace := trace s @ [Print Msg_reading, Read_clas_data dd (dataset a) (lang a)],
                files := (files s)(vocab_pkl td (lang a) \<mapsto> Pickle_vocab itos)\<rparr>" and
    sv: "save_splits k td (lang a) (Vocab_stoi itos) tk lb [TRN k, VAL k, TST k] Map.empty s1
           = (Inr idm, s')"
    unfolding tokenize_and_cache_def by (auto simp: step_simps)
  note S = save_splits_Inr [OF sv]
  from S have per_split:
    "\<forall>sp \<in> {TRN k, VAL k, TST k}. \<exists>ex l. tk sp = Some ex \<and> lb sp = Some l
        \<and> idm sp = Some (numericalize k (Vocab_stoi itos) ex)
        \<and> files s' (ids_file td sp (lang a)) = Some (Npy_ids (numericalize k (Vocab_stoi itos) ex))
        \<and> files s' (lbl_file td sp (lang a)) = Some (Npy_lbl l)"
    by simp
  from S have others: "\<forall>sp. sp \<notin> {TRN k, VAL k, TST k} \<longrightarrow> idm sp = None" by simp
  from S have fr: "\<And>p. (\<forall>sp \<in> {TRN k, VAL k, TST k}. p \<noteq> ids_file td sp (lang a) \<and> p \<noteq> lbl_file td sp (lang a))
      \<Longrightarrow> files s' p = files s1 p"
    by simp
  have voc: "files s' (vocab_pkl td (lang a)) = Some (Pickle_vocab itos)"
    using fr [of "vocab_pkl td (lang a)"] by (simp add: s1)
  have frame: "\<forall>p. p \<noteq> vocab_pkl td (lang a)
              \<and> (\<forall>sp \<in> {TRN k, VAL k, TST k}. p \<noteq> ids_file td sp (lang a) \<and> p \<noteq> lbl_file td sp (lang a))
              \<longrightarrow> files s' p = files s p"
    using fr by (simp add: s1)
  from S have "dirs s' = dirs s" "trace s' = trace s @ [Print Msg_reading, Read_clas_data dd (dataset a) (lang a)]"
    by (simp_all add: s1)
  with rd trn itos per_split others voc frame td show ?thesis by blast
qed

subsection \<open>The data, read back\<close>

lemma load_cached_Inr:
  assumes "load_cached k a td s = (Inr (idm, lb, itos), s')"
  shows "(\<forall>sp \<in> {TRN k, VAL k, TST k}. \<exists>arr l.
             files s (ids_file td sp (lang a)) = Some (Npy_ids arr)
           \<and> files s (lbl_file td sp (lang a)) = Some (Npy_lbl l)
           \<and> idm sp = Some arr \<and> lb sp = Some l)
       \<and> (\<forall>sp. sp \<notin> {TRN k, VAL k, TST k} \<longrightarrow> idm sp = None \<and> lb sp = None)
       \<and> files s (vocab_pkl td (lang a)) = Some (Pickle_vocab itos)
       \<and> s' = s\<lparr>trace := trace s @ [Print Msg_loading]\<rparr>"
proof -
  from assms obtain s1 where
    s1: "s1 = s\<lparr>trace := trace s @ [Print Msg_loading]\<rparr>" and
    ld: "load_splits td (lang a) [TRN k, VAL k, TST k] Map.empty Map.empty s1 = (Inr (idm, lb), s1)" and
    voc: "files s1 (vocab_pkl td (lang a)) = Some (Pickle_vocab itos)" and
    s': "s' = s1"
    unfolding load_cached_def
    by (auto simp: step_simps dest: load_splits_Inr)
  from load_splits_Inr [OF ld] s1 voc s' show ?thesis by simp
qed

lemma load_cached_total:
  assumes "\<forall>sp \<in> {TRN k, VAL k, TST k}.
              (\<exists>arr. files s (ids_file td sp (lang a)) = Some (Npy_ids arr))
            \<and> (\<exists>l. files s (lbl_file td sp (lang a)) = Some (Npy_lbl l))"
      and "files s (vocab_pkl td (lang a)) = Some (Pickle_vocab itos)"
  shows "\<exists>idm lb. load_cached k a td s = (Inr (idm, lb, itos), s\<lparr>trace := trace s @ [Print Msg_loading]\<rparr>)"
proof -
  let ?s1 = "s\<lparr>trace := trace s @ [Print Msg_loading]\<rparr>"
  from assms(1) have "\<forall>sp \<in> set [TRN k, VAL k, TST k].
       (\<exists>arr. files ?s1 (ids_file td sp (lang a)) = Some (Npy_ids arr))
     \<and> (\<exists>l. files ?s1 (lbl_file td sp (lang a)) = Some (Npy_lbl l))"
    by simp
  from load_splits_total [OF this, of Map.empty Map.empty]
  obtain idm lb where
    "load_splits td (lang a) [TRN k, VAL k, TST k] Map.empty Map.empty ?s1 = (Inr (idm, lb), ?s1)"
    by blast
  with assms(2) have "load_cached k a td s = (Inr (idm, lb, itos), ?s1)"
    unfolding load_cached_def
    by (simp add: bind_m_def emit_def pickle_load_vocab_def read_file_def return_def)
  then show ?thesis by blast
qed

lemma load_cached_Inl:
  assumes "load_cached k a td s = (Inl err, s')"
  shows "s' = s\<lparr>trace := trace s @ [Print Msg_loading]\<rparr> \<and>
     (\<exists>p \<in> set ([ids_file td (TRN k) (lang a), lbl_file td (TRN k) (lang a),
                   ids_file td (VAL k) (lang a), lbl_file td (VAL k) (lang a),
                   ids_file td (TST k) (lang a), lbl_file td (TST k) (lang a),
                   vocab_pkl td (lang a)]).
        err \<in> {FileNotFoundError p, IsADirectoryError p, ValueError p})"
proof -
  let ?s1 = "s\<lparr>trace := trace s @ [Print Msg_loading]\<rparr>"
  from assms consider
      (splits) "load_splits td (lang a) [TRN k, VAL k, TST k] Map.empty Map.empty ?s1 = (Inl err, s')"
    | (vocab) "pickle_load_vocab (vocab_pkl td (lang a)) ?s1 = (Inl err, s')"
    unfolding load_cached_def
    by (auto simp add: bind_m_Inl emit_eq return_eq simp del: load_splits.simps
          dest: load_splits_Inr)
  then show ?thesis
  proof cases
    case splits
    from load_splits_Inl [OF splits] show ?thesis by auto
  next
    case vocab
    from pickle_load_vocab_Inl [OF vocab] show ?thesis by auto
  qed
qed

subsection \<open>The choice between computing and reading back\<close>

lemma mkdir_exist_ok_state:
  assumes "mkdir_exist_ok p s = (Inr u, s1)"
  shows "dirs s1 = insert p (dirs s) \<and> files s1 = files s \<and> trace s1 = trace s"
  using assms by (auto simp: mkdir_exist_ok_Inr)

lemma mkdir_exist_ok_Inl: "mkdir_exist_ok p s = (Inl err, s1) \<Longrightarrow> s1 = s"
  by (auto simp: mkdir_exist_ok_def split: if_splits)

lemma path_exists_after_mkdir:
  assumes "dirs s1 = insert td (dirs s)" and "files s1 = files s" and "p \<noteq> td"
  shows "path_exists s1 p = path_exists s p"
  using assms by (simp add: path_exists_def)

lemma prepare_data_branch:
  assumes "prepare_data k e a s = (r, s')"
  shows "(\<exists>err. r = Inl err \<and> s' = s \<and> mkdir_exist_ok (tmp_dir_of a) s = (Inl err, s))
       \<or> (\<exists>s1. mkdir_exist_ok (tmp_dir_of a) s = (Inr (), s1)
             \<and> dirs s1 = insert (tmp_dir_of a) (dirs s) \<and> files s1 = files s \<and> trace s1 = trace s
             \<and> (if path_exists s (ids_file (tmp_dir_of a) (TRN k) (lang a))
                then load_cached k a (tmp_dir_of a) s1 = (r, s')
                else tokenize_and_cache k e a (dataset_dir_of a) (tmp_dir_of a) s1 = (r, s')))"
proof (cases "mkdir_exist_ok (tmp_dir_of a) s")
  case (Pair r1 s1)
  show ?thesis
  proof (cases r1)
    case (Inl err)
    with Pair assms mkdir_exist_ok_Inl [of "tmp_dir_of a" s err s1] show ?thesis
      by (simp add: prepare_data_def bind_m_def)
  next
    case (Inr u)
    with Pair have mk: "mkdir_exist_ok (tmp_dir_of a) s = (Inr (), s1)" by simp
    note st = mkdir_exist_ok_state [OF mk]
    have ex: "path_exists s1 (ids_file (tmp_dir_of a) (TRN k) (lang a))
                = path_exists s (ids_file (tmp_dir_of a) (TRN k) (lang a))"
      using st by (intro path_exists_after_mkdir [where td = "tmp_dir_of a"]) simp_all
    from assms mk ex st show ?thesis
      by (auto simp: prepare_data_def bind_m_def exists_m_def split: if_splits)
  qed
qed

lemma prepare_data_fresh:
  assumes "prepare_data k e a s = (Inr (idm, lb, itos), s')"
      and "\<not> path_exists s (ids_file (tmp_dir_of a) (TRN k) (lang a))"
  shows "\<exists>tk trn. read_clas_data e (dataset_dir_of a) (dataset a) (lang a) = Inr (tk, lb)
       \<and> tk (TRN k) = Some trn
       \<and> itos = build_itos k (max_vocab a) trn
       \<and> (\<forall>sp \<in> {TRN k, VAL k, TST k}. \<exists>ex l. tk sp = Some ex \<and> lb sp = Some l
            \<and> idm sp = Some (numericalize k (Vocab_stoi itos) ex)
            \<and> files s' (ids_file (tmp_dir_of a) sp (lang a))
                 = Some (Npy_ids (numericalize k (Vocab_stoi itos) ex))
            \<and> files s' (lbl_file (tmp_dir_of a) sp (lang a)) = Some (Npy_lbl l))
       \<and> (\<forall>sp. sp \<notin> {TRN k, VAL k, TST k} \<longrightarrow> idm sp = None)
       \<and> files s' (vocab_pkl (tmp_dir_of a) (lang a)) = Some (Pickle_vocab itos)
       \<and> (\<forall>p. p \<noteq> vocab_pkl (tmp_dir_of a) (lang a)
              \<and> (\<forall>sp \<in> {TRN k, VAL k, TST k}.
                    p \<noteq> ids_file (tmp_dir_of a) sp (lang a) \<and> p \<noteq> lbl_file (tmp_dir_of a) sp (lang a))
              \<longrightarrow> files s' p = files s p)
       \<and> dirs s' = insert (tmp_dir_of a) (dirs s)
       \<and> trace s' = trace s @ [Print Msg_reading,
                                 Read_clas_data (dataset_dir_of a) (dataset a) (lang a)]"
proof -
  from prepare_data_branch [OF assms(1)] assms(2) obtain s1 where
    st: "dirs s1 = insert (tmp_dir_of a) (dirs s)" "files s1 = files s" "trace s1 = trace s" and
    tc: "tokenize_and_cache k e a (dataset_dir_of a) (tmp_dir_of a) s1 = (Inr (idm, lb, itos), s')"
    by auto
  from tokenize_and_cache_Inr [OF tc] show ?thesis
    by (simp only: st) blast
qed

lemma prepare_data_cached:
  assumes "prepare_data k e a s = (Inr (idm, lb, itos), s')"
      and "path_exists s (ids_file (tmp_dir_of a) (TRN k) (lang a))"
  shows "(\<forall>sp \<in> {TRN k, VAL k, TST k}. \<exists>arr l.
             files s (ids_file (tmp_dir_of a) sp (lang a)) = Some (Npy_ids arr)
           \<and> files s (lbl_file (tmp_dir_of a) sp (lang a)) = Some (Npy_lbl l)
           \<and> idm sp = Some arr \<and> lb sp = Some l)
       \<and> (\<forall>sp. sp \<notin> {TRN k, VAL k, TST k} \<longrightarrow> idm sp = None \<and> lb sp = None)
       \<and> files s (vocab_pkl (tmp_dir_of a) (lang a)) = Some (Pickle_vocab itos)
       \<and> files s' = files s
       \<and> dirs s' = insert (tmp_dir_of a) (dirs s)
       \<and> trace s' = trace s @ [Print Msg_loading]"
proof -
  from prepare_data_branch [OF assms(1)] assms(2) obtain s1 where
    st: "dirs s1 = insert (tmp_dir_of a) (dirs s)" "files s1 = files s" "trace s1 = trace s" and
    lc: "load_cached k a (tmp_dir_of a) s1 = (Inr (idm, lb, itos), s')"
    by auto
  from load_cached_Inr [OF lc] st show ?thesis by simp
qed

subsection \<open>The run on the small corpus\<close>

lemma ex_build_itos: "build_itos ex_utils 2 [[''a'', ''b'', ''a'']] = ex_itos"
  by (simp add: build_itos_def ex_utils_def Counter_def most_common_def ex_itos_def)

lemma ex_stoi: "Vocab_stoi ex_itos = [''<unk>'' \<mapsto> 0, ''<pad>'' \<mapsto> 1, ''a'' \<mapsto> 2, ''b'' \<mapsto> 3]"
  by (simp add: Vocab_stoi_def ex_itos_def numeral_2_eq_2 numeral_3_eq_3)

lemma ex_paths:
  "tmp_dir_of ex_args = [''data'', ''imdb'', ''tmp'']"
  "dataset_dir_of ex_args = [''data'', ''imdb'']"
  "ids_file [''data'', ''imdb'', ''tmp''] sp ''en'' = [''data'', ''imdb'', ''tmp'', sp @ ''_en_ids.npy'']"
  "lbl_file [''data'', ''imdb'', ''tmp''] sp ''en'' = [''data'', ''imdb'', ''tmp'', sp @ ''_en_lbl.npy'']"
  "vocab_pkl [''data'', ''imdb'', ''tmp''] ''en'' = [''data'', ''imdb'', ''tmp'', ''vocab_en.pkl'']"
  by (simp_all add: tmp_dir_of_def dataset_dir_of_def ex_args_def path_join_def ids_file_def
        lbl_file_def vocab_pkl_def)

lemma ex_prepare:
  "prepare_data ex_utils ex_env ex_args ex_state =
     (Inr (ex_ids, ex_lbls, ex_itos),
      \<lparr>dirs = insert [''data'', ''imdb'', ''tmp''] (dirs ex_state), files = ex_cache,
       trace = [Print Msg_reading, Read_clas_data [''data'', ''imdb''] ''imdb'' ''en'']\<rparr>)"
proof -
  have num: "numericalize ex_utils (Vocab_stoi ex_itos) [[''a'', ''b'', ''a'']] = [[2, 3, 2]]"
    "numericalize ex_utils (Vocab_stoi ex_itos) [[''b'', ''c'']] = [[3, 0]]"
    "numericalize ex_utils (Vocab_stoi ex_itos) [[''d'']] = [[0]]"
    by (simp_all add: ex_stoi numericalize_def stoi_get_def stoi_getitem_def ex_utils_def)
  have u: "TRN ex_utils = ''train''" "VAL ex_utils = ''val''" "TST ex_utils = ''test''"
    "lang ex_args = ''en''" "dataset ex_args = ''imdb''" "max_vocab ex_args = 2"
    by (simp_all add: ex_utils_def ex_args_def)
  show ?thesis
    unfolding prepare_data_def tokenize_and_cache_def ex_paths u
    by (simp add: bind_m_def mkdir_exist_ok_def exists_m_def path_exists_def ex_state_def
          emit_def call_read_clas_data_def ex_env_def return_def getitem_def ex_toks_def
          ex_lbls_def write_file_def path_parent_def ex_paths ex_build_itos num ex_ids_def
          ex_cache_def)
qed

lemma ex_fields:
  "UNK ex_utils = ''<unk>''" "PAD ex_utils = ''<pad>''" "PAD_TOKEN_ID ex_utils = 1"
  "DATASETS ex_utils = [''imdb'', ''xnli'']"
  "TRN ex_utils = ''train''" "VAL ex_utils = ''val''" "TST ex_utils = ''test''"
  "data_dir ex_args = [''data'']" "lang ex_args = ''en''" "cuda_id ex_args = 0"
  "pretrain_name ex_args = ''wt-103''" "model_dir ex_args = [''models'']"
  "qrnn ex_args = True" "fine_tune ex_args = True" "max_vocab ex_args = 2"
  "bs ex_args = 70" "bptt ex_args = 70" "name ex_args = ''imdb-clas''"
  "dataset ex_args = ''imdb''"
  by (simp_all add: ex_utils_def ex_args_def)

section \<open>The claims\<close>

text \<open>
  Claim C1. When the data is computed (no cached training ids), the token list of the
  vocabulary holds only tokens of the training split and the two reserved tokens; the unknown
  token always has an entry in the string-to-id dictionary; and in each of the three splits,
  the id written for a token is the token's entry in the dictionary, or the entry of the
  unknown token when the token has none.
\<close>

theorem C1_vocab_from_train_unknown_as_unk:
  assumes "prepare_data k e a s = (Inr (idm, lb, itos), s')"
      and "\<not> path_exists s (ids_file (tmp_dir_of a) (TRN k) (lang a))"
      and "read_clas_data e (dataset_dir_of a) (dataset a) (lang a) = Inr (tk, lb0)"
  shows "(\<exists>trn. tk (TRN k) = Some trn \<and> set itos \<subseteq> set (concat trn) \<union> {UNK k, PAD k})
       \<and> (\<exists>u. Vocab_stoi itos (UNK k) = Some u)
       \<and> (\<forall>sp \<in> {TRN k, VAL k, TST k}. \<exists>ex arr.
             tk sp = Some ex \<and> idm sp = Some arr \<and> length arr = length ex
           \<and> (\<forall>i < length ex. length (arr ! i) = length (ex ! i)
               \<and> (\<forall>j < length (ex ! i).
                     (Vocab_stoi itos (ex ! i ! j) = None
                        \<longrightarrow> arr ! i ! j = the (Vocab_stoi itos (UNK k)))
                   \<and> (\<forall>n. Vocab_stoi itos (ex ! i ! j) = Some n \<longrightarrow> arr ! i ! j = n))))"
proof -
  from prepare_data_fresh [OF assms(1,2)] assms(3) obtain trn where
    trn: "tk (TRN k) = Some trn" and
    itos: "itos = build_itos k (max_vocab a) trn" and
    splits: "\<forall>sp \<in> {TRN k, VAL k, TST k}. \<exists>ex. tk sp = Some ex
               \<and> idm sp = Some (numericalize k (Vocab_stoi itos) ex)"
    by fastforce
  have sub: "set itos \<subseteq> set (concat trn) \<union> {UNK k, PAD k}"
    using top_tokens_subset [of "max_vocab a" "concat trn"] by (auto simp: itos build_itos_eq)
  from Vocab_stoi_UNK [of k "max_vocab a" trn] obtain u where
    u: "Vocab_stoi itos (UNK k) = Some u"
    by (auto simp: itos)
  have enc: "\<exists>ex arr. tk sp = Some ex \<and> idm sp = Some arr \<and> length arr = length ex
           \<and> (\<forall>i < length ex. length (arr ! i) = length (ex ! i)
               \<and> (\<forall>j < length (ex ! i).
                     (Vocab_stoi itos (ex ! i ! j) = None
                        \<longrightarrow> arr ! i ! j = the (Vocab_stoi itos (UNK k)))
                   \<and> (\<forall>n. Vocab_stoi itos (ex ! i ! j) = Some n \<longrightarrow> arr ! i ! j = n)))"
    if "sp \<in> {TRN k, VAL k, TST k}" for sp
  proof -
    from splits that obtain ex where
      ex: "tk sp = Some ex" "idm sp = Some (numericalize k (Vocab_stoi itos) ex)"
      by blast
    have "length (numericalize k (Vocab_stoi itos) ex ! i) = length (ex ! i)
        \<and> (\<forall>j < length (ex ! i).
              (Vocab_stoi itos (ex ! i ! j) = None
                 \<longrightarrow> numericalize k (Vocab_stoi itos) ex ! i ! j = the (Vocab_stoi itos (UNK k)))
            \<and> (\<forall>n. Vocab_stoi itos (ex ! i ! j) = Some n
                 \<longrightarrow> numericalize k (Vocab_stoi itos) ex ! i ! j = n))"
      if "i < length ex" for i
      using that u by (simp add: numericalize_def stoi_get_def stoi_getitem_def)
    with ex show ?thesis by (simp add: numericalize_length)
  qed
  from trn sub u enc show ?thesis by blast
qed

theorem C1_witness:
  "prepare_data ex_utils ex_env ex_args ex_state =
     (Inr (ex_ids, ex_lbls, ex_itos),
      \<lparr>dirs = insert [''data'', ''imdb'', ''tmp''] (dirs ex_state), files = ex_cache,
       trace = [Print Msg_reading, Read_clas_data [''data'', ''imdb''] ''imdb'' ''en'']\<rparr>)
   \<and> \<not> path_exists ex_state (ids_file (tmp_dir_of ex_args) (TRN ex_utils) (lang ex_args))
   \<and> read_clas_data ex_env (dataset_dir_of ex_args) (dataset ex_args) (lang ex_args)
        = Inr (ex_toks, ex_lbls)
   \<and> set ex_itos \<subseteq> {''a'', ''b'', ''<unk>'', ''<pad>''}
   \<and> Vocab_stoi ex_itos ''c'' = None
   \<and> ex_toks ''val'' = Some [[''b'', ''c'']]
   \<and> (\<exists>arr. ex_ids ''val'' = Some arr \<and> arr ! 0 ! 1 = the (Vocab_stoi ex_itos ''<unk>''))"
proof -
  have fresh: "\<not> path_exists ex_state (ids_file (tmp_dir_of ex_args) (TRN ex_utils) (lang ex_args))"
    by (simp add: path_exists_def ex_state_def ex_paths ex_fields)
  have rd: "read_clas_data ex_env (dataset_dir_of ex_args) (dataset ex_args) (lang ex_args)
              = Inr (ex_toks, ex_lbls)"
    by (simp add: ex_env_def)
  have c: "Vocab_stoi ex_itos ''c'' = None" by (simp add: ex_stoi)
  have v: "ex_toks ''val'' = Some [[''b'', ''c'']]" by (simp add: ex_toks_def)
  note inst = C1_vocab_from_train_unknown_as_unk [OF ex_prepare fresh rd]
  from inst have "set ex_itos \<subseteq> set (concat (the (ex_toks ''train''))) \<union> {''<unk>'', ''<pad>''}"
    by (auto simp: ex_fields)
  then have sub: "set ex_itos \<subseteq> {''a'', ''b'', ''<unk>'', ''<pad>''}"
    by (auto simp: ex_toks_def)
  from inst have "\<exists>ex arr. ex_toks ''val'' = Some ex \<and> ex_ids ''val'' = Some arr \<and> length arr = length ex
           \<and> (\<forall>i < length ex. length (arr ! i) = length (ex ! i)
               \<and> (\<forall>j < length (ex ! i).
                     (Vocab_stoi ex_itos (ex ! i ! j) = None
                        \<longrightarrow> arr ! i ! j = the (Vocab_stoi ex_itos ''<unk>''))
                   \<and> (\<forall>n. Vocab_stoi ex_itos (ex ! i ! j) = Some n \<longrightarrow> arr ! i ! j = n)))"
    by (simp add: ex_fields)
  then obtain arr where arr: "ex_ids ''val'' = Some arr"
    and enc: "\<forall>i < length [[''b'', ''c'']]. length (arr ! i) = length ([[''b'', ''c'']] ! i)
               \<and> (\<forall>j < length ([[''b'', ''c'']] ! i).
                     (Vocab_stoi ex_itos ([[''b'', ''c'']] ! i ! j) = None
                        \<longrightarrow> arr ! i ! j = the (Vocab_stoi ex_itos ''<unk>''))
                   \<and> (\<forall>n. Vocab_stoi ex_itos ([[''b'', ''c'']] ! i ! j) = Some n \<longrightarrow> arr ! i ! j = n))"
    using v by auto
  from enc [rule_format, of 0] have
    "\<forall>j < 2. Vocab_stoi ex_itos ([''b'', ''c''] ! j) = None
        \<longrightarrow> arr ! 0 ! j = the (Vocab_stoi ex_itos ''<unk>'')"
    by simp
  from this [rule_format, of 1] c have "arr ! 0 ! 1 = the (Vocab_stoi ex_itos ''<unk>'')"
    by simp
  with arr ex_prepare fresh rd sub c v show ?thesis by blast
qed

lemma ex_prepare2:
  "prepare_data ex_utils ex_env2 ex_args ex_state =
     (Inr (ex_ids2, ex_lbls2, ex_itos),
      \<lparr>dirs = insert [''data'', ''imdb'', ''tmp''] (dirs ex_state), files = ex_cache2,
       trace = [Print Msg_reading, Read_clas_data [''data'', ''imdb''] ''imdb'' ''en'']\<rparr>)"
proof -
  have num: "numericalize ex_utils (Vocab_stoi ex_itos) [[''a'', ''b'', ''a'']] = [[2, 3, 2]]"
    "numericalize ex_utils (Vocab_stoi ex_itos) [[''b'', ''c'']] = [[3, 0]]"
    "numericalize ex_utils (Vocab_stoi ex_itos) [[''b'', ''zz''], [''a'']] = [[3, 0], [2]]"
    by (simp_all add: ex_stoi numericalize_def stoi_get_def stoi_getitem_def ex_fields)
  show ?thesis
    unfolding prepare_data_def tokenize_and_cache_def ex_paths ex_fields
    by (simp add: bind_m_def mkdir_exist_ok_def exists_m_def path_exists_def ex_state_def
          emit_def call_read_clas_data_def ex_env2_def return_def getitem_def ex_toks2_def
          ex_lbls2_def write_file_def path_parent_def ex_paths ex_build_itos num ex_ids2_def
          ex_cache2_def)
qed

lemma ex_fresh:
  "\<not> path_exists ex_state (ids_file (tmp_dir_of ex_args) (TRN ex_utils) (lang ex_args))"
  by (simp add: path_exists_def ex_state_def ex_paths ex_fields)

text \<open>
  Claim C2, as the code has it. When the data is computed, the vocabulary is the list of the
  unknown token (at index 0), the padding token (at index 1) and then the most frequent tokens
  of the training split: at most \<open>max_vocab\<close> of them (none when \<open>max_vocab\<close> is not positive),
  each once, in order of descending count, no token left out being more frequent than one
  kept. The vocabulary is written to the pickle file under the tmp directory. In the
  string-to-id dictionary the unknown token has the id 0 and the padding token the id 1 when
  the two reserved strings differ and neither is among the tokens kept; the ids of a reserved
  string that the training split itself holds among its most frequent tokens are not part of
  this statement.
\<close>

theorem C2_reserved_first_then_most_frequent:
  assumes "prepare_data k e a s = (Inr (idm, lb, itos), s')"
      and "\<not> path_exists s (ids_file (tmp_dir_of a) (TRN k) (lang a))"
      and "read_clas_data e (dataset_dir_of a) (dataset a) (lang a) = Inr (tk, lb0)"
  shows "\<exists>trn kept. tk (TRN k) = Some trn
       \<and> itos = UNK k # PAD k # kept \<and> itos ! 0 = UNK k \<and> itos ! 1 = PAD k
       \<and> int (length kept) \<le> max 0 (max_vocab a)
       \<and> length kept = min (nat (max_vocab a)) (card (set (concat trn)))
       \<and> distinct kept \<and> set kept \<subseteq> set (concat trn)
       \<and> sorted_wrt (\<lambda>v w. count_list (concat trn) w \<le> count_list (concat trn) v) kept
       \<and> (\<forall>w \<in> set kept. \<forall>v \<in> set (concat trn) - set kept.
             count_list (concat trn) v \<le> count_list (concat trn) w)
       \<and> files s' (vocab_pkl (tmp_dir_of a) (lang a)) = Some (Pickle_vocab itos)
       \<and> (UNK k \<noteq> PAD k \<and> UNK k \<notin> set kept \<and> PAD k \<notin> set kept
            \<longrightarrow> Vocab_stoi itos (UNK k) = Some 0 \<and> Vocab_stoi itos (PAD k) = Some 1)"
proof -
  from prepare_data_fresh [OF assms(1,2)] assms(3) obtain trn where
    trn: "tk (TRN k) = Some trn" and
    itos: "itos = build_itos k (max_vocab a) trn" and
    pkl: "files s' (vocab_pkl (tmp_dir_of a) (lang a)) = Some (Pickle_vocab itos)"
    by fastforce
  let ?ws = "concat trn"
  let ?kept = "top_tokens (max_vocab a) ?ws"
  have shape: "itos = UNK k # PAD k # ?kept" by (simp add: itos build_itos_eq)
  then have pos: "itos ! 0 = UNK k" "itos ! 1 = PAD k" by simp_all
  have len: "length ?kept = min (nat (max_vocab a)) (card (set ?ws))"
    by (rule top_tokens_length)
  then have bound: "int (length ?kept) \<le> max 0 (max_vocab a)" by simp
  have freq: "\<forall>w \<in> set ?kept. \<forall>v \<in> set ?ws - set ?kept. count_list ?ws v \<le> count_list ?ws w"
    using top_tokens_most_frequent [of _ "max_vocab a" ?ws] by blast
  have stoi: "UNK k \<noteq> PAD k \<and> UNK k \<notin> set ?kept \<and> PAD k \<notin> set ?kept
            \<longrightarrow> Vocab_stoi itos (UNK k) = Some 0 \<and> Vocab_stoi itos (PAD k) = Some 1"
    using Vocab_stoi_reserved [of "UNK k" "PAD k" ?kept] by (simp add: shape)
  from trn shape pos bound len top_tokens_distinct [of "max_vocab a" ?ws]
    top_tokens_subset [of "max_vocab a" ?ws] top_tokens_desc [of ?ws "max_vocab a"] freq pkl stoi
  show ?thesis by blast
qed

theorem C2_witness:
  "prepare_data ex_utils ex_env ex_args ex_state =
     (Inr (ex_ids, ex_lbls, ex_itos),
      \<lparr>dirs = insert [''data'', ''imdb'', ''tmp''] (dirs ex_state), files = ex_cache,
       trace = [Print Msg_reading, Read_clas_data [''data'', ''imdb''] ''imdb'' ''en'']\<rparr>)
   \<and> \<not> path_exists ex_state (ids_file (tmp_dir_of ex_args) (TRN ex_utils) (lang ex_args))
   \<and> read_clas_data ex_env (dataset_dir_of ex_args) (dataset ex_args) (lang ex_args)
        = Inr (ex_toks, ex_lbls)
   \<and> ex_itos ! 0 = ''<unk>'' \<and> ex_itos ! 1 = ''<pad>''
   \<and> int (length (drop 2 ex_itos)) \<le> max 0 (max_vocab ex_args)
   \<and> ''a'' \<in> set (drop 2 ex_itos)
   \<and> ex_cache (vocab_pkl (tmp_dir_of ex_args) (lang ex_args)) = Some (Pickle_vocab ex_itos)
   \<and> Vocab_stoi ex_itos ''<unk>'' = Some 0 \<and> Vocab_stoi ex_itos ''<pad>'' = Some 1"
proof -
  have rd: "read_clas_data ex_env (dataset_dir_of ex_args) (dataset ex_args) (lang ex_args)
              = Inr (ex_toks, ex_lbls)"
    by (simp add: ex_env_def)
  from C2_reserved_first_then_most_frequent [OF ex_prepare ex_fresh rd]
  obtain kept where
    shape: "ex_itos = ''<unk>'' # ''<pad>'' # kept" and
    pos: "ex_itos ! 0 = ''<unk>''" "ex_itos ! 1 = ''<pad>''" and
    bound: "int (length kept) \<le> max 0 (max_vocab ex_args)" and
    pkl: "ex_cache (vocab_pkl (tmp_dir_of ex_args) (lang ex_args)) = Some (Pickle_vocab ex_itos)" and
    stoi: "''<unk>'' \<noteq> ''<pad>'' \<and> ''<unk>'' \<notin> set kept \<and> ''<pad>'' \<notin> set kept
            \<longrightarrow> Vocab_stoi ex_itos ''<unk>'' = Some 0 \<and> Vocab_stoi ex_itos ''<pad>'' = Some 1"
    by (auto simp: ex_fields)
  from shape have kept: "kept = [''a'', ''b'']" "drop 2 ex_itos = kept"
    by (simp_all add: ex_itos_def)
  with stoi have ids: "Vocab_stoi ex_itos ''<unk>'' = Some 0" "Vocab_stoi ex_itos ''<pad>'' = Some 1"
    by simp_all
  from kept have a: "''a'' \<in> set (drop 2 ex_itos)" by simp
  from ex_prepare ex_fresh rd pos bound kept(2) a pkl ids show ?thesis by simp
qed

subsection \<open>A corpus that holds the reserved strings\<close>

lemma rs_build_itos: "build_itos ex_utils 2 [[''<unk>'', ''<pad>'', ''<unk>'']] = rs_itos"
  by (simp add: build_itos_def ex_utils_def Counter_def most_common_def rs_itos_def)

lemma rs_stoi: "Vocab_stoi rs_itos = [''<unk>'' \<mapsto> 2, ''<pad>'' \<mapsto> 3]"
  by (simp add: Vocab_stoi_def rs_itos_def numeral_2_eq_2 numeral_3_eq_3 fun_eq_iff)

lemma rs_prepare:
  "prepare_data ex_utils rs_env ex_args ex_state =
     (Inr (rs_ids, ex_lbls, rs_itos),
      \<lparr>dirs = insert [''data'', ''imdb'', ''tmp''] (dirs ex_state), files = rs_cache,
       trace = [Print Msg_reading, Read_clas_data [''data'', ''imdb''] ''imdb'' ''en'']\<rparr>)"
proof -
  have num: "numericalize ex_utils (Vocab_stoi rs_itos) [[''<unk>'', ''<pad>'', ''<unk>'']] = [[2, 3, 2]]"
    "numericalize ex_utils (Vocab_stoi rs_itos) [[''zz'']] = [[2]]"
    "numericalize ex_utils (Vocab_stoi rs_itos) [[''<pad>'']] = [[3]]"
    by (simp_all add: rs_stoi numericalize_def stoi_get_def stoi_getitem_def ex_fields)
  show ?thesis
    unfolding prepare_data_def tokenize_and_cache_def ex_paths ex_fields
    by (simp add: bind_m_def mkdir_exist_ok_def exists_m_def path_exists_def ex_state_def
          emit_def call_read_clas_data_def rs_env_def return_def getitem_def rs_toks_def
          ex_lbls_def write_file_def path_parent_def ex_paths rs_build_itos num rs_ids_def
          rs_cache_def)
qed

text \<open>
  Claim C2 as it is written does not hold of every training corpus: when the training split
  of the third corpus is counted with \<open>max_vocab = 2\<close>, the two reserved strings are its most
  frequent tokens, the token list holds each of them twice, and the string-to-id dictionary
  gives the unknown token the id 2 and the padding token the id 3, which are also the ids
  written to the cache (the validation token \<^verbatim>\<open>zz\<close>, not in the dictionary, is written as 2).
\<close>

theorem C2_counterexample:
  "prepare_data ex_utils rs_env ex_args ex_state =
     (Inr (rs_ids, ex_lbls, rs_itos),
      \<lparr>dirs = insert [''data'', ''imdb'', ''tmp''] (dirs ex_state), files = rs_cache,
       trace = [Print Msg_reading, Read_clas_data [''data'', ''imdb''] ''imdb'' ''en'']\<rparr>)
   \<and> read_clas_data rs_env (dataset_dir_of ex_args) (dataset ex_args) (lang ex_args)
        = Inr (rs_toks, ex_lbls)
   \<and> rs_toks (TRN ex_utils) = Some [[''<unk>'', ''<pad>'', ''<unk>'']]
   \<and> max_vocab ex_args = 2
   \<and> rs_itos = [UNK ex_utils, PAD ex_utils, ''<unk>'', ''<pad>'']
   \<and> Vocab_stoi rs_itos (UNK ex_utils) = Some 2
   \<and> Vocab_stoi rs_itos (PAD ex_utils) = Some 3
   \<and> Vocab_stoi rs_itos (UNK ex_utils) \<noteq> Some 0
   \<and> Vocab_stoi rs_itos (PAD ex_utils) \<noteq> Some 1
   \<and> rs_cache (ids_file (tmp_dir_of ex_args) (VAL ex_utils) (lang ex_args)) = Some (Npy_ids [[2]])"
proof -
  have rd: "read_clas_data rs_env (dataset_dir_of ex_args) (dataset ex_args) (lang ex_args)
        = Inr (rs_toks, ex_lbls)"
    by (simp add: rs_env_def)
  have trn: "rs_toks (TRN ex_utils) = Some [[''<unk>'', ''<pad>'', ''<unk>'']]"
    by (simp add: rs_toks_def ex_fields)
  have mv: "max_vocab ex_args = 2" by (simp add: ex_fields)
  have itos: "rs_itos = [UNK ex_utils, PAD ex_utils, ''<unk>'', ''<pad>'']"
    by (simp add: rs_itos_def ex_fields)
  have ids: "Vocab_stoi rs_itos (UNK ex_utils) = Some 2" "Vocab_stoi rs_itos (PAD ex_utils) = Some 3"
    "Vocab_stoi rs_itos (UNK ex_utils) \<noteq> Some 0" "Vocab_stoi rs_itos (PAD ex_utils) \<noteq> Some 1"
    by (simp_all add: rs_stoi ex_fields)
  have val: "rs_cache (ids_file (tmp_dir_of ex_args) (VAL ex_utils) (lang ex_args))
      = Some (Npy_ids [[2]])"
    by (simp add: rs_cache_def ex_paths ex_fields)
  from rs_prepare rd trn mv itos ids val show ?thesis by (intro conjI)
qed

text \<open>
  Claim C5. The vocabulary is a function of the tokens of the training split and of
  \<open>max_vocab\<close> alone: two runs that compute their data from corpora with the same training
  split, with the same \<open>max_vocab\<close>, end with the same token list and the same dictionary,
  whatever the other splits, the other arguments and the file systems are.
\<close>

theorem C5_vocabulary_deterministic:
  assumes "prepare_data k e1 a1 s1 = (Inr (idm1, lb1, itos1), s1')"
      and "\<not> path_exists s1 (ids_file (tmp_dir_of a1) (TRN k) (lang a1))"
      and "read_clas_data e1 (dataset_dir_of a1) (dataset a1) (lang a1) = Inr (tk1, l1)"
      and "prepare_data k e2 a2 s2 = (Inr (idm2, lb2, itos2), s2')"
      and "\<not> path_exists s2 (ids_file (tmp_dir_of a2) (TRN k) (lang a2))"
      and "read_clas_data e2 (dataset_dir_of a2) (dataset a2) (lang a2) = Inr (tk2, l2)"
      and "tk1 (TRN k) = tk2 (TRN k)"
      and "max_vocab a1 = max_vocab a2"
  shows "itos1 = itos2 \<and> Vocab_stoi itos1 = Vocab_stoi itos2"
proof -
  from prepare_data_fresh [OF assms(1,2)] assms(3) obtain trn1 where
    "tk1 (TRN k) = Some trn1" "itos1 = build_itos k (max_vocab a1) trn1"
    by fastforce
  moreover from prepare_data_fresh [OF assms(4,5)] assms(6) obtain trn2 where
    "tk2 (TRN k) = Some trn2" "itos2 = build_itos k (max_vocab a2) trn2"
    by fastforce
  ultimately show ?thesis using assms(7,8) by simp
qed

theorem C5_witness:
  "prepare_data ex_utils ex_env ex_args ex_state =
     (Inr (ex_ids, ex_lbls, ex_itos),
      \<lparr>dirs = insert [''data'', ''imdb'', ''tmp''] (dirs ex_state), files = ex_cache,
       trace = [Print Msg_reading, Read_clas_data [''data'', ''imdb''] ''imdb'' ''en'']\<rparr>)
   \<and> prepare_data ex_utils ex_env2 ex_args ex_state =
     (Inr (ex_ids2, ex_lbls2, ex_itos),
      \<lparr>dirs = insert [''data'', ''imdb'', ''tmp''] (dirs ex_state), files = ex_cache2,
       trace = [Print Msg_reading, Read_clas_data [''data'', ''imdb''] ''imdb'' ''en'']\<rparr>)
   \<and> \<not> path_exists ex_state (ids_file (tmp_dir_of ex_args) (TRN ex_utils) (lang ex_args))
   \<and> read_clas_data ex_env (dataset_dir_of ex_args) (dataset ex_args) (lang ex_args)
        = Inr (ex_toks, ex_lbls)
   \<and> read_clas_data ex_env2 (dataset_dir_of ex_args) (dataset ex_args) (lang ex_args)
        = Inr (ex_toks2, ex_lbls2)
   \<and> ex_toks (TRN ex_utils) = ex_toks2 (TRN ex_utils)
   \<and> ex_toks ''test'' \<noteq> ex_toks2 ''test''
   \<and> ex_itos = ex_itos \<and> Vocab_stoi ex_itos = Vocab_stoi ex_itos"
proof -
  have rd1: "read_clas_data ex_env (dataset_dir_of ex_args) (dataset ex_args) (lang ex_args)
              = Inr (ex_toks, ex_lbls)"
    by (simp add: ex_env_def)
  have rd2: "read_clas_data ex_env2 (dataset_dir_of ex_args) (dataset ex_args) (lang ex_args)
              = Inr (ex_toks2, ex_lbls2)"
    by (simp add: ex_env2_def)
  have same: "ex_toks (TRN ex_utils) = ex_toks2 (TRN ex_utils)"
    by (simp add: ex_toks_def ex_toks2_def ex_fields)
  have diff: "ex_toks ''test'' \<noteq> ex_toks2 ''test''"
    by (simp add: ex_toks_def ex_toks2_def)
  from C5_vocabulary_deterministic [OF ex_prepare ex_fresh rd1 ex_prepare2 ex_fresh rd2 same refl]
  have "ex_itos = ex_itos \<and> Vocab_stoi ex_itos = Vocab_stoi ex_itos" .
  with ex_prepare ex_prepare2 ex_fresh rd1 rd2 same diff show ?thesis by blast
qed

subsection \<open>The assertions\<close>

lemma check_inputs_eq:
  "check_inputs k a s =
     (if dataset a \<notin> set (DATASETS k)
        then Inl (AssertionError (''Error: '' @ dataset a @ '' processing is not implemented.''))
      else if dataset a = ''imdb'' \<and> lang a \<noteq> ''en''
        then Inl (AssertionError ''Error: IMDb is only available in English.'')
      else if path_name (data_dir a) \<noteq> ''data''
        then Inl (AssertionError (''Error: Name of data directory should be data, not ''
                                    @ path_name (data_dir a) @ ''.''))
      else if \<not> path_exists s (data_dir a)
        then Inl (AssertionError (''Error: '' @ path_str (data_dir a) @ '' does not exist.''))
      else if \<not> path_exists s (path_join (data_dir a) (dataset a))
        then Inl (AssertionError (''Error: '' @ path_str (path_join (data_dir a) (dataset a))
                                    @ '' does not exist.''))
      else if \<not> path_exists s (model_dir a)
        then Inl (AssertionError (''Error: '' @ path_str (model_dir a) @ '' does not exist.''))
      else Inr (),
      s)"
  by (simp add: check_inputs_def assert_def assert_exists_def bind_m_def return_def raise_def)

lemma check_inputs_state: "snd (check_inputs k a s) = s"
  by (simp add: check_inputs_eq)

lemma check_inputs_trace:
  "check_inputs k a (s\<lparr>trace := t\<rparr>) = (fst (check_inputs k a s), s\<lparr>trace := t\<rparr>)"
  by (simp add: check_inputs_eq path_exists_def)

lemma prelude_run:
  "new_train_clas k e a s =
     (case fst (check_inputs k a s) of
        Inl err \<Rightarrow> (Inl err, s\<lparr>trace := trace s @ prelude e a\<rparr>)
      | Inr u \<Rightarrow>
          bind_m (if qrnn a then emit (Print Msg_using_qrnn) else return ()) (\<lambda>_.
          bind_m (prepare_data k e a) (train k a)) (s\<lparr>trace := trace s @ prelude e a\<rparr>))"
proof -
  have "new_train_clas k e a s =
      bind_m (check_inputs k a) (\<lambda>_.
        bind_m (if qrnn a then emit (Print Msg_using_qrnn) else return ()) (\<lambda>_.
        bind_m (prepare_data k e a) (train k a))) (s\<lparr>trace := trace s @ prelude e a\<rparr>)"
    by (simp add: new_train_clas_def bind_m_def emit_def return_def prelude_def)
  then show ?thesis
    by (simp add: bind_m_def check_inputs_trace split: sum.splits)
qed

subsection \<open>The assertions, as claimed and as they are\<close>

text \<open>
  Claim C4, as the code has it. The script checks its input by six assertions, in this
  order: the data set is one of \<^verbatim>\<open>DATASETS\<close>; the language is \<^verbatim>\<open>en\<close> when the data set is
  \<^verbatim>\<open>imdb\<close>; the name of the data directory is \<^verbatim>\<open>data\<close>; the data directory, the directory of
  the data set in it, and the model directory exist. The first that fails ends the run with
  its message, the file system untouched and nothing done but the first prints and the choice
  of the device: nothing catches the error or tries again. When all six hold, the checks
  raise nothing.
\<close>

theorem C4_six_assertions_abort_the_run:
  "check_inputs k a s =
     (if dataset a \<notin> set (DATASETS k)
        then Inl (AssertionError (''Error: '' @ dataset a @ '' processing is not implemented.''))
      else if dataset a = ''imdb'' \<and> lang a \<noteq> ''en''
        then Inl (AssertionError ''Error: IMDb is only available in English.'')
      else if path_name (data_dir a) \<noteq> ''data''
        then Inl (AssertionError (''Error: Name of data directory should be data, not ''
                                    @ path_name (data_dir a) @ ''.''))
      else if \<not> path_exists s (data_dir a)
        then Inl (AssertionError (''Error: '' @ path_str (data_dir a) @ '' does not exist.''))
      else if \<not> path_exists s (path_join (data_dir a) (dataset a))
        then Inl (AssertionError (''Error: '' @ path_str (path_join (data_dir a) (dataset a))
                                    @ '' does not exist.''))
      else if \<not> path_exists s (model_dir a)
        then Inl (AssertionError (''Error: '' @ path_str (model_dir a) @ '' does not exist.''))
      else Inr (),
      s)
   \<and> (\<forall>err. fst (check_inputs k a s) = Inl err
         \<longrightarrow> new_train_clas k e a s = (Inl err, s\<lparr>trace := trace s @ prelude e a\<rparr>))"
  by (simp add: prelude_run check_inputs_eq [symmetric])

theorem C4_witness:
  "fst (check_inputs ex_utils de_args ex_state)
     = Inl (AssertionError ''Error: IMDb is only available in English.'')
   \<and> new_train_clas ex_utils ex_env de_args ex_state
     = (Inl (AssertionError ''Error: IMDb is only available in English.''),
        ex_state\<lparr>trace := [Print Msg_cuda_unavailable, Set_device (- 1),
                            Print (Msg_dataset ''imdb'' ''de'')]\<rparr>)
   \<and> check_inputs ex_utils ex_args ex_state = (Inr (), ex_state)"
proof -
  have f: "dataset de_args = ''imdb''" "lang de_args = ''de''" "data_dir de_args = [''data'']"
    "model_dir de_args = [''models'']" "cuda_id de_args = 0"
    by (simp_all add: de_args_def ex_args_def)
  note inst = C4_six_assertions_abort_the_run [of ex_utils de_args ex_state ex_env]
  from inst have chk: "fst (check_inputs ex_utils de_args ex_state)
     = Inl (AssertionError ''Error: IMDb is only available in English.'')"
    by (simp add: f ex_fields)
  with inst have "new_train_clas ex_utils ex_env de_args ex_state
     = (Inl (AssertionError ''Error: IMDb is only available in English.''),
        ex_state\<lparr>trace := trace ex_state @ prelude ex_env de_args\<rparr>)"
    by blast
  then have run: "new_train_clas ex_utils ex_env de_args ex_state
     = (Inl (AssertionError ''Error: IMDb is only available in English.''),
        ex_state\<lparr>trace := [Print Msg_cuda_unavailable, Set_device (- 1),
                            Print (Msg_dataset ''imdb'' ''de'')]\<rparr>)"
    by (simp add: prelude_def ex_env_def f ex_state_def)
  from C4_six_assertions_abort_the_run [of ex_utils ex_args ex_state ex_env]
  have ok: "check_inputs ex_utils ex_args ex_state = (Inr (), ex_state)"
    by (simp add: ex_fields path_name_def path_exists_def ex_state_def path_join_def)
  from chk run ok show ?thesis by simp
qed

text \<open>
  The claim as the specification words it names three kinds of check: support of the data
  set, the language fitting the data set, and the existence of the directories. Here all
  three hold, and the run is ended by the assertion on the name of the data directory.
\<close>

theorem C4_counterexample:
  "dataset cx_args \<in> set (DATASETS ex_utils)
   \<and> dataset cx_args = ''imdb'' \<and> lang cx_args = ''en''
   \<and> path_exists cx_state (data_dir cx_args)
   \<and> path_exists cx_state (path_join (data_dir cx_args) (dataset cx_args))
   \<and> path_exists cx_state (model_dir cx_args)
   \<and> check_inputs ex_utils cx_args cx_state
       = (Inl (AssertionError ''Error: Name of data directory should be data, not mydata.''),
          cx_state)
   \<and> fst (new_train_clas ex_utils ex_env cx_args cx_state)
       = Inl (AssertionError ''Error: Name of data directory should be data, not mydata.'')"
proof -
  have f: "dataset cx_args = ''imdb''" "lang cx_args = ''en''" "data_dir cx_args = [''mydata'']"
    "model_dir cx_args = [''models'']"
    by (simp_all add: cx_args_def ex_args_def)
  have chk: "check_inputs ex_utils cx_args cx_state
       = (Inl (AssertionError ''Error: Name of data directory should be data, not mydata.''),
          cx_state)"
    by (simp add: check_inputs_eq f ex_fields path_name_def)
  then have "fst (new_train_clas ex_utils ex_env cx_args cx_state)
       = Inl (AssertionError ''Error: Name of data directory should be data, not mydata.'')"
    by (simp add: prelude_run)
  with chk show ?thesis
    by (simp add: f ex_fields path_exists_def cx_state_def path_join_def)
qed

subsection \<open>The calls of the framework\<close>

lemma pth_file_net [simp]: "pth_file (l\<lparr>l_net := n\<rparr>) f = pth_file l f"
  by (simp add: pth_file_def learner_dir_def)

lemma learner_dir_net [simp]: "learner_dir (l\<lparr>l_net := n\<rparr>) = learner_dir l"
  by (simp add: learner_dir_def)

lemma learner_dir_learners [simp]:
  "learner_dir (language_model_learner k a dl) = learn_dir a"
  "learner_dir (text_classifier_learner k a dc) = learn_dir a"
  by (simp_all add: learner_dir_def language_model_learner_def text_classifier_learner_def
        learn_dir_def)

lemma pth_file_learners [simp]:
  "pth_file (language_model_learner k a dl) f = model_file a f"
  "pth_file (text_classifier_learner k a dc) f = model_file a f"
  by (simp_all add: pth_file_def model_file_def)

lemma model_file_eq: "model_file a f = learn_dir a @ [f @ ''.pth'']"
  by (simp add: model_file_def path_join_def)

lemma learn_dir_eq: "[] \<notin> set (model_dir a) \<Longrightarrow> learn_dir a = model_dir a"
  by (cases "model_dir a" rule: rev_cases)
    (auto simp: learn_dir_def path_join_def path_parent_def path_name_def)

lemma model_file_inj [simp]: "model_file a f = model_file a g \<longleftrightarrow> f = g"
  by (simp add: model_file_eq)

lemma model_file_parent [simp]: "path_parent (model_file a f) = learn_dir a"
proof -
  have "f @ ''.pth'' \<noteq> ''/''" by (auto simp: append_eq_Cons_conv)
  then show ?thesis by (simp add: model_file_eq path_parent_snoc)
qed

lemma enc_neq_weights [simp]:
  "model_file a ''enc'' \<noteq> model_file a (model_name a @ ''_'' @ name a)"
  "model_file a (model_name a @ ''_'' @ name a) \<noteq> model_file a ''enc''"
  by (auto simp: model_name_def)

lemma fine_tune_lm_Inr:
  "fine_tune_lm l s = (Inr u, s') \<longleftrightarrow>
     pth_file l ''enc'' \<notin> dirs s \<and> path_parent (pth_file l ''enc'') \<in> dirs s
     \<and> s' = s\<lparr>trace := trace s @ [Print Msg_fine_tuning, Unfreeze LM, Fit LM 2, Save_encoder ''enc''],
              files := (files s)(pth_file l ''enc'' \<mapsto> Encoder_pth (fine_tuned (l_net l)))\<rparr>"
  by (auto simp: fine_tune_lm_def unfreeze_def fit_def save_encoder_def step_simps fine_tuned_def)

lemma train_clas_Inr:
  "train_clas a l s = (Inr u, s') \<longleftrightarrow>
     (\<exists>enc. files s (pth_file l ''enc'') = Some (Encoder_pth enc)
       \<and> pth_file l (model_name a @ ''_'' @ name a) \<notin> dirs s
       \<and> path_parent (pth_file l (model_name a @ ''_'' @ name a)) \<in> dirs s
       \<and> s' = s\<lparr>trace := trace s @
                  [Text_classifier_learner, Load_encoder ''enc'', Fit_one_cycle CLAS 1,
                   Freeze_to CLAS (- 2), Fit_one_cycle CLAS 1, Unfreeze CLAS,
                   Fit_one_cycle CLAS 10, Print (Msg_saving (learner_dir l)),
                   Save (model_name a @ ''_'' @ name a)],
                files := (files s)(pth_file l (model_name a @ ''_'' @ name a)
                                     \<mapsto> Model_pth (trained enc (l_net l)))\<rparr>)"
  by (auto simp: train_clas_def load_encoder_def fit_one_cycle_def freeze_to_def unfreeze_def
        save_def step_simps trained_def)

lemma train_Inr:
  assumes "train k a (idm, lb, vocab) s = (Inr u, s')"
  shows "\<exists>trn val tst tl vl enc.
           idm (TRN k) = Some trn \<and> idm (VAL k) = Some val \<and> idm (TST k) = Some tst
         \<and> lb (TRN k) = Some tl \<and> lb (VAL k) = Some vl
         \<and> (if fine_tune a
              then enc = fine_tuned (l_net (language_model_learner k a (data_lm_of a vocab trn val)))
              else files s (model_file a ''enc'') = Some (Encoder_pth enc))
         \<and> learn_dir a \<in> dirs s
         \<and> dirs s' = dirs s
         \<and> files s' = (if fine_tune a then (files s)(model_file a ''enc'' \<mapsto> Encoder_pth enc)
                        else files s)
                       (model_file a (model_name a @ ''_'' @ name a) \<mapsto>
                          Model_pth (trained enc
                            (l_net (text_classifier_learner k a (data_clas_of a vocab trn val tl vl)))))
         \<and> trace s' = trace s @
               [Print (Msg_sizes (length trn) (length val) (length tst)),
                Lm_from_ids (data_lm_of a vocab trn val),
                Clas_from_ids (data_clas_of a vocab trn val tl vl),
                Language_model_learner]
               @ (if fine_tune a then fine_tune_events else []) @ clas_events a"
proof (cases "fine_tune a")
  case True
  with assms show ?thesis
    unfolding train_def
    by (auto simp: step_simps fine_tune_lm_Inr train_clas_Inr fine_tune_events_def clas_events_def)
next
  case False
  with assms show ?thesis
    unfolding train_def
    by (auto simp: step_simps train_clas_Inr fine_tune_events_def clas_events_def)
qed

subsection \<open>A run that returns\<close>

lemma new_train_clas_Inr:
  assumes "new_train_clas k e a s = (Inr u, s')"
  shows "fst (check_inputs k a s) = Inr ()
       \<and> (\<exists>idm lb itos s1.
            prepare_data k e a
              (s\<lparr>trace := trace s @ prelude e a @ (if qrnn a then [Print Msg_using_qrnn] else [])\<rparr>)
              = (Inr (idm, lb, itos), s1)
          \<and> train k a (idm, lb, itos) s1 = (Inr (), s'))"
proof (cases "fst (check_inputs k a s)")
  case (Inl err)
  with assms show ?thesis by (simp add: prelude_run)
next
  case (Inr v)
  with assms have
    "bind_m (if qrnn a then emit (Print Msg_using_qrnn) else return ()) (\<lambda>_.
       bind_m (prepare_data k e a) (train k a)) (s\<lparr>trace := trace s @ prelude e a\<rparr>) = (Inr u, s')"
    by (simp add: prelude_run)
  then obtain d s1 where
    "prepare_data k e a
       (s\<lparr>trace := trace s @ prelude e a @ (if qrnn a then [Print Msg_using_qrnn] else [])\<rparr>)
       = (Inr d, s1)"
    "train k a d s1 = (Inr u, s')"
    by (auto simp: bind_m_Inr emit_eq return_eq split: if_splits)
  with Inr show ?thesis by (cases d) auto
qed

lemma path_exists_trace [simp]: "path_exists (s\<lparr>trace := t\<rparr>) p = path_exists s p"
  by (simp add: path_exists_def)

subsection \<open>The whole run on the small corpus\<close>

lemma ex_prepare_from:
  "prepare_data ex_utils ex_env ex_args (ex_state\<lparr>trace := t\<rparr>) =
     (Inr (ex_ids, ex_lbls, ex_itos),
      \<lparr>dirs = insert [''data'', ''imdb'', ''tmp''] (dirs ex_state), files = ex_cache,
       trace = t @ [Print Msg_reading, Read_clas_data [''data'', ''imdb''] ''imdb'' ''en'']\<rparr>)"
proof -
  have num: "numericalize ex_utils (Vocab_stoi ex_itos) [[''a'', ''b'', ''a'']] = [[2, 3, 2]]"
    "numericalize ex_utils (Vocab_stoi ex_itos) [[''b'', ''c'']] = [[3, 0]]"
    "numericalize ex_utils (Vocab_stoi ex_itos) [[''d'']] = [[0]]"
    by (simp_all add: ex_stoi numericalize_def stoi_get_def stoi_getitem_def ex_fields)
  show ?thesis
    unfolding prepare_data_def tokenize_and_cache_def ex_paths ex_fields
    by (simp add: bind_m_def mkdir_exist_ok_def exists_m_def path_exists_def ex_state_def
          emit_def call_read_clas_data_def ex_env_def return_def getitem_def ex_toks_def
          ex_lbls_def write_file_def path_parent_def ex_paths ex_build_itos num ex_ids_def
          ex_cache_def)
qed

lemma ex_model_paths:
  "learn_dir ex_args = [''models'']"
  "model_file ex_args ''enc'' = [''models'', ''enc.pth'']"
  "model_file ex_args ''qrnn_imdb-clas'' = [''models'', ''qrnn_imdb-clas.pth'']"
  "model_name ex_args = ''qrnn''"
  by (simp_all add: learn_dir_def model_file_def path_join_def path_parent_def path_name_def
        model_name_def ex_fields)

lemma ex_check: "check_inputs ex_utils ex_args ex_state = (Inr (), ex_state)"
  by (simp add: check_inputs_eq ex_fields path_name_def path_exists_def ex_state_def path_join_def)

lemma ex_train:
  "train ex_utils ex_args (ex_ids, ex_lbls, ex_itos)
     \<lparr>dirs = insert [''data'', ''imdb'', ''tmp''] (dirs ex_state), files = ex_cache, trace = t\<rparr>
   = (Inr (),
      \<lparr>dirs = insert [''data'', ''imdb'', ''tmp''] (dirs ex_state), files = ex_final_files,
       trace = t @ [Print (Msg_sizes 1 1 1), Lm_from_ids ex_data_lm, Clas_from_ids ex_data_clas,
                    Language_model_learner, Print Msg_fine_tuning, Unfreeze LM, Fit LM 2,
                    Save_encoder ''enc'', Text_classifier_learner, Load_encoder ''enc'',
                    Fit_one_cycle CLAS 1, Freeze_to CLAS (- 2), Fit_one_cycle CLAS 1,
                    Unfreeze CLAS, Fit_one_cycle CLAS 10, Print (Msg_saving [''models'']),
                    Save ''qrnn_imdb-clas'']\<rparr>)"
  unfolding train_def fine_tune_lm_def train_clas_def
  by (simp add: bind_m_def getitem_def ex_ids_def ex_lbls_def ex_fields return_def emit_def
        unfreeze_def fit_def save_encoder_def load_encoder_def fit_one_cycle_def freeze_to_def
        save_def write_file_def torch_load_encoder_def read_file_def ex_model_paths
        path_parent_def
        ex_state_def ex_final_files_def ex_enc_def ex_weights_def ex_data_lm_def
        ex_data_clas_def fine_tuned_def trained_def)

lemma ex_run: "new_train_clas ex_utils ex_env ex_args ex_state = (Inr (), ex_final)"
proof -
  have pre: "prelude ex_env ex_args =
      [Print Msg_cuda_unavailable, Set_device (- 1), Print (Msg_dataset ''imdb'' ''en'')]"
    by (simp add: prelude_def ex_env_def ex_fields)
  have st: "ex_state\<lparr>trace := trace ex_state @ t\<rparr> = ex_state\<lparr>trace := t\<rparr>" for t
    by (simp add: ex_state_def)
  show ?thesis
    by (simp add: prelude_run ex_check pre st bind_m_def emit_def ex_fields ex_prepare_from
          ex_train ex_final_def)
qed

subsection \<open>The order of a run that returns\<close>

lemma prepare_data_trace:
  assumes "prepare_data k e a s = (Inr d, s1)"
  shows "trace s1 = trace s @
           (if path_exists s (ids_file (tmp_dir_of a) (TRN k) (lang a))
            then [Print Msg_loading]
            else [Print Msg_reading, Read_clas_data (dataset_dir_of a) (dataset a) (lang a)])
       \<and> dirs s1 = insert (tmp_dir_of a) (dirs s)"
proof (cases d)
  case (fields idm lb itos)
  show ?thesis
  proof (cases "path_exists s (ids_file (tmp_dir_of a) (TRN k) (lang a))")
    case True
    from prepare_data_cached [OF assms [unfolded fields] True] True show ?thesis by simp
  next
    case False
    from prepare_data_fresh [OF assms [unfolded fields] False] False show ?thesis by auto
  qed
qed


lemma train_InrE:
  assumes "train k a (idm, lb, vocab) s = (Inr u, s')"
  obtains trn val tst tl vl enc where
    "idm (TRN k) = Some trn" "idm (VAL k) = Some val" "idm (TST k) = Some tst"
    "lb (TRN k) = Some tl" "lb (VAL k) = Some vl"
    "if fine_tune a
       then enc = fine_tuned (l_net (language_model_learner k a (data_lm_of a vocab trn val)))
       else files s (model_file a ''enc'') = Some (Encoder_pth enc)"
    "learn_dir a \<in> dirs s"
    "dirs s' = dirs s"
    "files s' = (if fine_tune a then (files s)(model_file a ''enc'' \<mapsto> Encoder_pth enc)
                  else files s)
                 (model_file a (model_name a @ ''_'' @ name a) \<mapsto>
                    Model_pth (trained enc
                      (l_net (text_classifier_learner k a (data_clas_of a vocab trn val tl vl)))))"
    "trace s' = trace s @
       [Print (Msg_sizes (length trn) (length val) (length tst)),
        Lm_from_ids (data_lm_of a vocab trn val),
        Clas_from_ids (data_clas_of a vocab trn val tl vl),
        Language_model_learner]
       @ (if fine_tune a then fine_tune_events else []) @ clas_events a"
  using train_Inr [OF assms] by (elim exE conjE) (rule that; assumption)

lemma run_success:
  assumes "new_train_clas k e a s = (Inr u, s')"
  obtains idm lb itos s1 trn val tst tl vl enc where
    "prepare_data k e a
       (s\<lparr>trace := trace s @ prelude e a @ (if qrnn a then [Print Msg_using_qrnn] else [])\<rparr>)
       = (Inr (idm, lb, itos), s1)"
    "idm (TRN k) = Some trn" "idm (VAL k) = Some val" "idm (TST k) = Some tst"
    "lb (TRN k) = Some tl" "lb (VAL k) = Some vl"
    "if fine_tune a
       then enc = fine_tuned (l_net (language_model_learner k a (data_lm_of a itos trn val)))
       else files s1 (model_file a ''enc'') = Some (Encoder_pth enc)"
    "learn_dir a \<in> dirs s1"
    "dirs s' = insert (tmp_dir_of a) (dirs s)"
    "files s' = (if fine_tune a then (files s1)(model_file a ''enc'' \<mapsto> Encoder_pth enc)
                  else files s1)
                 (model_file a (model_name a @ ''_'' @ name a) \<mapsto>
                    Model_pth (trained enc
                      (l_net (text_classifier_learner k a (data_clas_of a itos trn val tl vl)))))"
    "trace s' = trace s @ prelude e a @ (if qrnn a then [Print Msg_using_qrnn] else [])
       @ (if path_exists s (ids_file (tmp_dir_of a) (TRN k) (lang a))
          then [Print Msg_loading]
          else [Print Msg_reading, Read_clas_data (dataset_dir_of a) (dataset a) (lang a)])
       @ [Print (Msg_sizes (length trn) (length val) (length tst)),
          Lm_from_ids (data_lm_of a itos trn val),
          Clas_from_ids (data_clas_of a itos trn val tl vl),
          Language_model_learner]
       @ (if fine_tune a then fine_tune_events else []) @ clas_events a"
proof -
  let ?s0 = "s\<lparr>trace := trace s @ prelude e a @ (if qrnn a then [Print Msg_using_qrnn] else [])\<rparr>"
  from new_train_clas_Inr [OF assms] obtain idm lb itos s1 where
    prep: "prepare_data k e a ?s0 = (Inr (idm, lb, itos), s1)" and
    tr: "train k a (idm, lb, itos) s1 = (Inr (), s')"
    by (elim exE conjE)
  from prepare_data_trace [OF prep] have
    t1: "trace s1 = trace s @ prelude e a @ (if qrnn a then [Print Msg_using_qrnn] else [])
           @ (if path_exists s (ids_file (tmp_dir_of a) (TRN k) (lang a))
              then [Print Msg_loading]
              else [Print Msg_reading, Read_clas_data (dataset_dir_of a) (dataset a) (lang a)])"
    and d1: "dirs s1 = insert (tmp_dir_of a) (dirs s)"
    by simp_all
  from tr obtain trn val tst tl vl enc where T:
    "idm (TRN k) = Some trn" "idm (VAL k) = Some val" "idm (TST k) = Some tst"
    "lb (TRN k) = Some tl" "lb (VAL k) = Some vl"
    "if fine_tune a
       then enc = fine_tuned (l_net (language_model_learner k a (data_lm_of a itos trn val)))
       else files s1 (model_file a ''enc'') = Some (Encoder_pth enc)"
    "learn_dir a \<in> dirs s1"
    "dirs s' = dirs s1"
    "files s' = (if fine_tune a then (files s1)(model_file a ''enc'' \<mapsto> Encoder_pth enc)
                  else files s1)
                 (model_file a (model_name a @ ''_'' @ name a) \<mapsto>
                    Model_pth (trained enc
                      (l_net (text_classifier_learner k a (data_clas_of a itos trn val tl vl)))))"
    "trace s' = trace s1 @
       [Print (Msg_sizes (length trn) (length val) (length tst)),
        Lm_from_ids (data_lm_of a itos trn val),
        Clas_from_ids (data_clas_of a itos trn val tl vl),
        Language_model_learner]
       @ (if fine_tune a then fine_tune_events else []) @ clas_events a"
    by (rule train_InrE)
  have d': "dirs s' = insert (tmp_dir_of a) (dirs s)"
    using T(8) d1 by simp
  have t': "trace s' = trace s @ prelude e a @ (if qrnn a then [Print Msg_using_qrnn] else [])
       @ (if path_exists s (ids_file (tmp_dir_of a) (TRN k) (lang a))
          then [Print Msg_loading]
          else [Print Msg_reading, Read_clas_data (dataset_dir_of a) (dataset a) (lang a)])
       @ [Print (Msg_sizes (length trn) (length val) (length tst)),
          Lm_from_ids (data_lm_of a itos trn val),
          Clas_from_ids (data_clas_of a itos trn val tl vl),
          Language_model_learner]
       @ (if fine_tune a then fine_tune_events else []) @ clas_events a"
    unfolding T(10) t1 by (simp only: append_assoc)
  from prep T(1-7) d' T(9) t' show thesis by (rule that)
qed

subsection \<open>Reading the cache back\<close>

lemma prepare_data_when_cached:
  assumes "tmp_dir_of a \<in> dirs s"
      and "path_exists s (ids_file (tmp_dir_of a) (TRN k) (lang a))"
  shows "prepare_data k e a s = load_cached k a (tmp_dir_of a) s"
  using assms by (simp add: prepare_data_def bind_m_def mkdir_exist_ok_def exists_m_def)

lemma load_cached_lang:
  "lang a2 = lang a \<Longrightarrow> load_cached k a2 td s = load_cached k a td s"
  by (simp add: load_cached_def)

lemma prepare_data_reuse:
  assumes run: "prepare_data k e a t = (Inr (idm, lb, itos), t')"
      and fresh: "\<not> path_exists t (ids_file (tmp_dir_of a) (TRN k) (lang a))"
      and same: "tmp_dir_of a2 = tmp_dir_of a" "lang a2 = lang a"
  shows "\<exists>lb2. prepare_data k e2 a2 t' = (Inr (idm, lb2, itos), t'\<lparr>trace := trace t' @ [Print Msg_loading]\<rparr>)
           \<and> lb2 (TRN k) = lb (TRN k) \<and> lb2 (VAL k) = lb (VAL k) \<and> lb2 (TST k) = lb (TST k)"
proof -
  let ?td = "tmp_dir_of a" and ?lg = "lang a"
  note F = prepare_data_fresh [OF run fresh]
  from F have written:
    "\<forall>sp \<in> {TRN k, VAL k, TST k}. \<exists>arr l. idm sp = Some arr \<and> lb sp = Some l
        \<and> files t' (ids_file ?td sp ?lg) = Some (Npy_ids arr)
        \<and> files t' (lbl_file ?td sp ?lg) = Some (Npy_lbl l)"
    by fastforce
  from F have none: "\<forall>sp. sp \<notin> {TRN k, VAL k, TST k} \<longrightarrow> idm sp = None" by blast
  from F have voc: "files t' (vocab_pkl ?td ?lg) = Some (Pickle_vocab itos)" by blast
  from F have dir: "?td \<in> dirs t'" by auto
  from written have ex: "path_exists t' (ids_file ?td (TRN k) ?lg)"
    by (auto simp: path_exists_def)
  have eq: "prepare_data k e2 a2 t' = load_cached k a ?td t'"
    using prepare_data_when_cached [of a2 t' k e2] dir ex same load_cached_lang [of a2 a k ?td t']
    by simp
  from written have "\<forall>sp \<in> {TRN k, VAL k, TST k}.
              (\<exists>arr. files t' (ids_file ?td sp ?lg) = Some (Npy_ids arr))
            \<and> (\<exists>l. files t' (lbl_file ?td sp ?lg) = Some (Npy_lbl l))"
    by blast
  from load_cached_total [OF this voc] obtain idm2 lb2 where
    lc: "load_cached k a ?td t' = (Inr (idm2, lb2, itos), t'\<lparr>trace := trace t' @ [Print Msg_loading]\<rparr>)"
    by blast
  note L = load_cached_Inr [OF lc]
  have "idm2 sp = idm sp" for sp
  proof (cases "sp \<in> {TRN k, VAL k, TST k}")
    case True
    with L written show ?thesis by fastforce
  next
    case False
    with L none show ?thesis by simp
  qed
  then have idm: "idm2 = idm" by (rule ext)
  have lbs: "lb2 sp = lb sp" if "sp \<in> {TRN k, VAL k, TST k}" for sp
    using that L written by fastforce
  from lc eq idm lbs show ?thesis by simp
qed

lemma ex_cached_eq:
  "\<lparr>dirs = insert [''data'', ''imdb'', ''tmp''] (dirs ex_state), files = ex_cache,
    trace = [Print Msg_reading, Read_clas_data [''data'', ''imdb''] ''imdb'' ''en'']\<rparr> = ex_cached"
  by (simp add: ex_cached_def)

lemma ex_load:
  "prepare_data ex_utils e ex_args ex_cached =
     (Inr (ex_ids, ex_lbls, ex_itos), ex_cached\<lparr>trace := trace ex_cached @ [Print Msg_loading]\<rparr>)"
  unfolding prepare_data_def load_cached_def ex_paths ex_fields
  by (simp add: bind_m_def mkdir_exist_ok_def exists_m_def path_exists_def ex_cached_def
        emit_def return_def np_load_ids_def np_load_lbl_def pickle_load_vocab_def read_file_def
        ex_paths ex_cache_def ex_ids_def ex_lbls_def)

lemma ex_cached_exists:
  "path_exists ex_cached (ids_file (tmp_dir_of ex_args) (TRN ex_utils) (lang ex_args))"
  by (simp add: path_exists_def ex_cached_def ex_cache_def ex_paths ex_fields)

text \<open>
  Claim C3. When the file of the training ids is there, a run that gets its data has loaded
  it: the ids and labels of the three splits and the vocabulary are the contents of the
  cache files, nothing was read from the data set (the only print is that of the loading)
  and no file was written. When the file is not there, such a run has called the reader,
  built the vocabulary from the training split, encoded each split with it, and written the
  vocabulary, the ids and the labels to the files of the cache; and every later run on the
  file system it leaves, for the same tmp directory and language and whatever the corpus
  then is, loads the same ids, labels and vocabulary back without reading the data set.
\<close>

theorem C3_cache_loaded_or_made_and_reused:
  "(path_exists s (ids_file (tmp_dir_of a) (TRN k) (lang a))
      \<and> prepare_data k e a s = (Inr (idm, lb, itos), s')
    \<longrightarrow> trace s' = trace s @ [Print Msg_loading] \<and> files s' = files s
       \<and> (\<forall>sp \<in> {TRN k, VAL k, TST k}. \<exists>arr l.
             files s (ids_file (tmp_dir_of a) sp (lang a)) = Some (Npy_ids arr)
           \<and> files s (lbl_file (tmp_dir_of a) sp (lang a)) = Some (Npy_lbl l)
           \<and> idm sp = Some arr \<and> lb sp = Some l)
       \<and> files s (vocab_pkl (tmp_dir_of a) (lang a)) = Some (Pickle_vocab itos))
   \<and> (\<not> path_exists t (ids_file (tmp_dir_of a) (TRN k) (lang a))
      \<and> prepare_data k e a t = (Inr (idm', lb', itos'), t')
    \<longrightarrow> trace t' = trace t @ [Print Msg_reading,
                                 Read_clas_data (dataset_dir_of a) (dataset a) (lang a)]
       \<and> (\<exists>tk trn. read_clas_data e (dataset_dir_of a) (dataset a) (lang a) = Inr (tk, lb')
            \<and> tk (TRN k) = Some trn \<and> itos' = build_itos k (max_vocab a) trn
            \<and> (\<forall>sp \<in> {TRN k, VAL k, TST k}. \<exists>ex l. tk sp = Some ex \<and> lb' sp = Some l
                  \<and> idm' sp = Some (numericalize k (Vocab_stoi itos') ex)
                  \<and> files t' (ids_file (tmp_dir_of a) sp (lang a))
                       = Some (Npy_ids (numericalize k (Vocab_stoi itos') ex))
                  \<and> files t' (lbl_file (tmp_dir_of a) sp (lang a)) = Some (Npy_lbl l)))
       \<and> files t' (vocab_pkl (tmp_dir_of a) (lang a)) = Some (Pickle_vocab itos')
       \<and> (\<forall>e2 a2. tmp_dir_of a2 = tmp_dir_of a \<and> lang a2 = lang a \<longrightarrow>
            (\<exists>lb2. prepare_data k e2 a2 t'
                     = (Inr (idm', lb2, itos'), t'\<lparr>trace := trace t' @ [Print Msg_loading]\<rparr>)
                 \<and> lb2 (TRN k) = lb' (TRN k) \<and> lb2 (VAL k) = lb' (VAL k)
                 \<and> lb2 (TST k) = lb' (TST k))))"
proof (rule conjI; rule impI; elim conjE)
  assume c: "path_exists s (ids_file (tmp_dir_of a) (TRN k) (lang a))"
    and r: "prepare_data k e a s = (Inr (idm, lb, itos), s')"
  from prepare_data_cached [OF r c]
  show "trace s' = trace s @ [Print Msg_loading] \<and> files s' = files s
       \<and> (\<forall>sp \<in> {TRN k, VAL k, TST k}. \<exists>arr l.
             files s (ids_file (tmp_dir_of a) sp (lang a)) = Some (Npy_ids arr)
           \<and> files s (lbl_file (tmp_dir_of a) sp (lang a)) = Some (Npy_lbl l)
           \<and> idm sp = Some arr \<and> lb sp = Some l)
       \<and> files s (vocab_pkl (tmp_dir_of a) (lang a)) = Some (Pickle_vocab itos)"
    by simp
next
  assume f: "\<not> path_exists t (ids_file (tmp_dir_of a) (TRN k) (lang a))"
    and r: "prepare_data k e a t = (Inr (idm', lb', itos'), t')"
  note F = prepare_data_fresh [OF r f]
  have reuse: "\<forall>e2 a2. tmp_dir_of a2 = tmp_dir_of a \<and> lang a2 = lang a \<longrightarrow>
            (\<exists>lb2. prepare_data k e2 a2 t'
                     = (Inr (idm', lb2, itos'), t'\<lparr>trace := trace t' @ [Print Msg_loading]\<rparr>)
                 \<and> lb2 (TRN k) = lb' (TRN k) \<and> lb2 (VAL k) = lb' (VAL k)
                 \<and> lb2 (TST k) = lb' (TST k))"
    using prepare_data_reuse [OF r f] by blast
  from F have t: "trace t' = trace t @ [Print Msg_reading,
                                 Read_clas_data (dataset_dir_of a) (dataset a) (lang a)]"
    by blast
  from F have v: "files t' (vocab_pkl (tmp_dir_of a) (lang a)) = Some (Pickle_vocab itos')"
    by blast
  from F have
    d: "\<exists>tk trn. read_clas_data e (dataset_dir_of a) (dataset a) (lang a) = Inr (tk, lb')
            \<and> tk (TRN k) = Some trn \<and> itos' = build_itos k (max_vocab a) trn
            \<and> (\<forall>sp \<in> {TRN k, VAL k, TST k}. \<exists>ex l. tk sp = Some ex \<and> lb' sp = Some l
                  \<and> idm' sp = Some (numericalize k (Vocab_stoi itos') ex)
                  \<and> files t' (ids_file (tmp_dir_of a) sp (lang a))
                       = Some (Npy_ids (numericalize k (Vocab_stoi itos') ex))
                  \<and> files t' (lbl_file (tmp_dir_of a) sp (lang a)) = Some (Npy_lbl l))"
    by (elim exE conjE) (intro exI conjI; assumption)
  from t d v reuse
  show "trace t' = trace t @ [Print Msg_reading,
                                 Read_clas_data (dataset_dir_of a) (dataset a) (lang a)]
       \<and> (\<exists>tk trn. read_clas_data e (dataset_dir_of a) (dataset a) (lang a) = Inr (tk, lb')
            \<and> tk (TRN k) = Some trn \<and> itos' = build_itos k (max_vocab a) trn
            \<and> (\<forall>sp \<in> {TRN k, VAL k, TST k}. \<exists>ex l. tk sp = Some ex \<and> lb' sp = Some l
                  \<and> idm' sp = Some (numericalize k (Vocab_stoi itos') ex)
                  \<and> files t' (ids_file (tmp_dir_of a) sp (lang a))
                       = Some (Npy_ids (numericalize k (Vocab_stoi itos') ex))
                  \<and> files t' (lbl_file (tmp_dir_of a) sp (lang a)) = Some (Npy_lbl l)))
       \<and> files t' (vocab_pkl (tmp_dir_of a) (lang a)) = Some (Pickle_vocab itos')
       \<and> (\<forall>e2 a2. tmp_dir_of a2 = tmp_dir_of a \<and> lang a2 = lang a \<longrightarrow>
            (\<exists>lb2. prepare_data k e2 a2 t'
                     = (Inr (idm', lb2, itos'), t'\<lparr>trace := trace t' @ [Print Msg_loading]\<rparr>)
                 \<and> lb2 (TRN k) = lb' (TRN k) \<and> lb2 (VAL k) = lb' (VAL k)
                 \<and> lb2 (TST k) = lb' (TST k)))"
    by (intro conjI)
qed

theorem C3_witness:
  "path_exists ex_cached (ids_file (tmp_dir_of ex_args) (TRN ex_utils) (lang ex_args))
   \<and> prepare_data ex_utils ex_env2 ex_args ex_cached
       = (Inr (ex_ids, ex_lbls, ex_itos), ex_cached\<lparr>trace := trace ex_cached @ [Print Msg_loading]\<rparr>)
   \<and> files ex_cached (vocab_pkl (tmp_dir_of ex_args) (lang ex_args)) = Some (Pickle_vocab ex_itos)
   \<and> \<not> path_exists ex_state (ids_file (tmp_dir_of ex_args) (TRN ex_utils) (lang ex_args))
   \<and> prepare_data ex_utils ex_env ex_args ex_state = (Inr (ex_ids, ex_lbls, ex_itos), ex_cached)
   \<and> trace ex_cached = trace ex_state @ [Print Msg_reading,
        Read_clas_data (dataset_dir_of ex_args) (dataset ex_args) (lang ex_args)]
   \<and> (\<exists>lb2. prepare_data ex_utils ex_env2 ex_args ex_cached
         = (Inr (ex_ids, lb2, ex_itos), ex_cached\<lparr>trace := trace ex_cached @ [Print Msg_loading]\<rparr>)
       \<and> lb2 (TRN ex_utils) = ex_lbls (TRN ex_utils))"
proof -
  have run: "prepare_data ex_utils ex_env ex_args ex_state = (Inr (ex_ids, ex_lbls, ex_itos), ex_cached)"
    using ex_prepare by (simp only: ex_cached_eq)
  note inst1 = C3_cache_loaded_or_made_and_reused
    [where s = ex_cached and a = ex_args and k = ex_utils and e = ex_env2 and idm = ex_ids
       and lb = ex_lbls and itos = ex_itos
       and s' = "ex_cached\<lparr>trace := trace ex_cached @ [Print Msg_loading]\<rparr>"]
  note inst = C3_cache_loaded_or_made_and_reused
    [where t = ex_state and a = ex_args and k = ex_utils and e = ex_env and idm' = ex_ids
       and lb' = ex_lbls and itos' = ex_itos and t' = ex_cached]
  from inst1 ex_cached_exists ex_load [of ex_env2]
  have v: "files ex_cached (vocab_pkl (tmp_dir_of ex_args) (lang ex_args)) = Some (Pickle_vocab ex_itos)"
    by blast
  from inst ex_fresh run
  have t: "trace ex_cached = trace ex_state @ [Print Msg_reading,
        Read_clas_data (dataset_dir_of ex_args) (dataset ex_args) (lang ex_args)]"
    by blast
  from inst ex_fresh run
  have "\<forall>e2 a2. tmp_dir_of a2 = tmp_dir_of ex_args \<and> lang a2 = lang ex_args \<longrightarrow>
            (\<exists>lb2. prepare_data ex_utils e2 a2 ex_cached
                     = (Inr (ex_ids, lb2, ex_itos), ex_cached\<lparr>trace := trace ex_cached @ [Print Msg_loading]\<rparr>)
                 \<and> lb2 (TRN ex_utils) = ex_lbls (TRN ex_utils) \<and> lb2 (VAL ex_utils) = ex_lbls (VAL ex_utils)
                 \<and> lb2 (TST ex_utils) = ex_lbls (TST ex_utils))"
    by blast
  then have r: "\<exists>lb2. prepare_data ex_utils ex_env2 ex_args ex_cached
         = (Inr (ex_ids, lb2, ex_itos), ex_cached\<lparr>trace := trace ex_cached @ [Print Msg_loading]\<rparr>)
       \<and> lb2 (TRN ex_utils) = ex_lbls (TRN ex_utils)"
    by blast
  from ex_cached_exists ex_load [of ex_env2] v ex_fresh run t r show ?thesis
    by (intro conjI)
qed

subsection \<open>A cache that is not whole\<close>

lemma load_cached_state:
  "load_cached k a td s = (r, s') \<Longrightarrow> s' = s\<lparr>trace := trace s @ [Print Msg_loading]\<rparr>"
proof (cases r)
  case (Inl err)
  assume "load_cached k a td s = (r, s')"
  with Inl load_cached_Inl [of k a td s err s'] show ?thesis by simp
next
  case (Inr d)
  assume "load_cached k a td s = (r, s')"
  with Inr load_cached_Inr [of k a td s "fst d" "fst (snd d)" "snd (snd d)" s'] show ?thesis
    by simp
qed

lemma cache_files_present:
  assumes "\<forall>sp \<in> {TRN k, VAL k, TST k}.
              (\<exists>arr. files s (ids_file (tmp_dir_of a) sp (lang a)) = Some (Npy_ids arr))
            \<and> (\<exists>l. files s (lbl_file (tmp_dir_of a) sp (lang a)) = Some (Npy_lbl l))"
      and "\<exists>v. files s (vocab_pkl (tmp_dir_of a) (lang a)) = Some (Pickle_vocab v)"
      and "p \<in> set (cache_files k a)"
  shows "files s p \<noteq> None"
  using assms by (auto simp: cache_files_def)

text \<open>
  Claim C8. With the tmp directory and the file of the training ids there, the script loads,
  whatever else is there: it prints that it loads, reads nothing from the data set and writes
  nothing. The loading returns exactly when all seven files of the cache (ids and labels of
  the three splits, and the vocabulary) are there with contents of their kinds. Otherwise it
  ends with the error of reading one of the seven (missing, a directory, or not of its
  kind): no check of existence comes before the reads. In particular it ends with an error
  as soon as one of the seven is missing.
\<close>

theorem C8_loading_needs_all_seven_files:
  assumes "tmp_dir_of a \<in> dirs s"
      and "path_exists s (ids_file (tmp_dir_of a) (TRN k) (lang a))"
  shows "(\<forall>r s'. prepare_data k e a s = (r, s') \<longrightarrow> s' = s\<lparr>trace := trace s @ [Print Msg_loading]\<rparr>)
       \<and> ((\<exists>idm lb itos s'. prepare_data k e a s = (Inr (idm, lb, itos), s'))
            \<longleftrightarrow> (\<forall>sp \<in> {TRN k, VAL k, TST k}.
                    (\<exists>arr. files s (ids_file (tmp_dir_of a) sp (lang a)) = Some (Npy_ids arr))
                  \<and> (\<exists>l. files s (lbl_file (tmp_dir_of a) sp (lang a)) = Some (Npy_lbl l)))
                \<and> (\<exists>v. files s (vocab_pkl (tmp_dir_of a) (lang a)) = Some (Pickle_vocab v)))
       \<and> (\<forall>err s'. prepare_data k e a s = (Inl err, s') \<longrightarrow>
            (\<exists>p \<in> set (cache_files k a).
                err \<in> {FileNotFoundError p, IsADirectoryError p, ValueError p}))
       \<and> (\<forall>p \<in> set (cache_files k a). files s p = None \<longrightarrow>
            (\<exists>err s'. prepare_data k e a s = (Inl err, s')))"
proof -
  let ?td = "tmp_dir_of a"
  let ?whole = "(\<forall>sp \<in> {TRN k, VAL k, TST k}.
                    (\<exists>arr. files s (ids_file ?td sp (lang a)) = Some (Npy_ids arr))
                  \<and> (\<exists>l. files s (lbl_file ?td sp (lang a)) = Some (Npy_lbl l)))
                \<and> (\<exists>v. files s (vocab_pkl ?td (lang a)) = Some (Pickle_vocab v))"
  note eq = prepare_data_when_cached [OF assms, of e]
  have st: "\<forall>r s'. prepare_data k e a s = (r, s') \<longrightarrow> s' = s\<lparr>trace := trace s @ [Print Msg_loading]\<rparr>"
    unfolding eq using load_cached_state by blast
  have ok_whole: "?whole" if "prepare_data k e a s = (Inr (idm, lb, itos), s')" for idm lb itos s'
    using load_cached_Inr [OF that [unfolded eq]] by fastforce
  have whole_ok: "\<exists>idm lb itos s'. prepare_data k e a s = (Inr (idm, lb, itos), s')" if "?whole"
  proof -
    from that obtain v where v: "files s (vocab_pkl ?td (lang a)) = Some (Pickle_vocab v)"
      by blast
    from that have "\<forall>sp \<in> {TRN k, VAL k, TST k}.
                    (\<exists>arr. files s (ids_file ?td sp (lang a)) = Some (Npy_ids arr))
                  \<and> (\<exists>l. files s (lbl_file ?td sp (lang a)) = Some (Npy_lbl l))"
      by blast
    from load_cached_total [OF this v] show ?thesis unfolding eq by blast
  qed
  have iff: "(\<exists>idm lb itos s'. prepare_data k e a s = (Inr (idm, lb, itos), s')) \<longleftrightarrow> ?whole"
    using ok_whole whole_ok by blast
  have err: "\<forall>err s'. prepare_data k e a s = (Inl err, s') \<longrightarrow>
            (\<exists>p \<in> set (cache_files k a).
                err \<in> {FileNotFoundError p, IsADirectoryError p, ValueError p})"
    unfolding eq cache_files_def using load_cached_Inl [of k a ?td s] by blast
  have missing: "\<exists>err s'. prepare_data k e a s = (Inl err, s')"
    if p: "p \<in> set (cache_files k a)" and none: "files s p = None" for p
  proof (cases "prepare_data k e a s")
    case (Pair r s')
    show ?thesis
    proof (cases r)
      case (Inl err)
      with Pair show ?thesis by blast
    next
      case (Inr d)
      with Pair have "prepare_data k e a s = (Inr (fst d, fst (snd d), snd (snd d)), s')" by simp
      from ok_whole [OF this] p have "files s p \<noteq> None"
        by (intro cache_files_present [of k s a p]) blast+
      with none show ?thesis by simp
    qed
  qed
  from st iff err missing show ?thesis by blast
qed

lemma ex_partial_fails:
  "prepare_data ex_utils e ex_args ex_partial =
     (Inl (FileNotFoundError [''data'', ''imdb'', ''tmp'', ''train_en_lbl.npy'']),
      ex_partial\<lparr>trace := trace ex_partial @ [Print Msg_loading]\<rparr>)"
  unfolding prepare_data_def load_cached_def ex_paths ex_fields
  by (simp add: bind_m_def mkdir_exist_ok_def exists_m_def path_exists_def ex_partial_def
        emit_def return_def np_load_ids_def np_load_lbl_def read_file_def ex_paths ex_state_def)

theorem C8_witness:
  "tmp_dir_of ex_args \<in> dirs ex_partial
   \<and> path_exists ex_partial (ids_file (tmp_dir_of ex_args) (TRN ex_utils) (lang ex_args))
   \<and> lbl_file (tmp_dir_of ex_args) (TRN ex_utils) (lang ex_args) \<in> set (cache_files ex_utils ex_args)
   \<and> files ex_partial (lbl_file (tmp_dir_of ex_args) (TRN ex_utils) (lang ex_args)) = None
   \<and> prepare_data ex_utils ex_env ex_args ex_partial =
       (Inl (FileNotFoundError [''data'', ''imdb'', ''tmp'', ''train_en_lbl.npy'']),
        ex_partial\<lparr>trace := trace ex_partial @ [Print Msg_loading]\<rparr>)
   \<and> (\<exists>p \<in> set (cache_files ex_utils ex_args).
         FileNotFoundError [''data'', ''imdb'', ''tmp'', ''train_en_lbl.npy'']
           \<in> {FileNotFoundError p, IsADirectoryError p, ValueError p})
   \<and> \<not> (\<exists>idm lb itos s'. prepare_data ex_utils ex_env ex_args ex_partial = (Inr (idm, lb, itos), s'))"
proof -
  have d: "tmp_dir_of ex_args \<in> dirs ex_partial"
    by (simp add: ex_partial_def ex_paths)
  have x: "path_exists ex_partial (ids_file (tmp_dir_of ex_args) (TRN ex_utils) (lang ex_args))"
    by (simp add: path_exists_def ex_partial_def ex_paths ex_fields)
  have m: "lbl_file (tmp_dir_of ex_args) (TRN ex_utils) (lang ex_args) \<in> set (cache_files ex_utils ex_args)"
    by (simp add: cache_files_def)
  have n: "files ex_partial (lbl_file (tmp_dir_of ex_args) (TRN ex_utils) (lang ex_args)) = None"
    by (simp add: ex_partial_def ex_paths ex_fields)
  note inst = C8_loading_needs_all_seven_files [OF d x, of ex_env]
  from inst ex_partial_fails [of ex_env]
  have p: "\<exists>p \<in> set (cache_files ex_utils ex_args).
         FileNotFoundError [''data'', ''imdb'', ''tmp'', ''train_en_lbl.npy'']
           \<in> {FileNotFoundError p, IsADirectoryError p, ValueError p}"
    by blast
  have no: "\<not> (\<exists>idm lb itos s'. prepare_data ex_utils ex_env ex_args ex_partial = (Inr (idm, lb, itos), s'))"
    by (simp add: ex_partial_fails)
  from d x m n ex_partial_fails [of ex_env] p no show ?thesis by (intro conjI)
qed

subsection \<open>What of the data reaches the training\<close>

lemma model_file_neq_cache [simp]:
  "model_file a n \<noteq> ids_file td sp lg" "ids_file td sp lg \<noteq> model_file a n"
  "model_file a n \<noteq> lbl_file td sp lg" "lbl_file td sp lg \<noteq> model_file a n"
  "model_file a n \<noteq> vocab_pkl td lg" "vocab_pkl td lg \<noteq> model_file a n"
proof -
  have a: "n @ ''.pth'' \<noteq> (sp @ ''_'' @ lg @ ''_ids'') @ ''.npy''"
    by (subst append_eq_append_conv) simp_all
  have b: "n @ ''.pth'' \<noteq> (sp @ ''_'' @ lg @ ''_lbl'') @ ''.npy''"
    by (subst append_eq_append_conv) simp_all
  have c: "n @ ''.pth'' \<noteq> (''vocab_'' @ lg) @ ''.pkl''"
    by (subst append_eq_append_conv) simp_all
  show "model_file a n \<noteq> ids_file td sp lg" "ids_file td sp lg \<noteq> model_file a n"
    using a by (auto simp: model_file_eq ids_file_eq)
  show "model_file a n \<noteq> lbl_file td sp lg" "lbl_file td sp lg \<noteq> model_file a n"
    using b by (auto simp: model_file_eq lbl_file_eq)
  show "model_file a n \<noteq> vocab_pkl td lg" "vocab_pkl td lg \<noteq> model_file a n"
    using c by (auto simp: model_file_eq vocab_pkl_eq)
qed

text \<open>
  After the data was got, on either branch: the cache files of the training and validation
  splits and of the vocabulary hold the data that was returned, and every file that is not
  of the cache is as it was.
\<close>

lemma prepare_data_files:
  assumes "prepare_data k e a s = (Inr (idm, lb, itos), s')"
  shows "files s' (vocab_pkl (tmp_dir_of a) (lang a)) = Some (Pickle_vocab itos)"
    and "\<And>sp. sp \<in> {TRN k, VAL k, TST k} \<Longrightarrow>
           \<exists>arr l. idm sp = Some arr \<and> lb sp = Some l
             \<and> files s' (ids_file (tmp_dir_of a) sp (lang a)) = Some (Npy_ids arr)
             \<and> files s' (lbl_file (tmp_dir_of a) sp (lang a)) = Some (Npy_lbl l)"
    and "\<And>p. p \<noteq> vocab_pkl (tmp_dir_of a) (lang a) \<Longrightarrow>
           (\<And>sp. sp \<in> {TRN k, VAL k, TST k} \<Longrightarrow>
              p \<noteq> ids_file (tmp_dir_of a) sp (lang a) \<and> p \<noteq> lbl_file (tmp_dir_of a) sp (lang a)) \<Longrightarrow>
           files s' p = files s p"
proof -
  let ?F = "ids_file (tmp_dir_of a) (TRN k) (lang a)"
  show "files s' (vocab_pkl (tmp_dir_of a) (lang a)) = Some (Pickle_vocab itos)"
  proof (cases "path_exists s ?F")
    case True
    from prepare_data_cached [OF assms True] show ?thesis by simp
  next
    case False
    from prepare_data_fresh [OF assms False] show ?thesis by blast
  qed
  show "\<exists>arr l. idm sp = Some arr \<and> lb sp = Some l
             \<and> files s' (ids_file (tmp_dir_of a) sp (lang a)) = Some (Npy_ids arr)
             \<and> files s' (lbl_file (tmp_dir_of a) sp (lang a)) = Some (Npy_lbl l)"
    if "sp \<in> {TRN k, VAL k, TST k}" for sp
  proof (cases "path_exists s ?F")
    case True
    from prepare_data_cached [OF assms True] that show ?thesis by fastforce
  next
    case False
    from prepare_data_fresh [OF assms False] that show ?thesis by fastforce
  qed
  show "files s' p = files s p"
    if "p \<noteq> vocab_pkl (tmp_dir_of a) (lang a)"
      and "\<And>sp. sp \<in> {TRN k, VAL k, TST k} \<Longrightarrow>
              p \<noteq> ids_file (tmp_dir_of a) sp (lang a) \<and> p \<noteq> lbl_file (tmp_dir_of a) sp (lang a)"
    for p
  proof (cases "path_exists s ?F")
    case True
    from prepare_data_cached [OF assms True] show ?thesis by simp
  next
    case False
    from prepare_data_fresh [OF assms False] have
      "\<forall>p. p \<noteq> vocab_pkl (tmp_dir_of a) (lang a)
          \<and> (\<forall>sp \<in> {TRN k, VAL k, TST k}.
                p \<noteq> ids_file (tmp_dir_of a) sp (lang a) \<and> p \<noteq> lbl_file (tmp_dir_of a) sp (lang a))
          \<longrightarrow> files s' p = files s p"
      by blast
    with that show ?thesis by blast
  qed
qed

lemma prepare_data_agree:
  assumes r1: "prepare_data k e1 a s1 = (Inr (idm1, lb1, itos1), t1)"
      and r2: "prepare_data k e2 a s2 = (Inr (idm2, lb2, itos2), t2)"
      and tst: "TST k \<noteq> TRN k" "TST k \<noteq> VAL k"
      and dirs: "dirs s1 = dirs s2"
      and fs: "\<And>p. p \<noteq> ids_file (tmp_dir_of a) (TST k) (lang a) \<Longrightarrow>
                   p \<noteq> lbl_file (tmp_dir_of a) (TST k) (lang a) \<Longrightarrow> files s1 p = files s2 p"
      and rd: "\<And>tk1 l1 tk2 l2.
                 read_clas_data e1 (dataset_dir_of a) (dataset a) (lang a) = Inr (tk1, l1) \<Longrightarrow>
                 read_clas_data e2 (dataset_dir_of a) (dataset a) (lang a) = Inr (tk2, l2) \<Longrightarrow>
                 tk1 (TRN k) = tk2 (TRN k) \<and> tk1 (VAL k) = tk2 (VAL k)
                 \<and> l1 (TRN k) = l2 (TRN k) \<and> l1 (VAL k) = l2 (VAL k)"
  shows "itos1 = itos2 \<and> idm1 (TRN k) = idm2 (TRN k) \<and> idm1 (VAL k) = idm2 (VAL k)
       \<and> lb1 (TRN k) = lb2 (TRN k) \<and> lb1 (VAL k) = lb2 (VAL k)"
proof -
  let ?td = "tmp_dir_of a" and ?lg = "lang a"
  let ?F = "ids_file ?td (TRN k) ?lg"
  have same_ids: "files s1 (ids_file ?td sp ?lg) = files s2 (ids_file ?td sp ?lg)"
    and same_lbl: "files s1 (lbl_file ?td sp ?lg) = files s2 (lbl_file ?td sp ?lg)"
    if "sp \<noteq> TST k" for sp
    using that by (simp_all add: fs)
  have same_voc: "files s1 (vocab_pkl ?td ?lg) = files s2 (vocab_pkl ?td ?lg)"
    by (simp add: fs)
  have pe: "path_exists s1 ?F = path_exists s2 ?F"
    using same_ids [of "TRN k"] tst dirs by (simp add: path_exists_def)
  show ?thesis
  proof (cases "path_exists s1 ?F")
    case True
    with pe have True2: "path_exists s2 ?F" by simp
    note C1 = prepare_data_cached [OF r1 True] and C2 = prepare_data_cached [OF r2 True2]
    from C1 C2 same_voc have itos: "itos1 = itos2" by simp
    have per: "idm1 sp = idm2 sp \<and> lb1 sp = lb2 sp" if "sp \<in> {TRN k, VAL k}" for sp
    proof -
      from that tst have ne: "sp \<noteq> TST k" by auto
      from that C1 obtain arr1 l1 where
        "files s1 (ids_file ?td sp ?lg) = Some (Npy_ids arr1)"
        "files s1 (lbl_file ?td sp ?lg) = Some (Npy_lbl l1)"
        "idm1 sp = Some arr1" "lb1 sp = Some l1"
        by fastforce
      moreover from that C2 obtain arr2 l2 where
        "files s2 (ids_file ?td sp ?lg) = Some (Npy_ids arr2)"
        "files s2 (lbl_file ?td sp ?lg) = Some (Npy_lbl l2)"
        "idm2 sp = Some arr2" "lb2 sp = Some l2"
        by fastforce
      ultimately show ?thesis using same_ids [OF ne] same_lbl [OF ne] by simp
    qed
    from itos per [of "TRN k"] per [of "VAL k"] show ?thesis by simp
  next
    case False
    with pe have False2: "\<not> path_exists s2 ?F" by simp
    from prepare_data_fresh [OF r1 False] obtain tk1 trn1 where
      rd1: "read_clas_data e1 (dataset_dir_of a) (dataset a) (lang a) = Inr (tk1, lb1)" and
      trn1: "tk1 (TRN k) = Some trn1" "itos1 = build_itos k (max_vocab a) trn1" and
      sp1: "\<forall>sp \<in> {TRN k, VAL k, TST k}. \<exists>ex. tk1 sp = Some ex
              \<and> idm1 sp = Some (numericalize k (Vocab_stoi itos1) ex)"
      by fastforce
    from prepare_data_fresh [OF r2 False2] obtain tk2 trn2 where
      rd2: "read_clas_data e2 (dataset_dir_of a) (dataset a) (lang a) = Inr (tk2, lb2)" and
      trn2: "tk2 (TRN k) = Some trn2" "itos2 = build_itos k (max_vocab a) trn2" and
      sp2: "\<forall>sp \<in> {TRN k, VAL k, TST k}. \<exists>ex. tk2 sp = Some ex
              \<and> idm2 sp = Some (numericalize k (Vocab_stoi itos2) ex)"
      by fastforce
    note R = rd [OF rd1 rd2]
    from R trn1 trn2 have itos: "itos1 = itos2" by simp
    have per: "idm1 sp = idm2 sp" if "sp \<in> {TRN k, VAL k}" for sp
    proof -
      from that sp1 obtain ex1 where
        "tk1 sp = Some ex1" "idm1 sp = Some (numericalize k (Vocab_stoi itos1) ex1)"
        by fastforce
      moreover from that sp2 obtain ex2 where
        "tk2 sp = Some ex2" "idm2 sp = Some (numericalize k (Vocab_stoi itos2) ex2)"
        by fastforce
      moreover from that R have "tk1 sp = tk2 sp" by auto
      ultimately show ?thesis using itos by simp
    qed
    from itos per [of "TRN k"] per [of "VAL k"] R show ?thesis by simp
  qed
qed

lemma prepare_files_agree:
  assumes r1: "prepare_data k e1 a s1 = (Inr (idm1, lb1, itos1), t1)"
      and r2: "prepare_data k e2 a s2 = (Inr (idm2, lb2, itos2), t2)"
      and tst: "TST k \<noteq> TRN k" "TST k \<noteq> VAL k"
      and fs: "\<And>p. p \<noteq> ids_file (tmp_dir_of a) (TST k) (lang a) \<Longrightarrow>
                   p \<noteq> lbl_file (tmp_dir_of a) (TST k) (lang a) \<Longrightarrow> files s1 p = files s2 p"
      and agree: "itos1 = itos2 \<and> idm1 (TRN k) = idm2 (TRN k) \<and> idm1 (VAL k) = idm2 (VAL k)
                 \<and> lb1 (TRN k) = lb2 (TRN k) \<and> lb1 (VAL k) = lb2 (VAL k)"
      and p: "p \<noteq> ids_file (tmp_dir_of a) (TST k) (lang a)"
             "p \<noteq> lbl_file (tmp_dir_of a) (TST k) (lang a)"
  shows "files t1 p = files t2 p"
proof -
  let ?td = "tmp_dir_of a" and ?lg = "lang a"
  note F1 = prepare_data_files [OF r1] and F2 = prepare_data_files [OF r2]
  have split_files: "files t1 (ids_file ?td sp ?lg) = files t2 (ids_file ?td sp ?lg)
      \<and> files t1 (lbl_file ?td sp ?lg) = files t2 (lbl_file ?td sp ?lg)"
    if "sp \<in> {TRN k, VAL k}" for sp
  proof -
    from that have sp: "sp \<in> {TRN k, VAL k, TST k}" by auto
    from F1(2) [OF sp] obtain arr1 l1 where
      "idm1 sp = Some arr1" "lb1 sp = Some l1"
      "files t1 (ids_file ?td sp ?lg) = Some (Npy_ids arr1)"
      "files t1 (lbl_file ?td sp ?lg) = Some (Npy_lbl l1)"
      by blast
    moreover from F2(2) [OF sp] obtain arr2 l2 where
      "idm2 sp = Some arr2" "lb2 sp = Some l2"
      "files t2 (ids_file ?td sp ?lg) = Some (Npy_ids arr2)"
      "files t2 (lbl_file ?td sp ?lg) = Some (Npy_lbl l2)"
      by blast
    moreover from that agree have "idm1 sp = idm2 sp" "lb1 sp = lb2 sp" by auto
    ultimately show ?thesis by simp
  qed
  consider (voc) "p = vocab_pkl ?td ?lg"
    | (ids) sp where "sp \<in> {TRN k, VAL k}" "p = ids_file ?td sp ?lg"
    | (lbl) sp where "sp \<in> {TRN k, VAL k}" "p = lbl_file ?td sp ?lg"
    | (other) "p \<noteq> vocab_pkl ?td ?lg"
        "\<And>sp. sp \<in> {TRN k, VAL k, TST k} \<Longrightarrow> p \<noteq> ids_file ?td sp ?lg \<and> p \<noteq> lbl_file ?td sp ?lg"
    using p by blast
  then show ?thesis
  proof cases
    case voc
    with F1(1) F2(1) agree show ?thesis by simp
  next
    case ids
    with split_files show ?thesis by blast
  next
    case lbl
    with split_files show ?thesis by blast
  next
    case other
    from F1(3) [OF other] F2(3) [OF other] fs [OF p] show ?thesis by simp
  qed
qed

text \<open>
  Claim C10. Take two runs that return, with the same arguments, on file systems that differ
  at most in the two cache files of the test split, and with readers whose corpora differ at
  most in the test split (the names of the three splits being different). Then both runs
  leave the same contents in every file but those two, the saved weights and the encoder
  among them, and from the making of the data bunches on they call the framework in the same
  way with the same data. The ids and labels of the test split are in the cache after the
  run, as those of the other splits are: they are written or read, and used for nothing but
  the printed size.
\<close>

theorem C10_test_split_has_no_effect:
  assumes run1: "new_train_clas k e1 a s1 = (Inr u1, s1')"
      and run2: "new_train_clas k e2 a s2 = (Inr u2, s2')"
      and tst: "TST k \<noteq> TRN k \<and> TST k \<noteq> VAL k"
      and dirs: "dirs s1 = dirs s2"
      and fs: "\<forall>p. p \<noteq> ids_file (tmp_dir_of a) (TST k) (lang a)
                 \<and> p \<noteq> lbl_file (tmp_dir_of a) (TST k) (lang a) \<longrightarrow> files s1 p = files s2 p"
      and rd: "\<forall>tk1 l1 tk2 l2.
                 read_clas_data e1 (dataset_dir_of a) (dataset a) (lang a) = Inr (tk1, l1)
               \<and> read_clas_data e2 (dataset_dir_of a) (dataset a) (lang a) = Inr (tk2, l2)
               \<longrightarrow> tk1 (TRN k) = tk2 (TRN k) \<and> tk1 (VAL k) = tk2 (VAL k)
                 \<and> l1 (TRN k) = l2 (TRN k) \<and> l1 (VAL k) = l2 (VAL k)"
  shows "(\<forall>p. p \<noteq> ids_file (tmp_dir_of a) (TST k) (lang a)
             \<and> p \<noteq> lbl_file (tmp_dir_of a) (TST k) (lang a) \<longrightarrow> files s1' p = files s2' p)
       \<and> (\<exists>w. files s1' (model_file a (model_name a @ ''_'' @ name a)) = Some (Model_pth w)
              \<and> files s2' (model_file a (model_name a @ ''_'' @ name a)) = Some (Model_pth w))
       \<and> (\<exists>pre1 pre2 data_lm data_clas rest.
             trace s1' = trace s1 @ pre1 @ Lm_from_ids data_lm # Clas_from_ids data_clas # rest
           \<and> trace s2' = trace s2 @ pre2 @ Lm_from_ids data_lm # Clas_from_ids data_clas # rest)
       \<and> (\<exists>arr l. files s1' (ids_file (tmp_dir_of a) (TST k) (lang a)) = Some (Npy_ids arr)
               \<and> files s1' (lbl_file (tmp_dir_of a) (TST k) (lang a)) = Some (Npy_lbl l))"
proof (rule run_success [OF run1], rule run_success [OF run2])
  fix idm1 lb1 itos1 t1 trn1 val1 tst1 tl1 vl1 enc1
  fix idm2 lb2 itos2 t2 trn2 val2 tst2 tl2 vl2 enc2
  let ?td = "tmp_dir_of a" and ?lg = "lang a"
  let ?q = "if qrnn a then [Print Msg_using_qrnn] else []"
  let ?wp = "model_file a (model_name a @ ''_'' @ name a)"
  let ?ep = "model_file a ''enc''"
  assume p1: "prepare_data k e1 a (s1\<lparr>trace := trace s1 @ prelude e1 a @ ?q\<rparr>)
                = (Inr (idm1, lb1, itos1), t1)"
    and d1: "idm1 (TRN k) = Some trn1" "idm1 (VAL k) = Some val1"
            "lb1 (TRN k) = Some tl1" "lb1 (VAL k) = Some vl1"
    and e1: "if fine_tune a
               then enc1 = fine_tuned (l_net (language_model_learner k a (data_lm_of a itos1 trn1 val1)))
               else files t1 ?ep = Some (Encoder_pth enc1)"
    and f1: "files s1' = (if fine_tune a then (files t1)(?ep \<mapsto> Encoder_pth enc1) else files t1)
                (?wp \<mapsto> Model_pth (trained enc1
                   (l_net (text_classifier_learner k a (data_clas_of a itos1 trn1 val1 tl1 vl1)))))"
    and tr1: "trace s1' = trace s1 @ prelude e1 a @ ?q
                @ (if path_exists s1 (ids_file ?td (TRN k) ?lg)
                   then [Print Msg_loading]
                   else [Print Msg_reading, Read_clas_data (dataset_dir_of a) (dataset a) ?lg])
                @ [Print (Msg_sizes (length trn1) (length val1) (length tst1)),
                   Lm_from_ids (data_lm_of a itos1 trn1 val1),
                   Clas_from_ids (data_clas_of a itos1 trn1 val1 tl1 vl1),
                   Language_model_learner]
                @ (if fine_tune a then fine_tune_events else []) @ clas_events a"
  assume p2: "prepare_data k e2 a (s2\<lparr>trace := trace s2 @ prelude e2 a @ ?q\<rparr>)
                = (Inr (idm2, lb2, itos2), t2)"
    and d2: "idm2 (TRN k) = Some trn2" "idm2 (VAL k) = Some val2"
            "lb2 (TRN k) = Some tl2" "lb2 (VAL k) = Some vl2"
    and e2: "if fine_tune a
               then enc2 = fine_tuned (l_net (language_model_learner k a (data_lm_of a itos2 trn2 val2)))
               else files t2 ?ep = Some (Encoder_pth enc2)"
    and f2: "files s2' = (if fine_tune a then (files t2)(?ep \<mapsto> Encoder_pth enc2) else files t2)
                (?wp \<mapsto> Model_pth (trained enc2
                   (l_net (text_classifier_learner k a (data_clas_of a itos2 trn2 val2 tl2 vl2)))))"
    and tr2: "trace s2' = trace s2 @ prelude e2 a @ ?q
                @ (if path_exists s2 (ids_file ?td (TRN k) ?lg)
                   then [Print Msg_loading]
                   else [Print Msg_reading, Read_clas_data (dataset_dir_of a) (dataset a) ?lg])
                @ [Print (Msg_sizes (length trn2) (length val2) (length tst2)),
                   Lm_from_ids (data_lm_of a itos2 trn2 val2),
                   Clas_from_ids (data_clas_of a itos2 trn2 val2 tl2 vl2),
                   Language_model_learner]
                @ (if fine_tune a then fine_tune_events else []) @ clas_events a"
  have fs0: "files (s1\<lparr>trace := trace s1 @ prelude e1 a @ ?q\<rparr>) p
           = files (s2\<lparr>trace := trace s2 @ prelude e2 a @ ?q\<rparr>) p"
    if "p \<noteq> ids_file ?td (TST k) ?lg" "p \<noteq> lbl_file ?td (TST k) ?lg" for p
    using fs that by simp
  have dirs0: "dirs (s1\<lparr>trace := trace s1 @ prelude e1 a @ ?q\<rparr>)
             = dirs (s2\<lparr>trace := trace s2 @ prelude e2 a @ ?q\<rparr>)"
    using dirs by simp
  have rd0: "tk1 (TRN k) = tk2 (TRN k) \<and> tk1 (VAL k) = tk2 (VAL k)
           \<and> l1 (TRN k) = l2 (TRN k) \<and> l1 (VAL k) = l2 (VAL k)"
    if "read_clas_data e1 (dataset_dir_of a) (dataset a) ?lg = Inr (tk1, l1)"
       "read_clas_data e2 (dataset_dir_of a) (dataset a) ?lg = Inr (tk2, l2)" for tk1 l1 tk2 l2
    using rd that by blast
  from tst have t: "TST k \<noteq> TRN k" "TST k \<noteq> VAL k" by simp_all
  have agree: "itos1 = itos2 \<and> idm1 (TRN k) = idm2 (TRN k) \<and> idm1 (VAL k) = idm2 (VAL k)
       \<and> lb1 (TRN k) = lb2 (TRN k) \<and> lb1 (VAL k) = lb2 (VAL k)"
    by (rule prepare_data_agree [OF p1 p2 t dirs0 fs0 rd0])
  with d1 d2 have same: "itos1 = itos2" "trn1 = trn2" "val1 = val2" "tl1 = tl2" "vl1 = vl2"
    by simp_all
  have prep: "files t1 p = files t2 p"
    if "p \<noteq> ids_file ?td (TST k) ?lg" "p \<noteq> lbl_file ?td (TST k) ?lg" for p
    by (rule prepare_files_agree [OF p1 p2 t fs0 agree that])
  have enc: "enc1 = enc2"
  proof (cases "fine_tune a")
    case True
    with e1 e2 same show ?thesis by simp
  next
    case False
    with e1 e2 prep [of ?ep] show ?thesis by simp
  qed
  have files: "files s1' p = files s2' p"
    if "p \<noteq> ids_file ?td (TST k) ?lg" "p \<noteq> lbl_file ?td (TST k) ?lg" for p
    unfolding f1 f2 using prep [OF that] enc same by simp
  have w1: "files s1' ?wp = Some (Model_pth (trained enc1
                   (l_net (text_classifier_learner k a (data_clas_of a itos1 trn1 val1 tl1 vl1)))))"
    unfolding f1 by simp
  have w2: "files s2' ?wp = Some (Model_pth (trained enc1
                   (l_net (text_classifier_learner k a (data_clas_of a itos1 trn1 val1 tl1 vl1)))))"
    unfolding f2 using enc same by simp
  from prepare_data_files(2) [OF p1, of "TST k"] obtain arr l where
    "files t1 (ids_file ?td (TST k) ?lg) = Some (Npy_ids arr)"
    "files t1 (lbl_file ?td (TST k) ?lg) = Some (Npy_lbl l)"
    by auto
  then have test: "\<exists>arr l. files s1' (ids_file ?td (TST k) ?lg) = Some (Npy_ids arr)
               \<and> files s1' (lbl_file ?td (TST k) ?lg) = Some (Npy_lbl l)"
    unfolding f1 by simp
  let ?rest = "Language_model_learner # (if fine_tune a then fine_tune_events else []) @ clas_events a"
  have t1': "trace s1' = trace s1 @ (prelude e1 a @ ?q
                @ (if path_exists s1 (ids_file ?td (TRN k) ?lg)
                   then [Print Msg_loading]
                   else [Print Msg_reading, Read_clas_data (dataset_dir_of a) (dataset a) ?lg])
                @ [Print (Msg_sizes (length trn1) (length val1) (length tst1))])
              @ Lm_from_ids (data_lm_of a itos1 trn1 val1)
              # Clas_from_ids (data_clas_of a itos1 trn1 val1 tl1 vl1) # ?rest"
    unfolding tr1 by simp
  have t2': "trace s2' = trace s2 @ (prelude e2 a @ ?q
                @ (if path_exists s2 (ids_file ?td (TRN k) ?lg)
                   then [Print Msg_loading]
                   else [Print Msg_reading, Read_clas_data (dataset_dir_of a) (dataset a) ?lg])
                @ [Print (Msg_sizes (length trn2) (length val2) (length tst2))])
              @ Lm_from_ids (data_lm_of a itos1 trn1 val1)
              # Clas_from_ids (data_clas_of a itos1 trn1 val1 tl1 vl1) # ?rest"
    unfolding tr2 using same by simp
  have traces: "\<exists>pre1 pre2 data_lm data_clas rest.
             trace s1' = trace s1 @ pre1 @ Lm_from_ids data_lm # Clas_from_ids data_clas # rest
           \<and> trace s2' = trace s2 @ pre2 @ Lm_from_ids data_lm # Clas_from_ids data_clas # rest"
    using t1' t2' by blast
  from files w1 w2 traces test show ?thesis by blast
qed

subsection \<open>The run on the second corpus\<close>

lemma ex_prepare2_from:
  "prepare_data ex_utils ex_env2 ex_args (ex_state\<lparr>trace := t\<rparr>) =
     (Inr (ex_ids2, ex_lbls2, ex_itos),
      \<lparr>dirs = insert [''data'', ''imdb'', ''tmp''] (dirs ex_state), files = ex_cache2,
       trace = t @ [Print Msg_reading, Read_clas_data [''data'', ''imdb''] ''imdb'' ''en'']\<rparr>)"
proof -
  have num: "numericalize ex_utils (Vocab_stoi ex_itos) [[''a'', ''b'', ''a'']] = [[2, 3, 2]]"
    "numericalize ex_utils (Vocab_stoi ex_itos) [[''b'', ''c'']] = [[3, 0]]"
    "numericalize ex_utils (Vocab_stoi ex_itos) [[''b'', ''zz''], [''a'']] = [[3, 0], [2]]"
    by (simp_all add: ex_stoi numericalize_def stoi_get_def stoi_getitem_def ex_fields)
  show ?thesis
    unfolding prepare_data_def tokenize_and_cache_def ex_paths ex_fields
    by (simp add: bind_m_def mkdir_exist_ok_def exists_m_def path_exists_def ex_state_def
          emit_def call_read_clas_data_def ex_env2_def return_def getitem_def ex_toks2_def
          ex_lbls2_def write_file_def path_parent_def ex_paths ex_build_itos num ex_ids2_def
          ex_cache2_def)
qed

lemma ex_train2:
  "train ex_utils ex_args (ex_ids2, ex_lbls2, ex_itos)
     \<lparr>dirs = insert [''data'', ''imdb'', ''tmp''] (dirs ex_state), files = ex_cache2, trace = t\<rparr>
   = (Inr (),
      \<lparr>dirs = insert [''data'', ''imdb'', ''tmp''] (dirs ex_state),
       files = ex_cache2([''models'', ''enc.pth''] \<mapsto> Encoder_pth ex_enc,
                         [''models'', ''qrnn_imdb-clas.pth''] \<mapsto> Model_pth ex_weights),
       trace = t @ [Print (Msg_sizes 1 1 2), Lm_from_ids ex_data_lm, Clas_from_ids ex_data_clas,
                    Language_model_learner, Print Msg_fine_tuning, Unfreeze LM, Fit LM 2,
                    Save_encoder ''enc'', Text_classifier_learner, Load_encoder ''enc'',
                    Fit_one_cycle CLAS 1, Freeze_to CLAS (- 2), Fit_one_cycle CLAS 1,
                    Unfreeze CLAS, Fit_one_cycle CLAS 10, Print (Msg_saving [''models'']),
                    Save ''qrnn_imdb-clas'']\<rparr>)"
  unfolding train_def fine_tune_lm_def train_clas_def
  by (simp add: bind_m_def getitem_def ex_ids2_def ex_lbls2_def ex_fields return_def emit_def
        unfreeze_def fit_def save_encoder_def load_encoder_def fit_one_cycle_def freeze_to_def
        save_def write_file_def torch_load_encoder_def read_file_def ex_model_paths
        path_parent_def ex_state_def ex_enc_def ex_weights_def ex_data_lm_def
        ex_data_clas_def fine_tuned_def trained_def)

lemma ex_run2: "new_train_clas ex_utils ex_env2 ex_args ex_state = (Inr (), ex_final2)"
proof -
  have pre: "prelude ex_env2 ex_args = [Set_device 0, Print (Msg_dataset ''imdb'' ''en'')]"
    by (simp add: prelude_def ex_env2_def ex_fields)
  have st: "ex_state\<lparr>trace := trace ex_state @ t\<rparr> = ex_state\<lparr>trace := t\<rparr>" for t
    by (simp add: ex_state_def)
  show ?thesis
    by (simp add: prelude_run ex_check pre st bind_m_def emit_def ex_fields ex_prepare2_from
          ex_train2 ex_final2_def)
qed

theorem C10_witness:
  "new_train_clas ex_utils ex_env ex_args ex_state = (Inr (), ex_final)
   \<and> new_train_clas ex_utils ex_env2 ex_args ex_state = (Inr (), ex_final2)
   \<and> TST ex_utils \<noteq> TRN ex_utils \<and> TST ex_utils \<noteq> VAL ex_utils
   \<and> ex_toks (TST ex_utils) \<noteq> ex_toks2 (TST ex_utils)
   \<and> files ex_final (ids_file (tmp_dir_of ex_args) (TST ex_utils) (lang ex_args))
       \<noteq> files ex_final2 (ids_file (tmp_dir_of ex_args) (TST ex_utils) (lang ex_args))
   \<and> files ex_final (model_file ex_args (model_name ex_args @ ''_'' @ name ex_args))
       = files ex_final2 (model_file ex_args (model_name ex_args @ ''_'' @ name ex_args))
   \<and> files ex_final (model_file ex_args ''enc'') = files ex_final2 (model_file ex_args ''enc'')"
proof -
  have tst: "TST ex_utils \<noteq> TRN ex_utils \<and> TST ex_utils \<noteq> VAL ex_utils"
    by (simp add: ex_fields)
  have fs: "\<forall>p. p \<noteq> ids_file (tmp_dir_of ex_args) (TST ex_utils) (lang ex_args)
                 \<and> p \<noteq> lbl_file (tmp_dir_of ex_args) (TST ex_utils) (lang ex_args)
              \<longrightarrow> files ex_state p = files ex_state p"
    by simp
  have rd: "\<forall>tk1 l1 tk2 l2.
       read_clas_data ex_env (dataset_dir_of ex_args) (dataset ex_args) (lang ex_args) = Inr (tk1, l1)
     \<and> read_clas_data ex_env2 (dataset_dir_of ex_args) (dataset ex_args) (lang ex_args) = Inr (tk2, l2)
     \<longrightarrow> tk1 (TRN ex_utils) = tk2 (TRN ex_utils) \<and> tk1 (VAL ex_utils) = tk2 (VAL ex_utils)
       \<and> l1 (TRN ex_utils) = l2 (TRN ex_utils) \<and> l1 (VAL ex_utils) = l2 (VAL ex_utils)"
    by (auto simp: ex_env_def ex_env2_def ex_toks_def ex_toks2_def ex_lbls_def ex_lbls2_def
          ex_fields)
  note inst = C10_test_split_has_no_effect [OF ex_run ex_run2 tst refl fs rd]
  from inst have same:
    "\<forall>p. p \<noteq> ids_file (tmp_dir_of ex_args) (TST ex_utils) (lang ex_args)
         \<and> p \<noteq> lbl_file (tmp_dir_of ex_args) (TST ex_utils) (lang ex_args)
       \<longrightarrow> files ex_final p = files ex_final2 p"
    by (elim conjE)
  from same have w: "files ex_final (model_file ex_args (model_name ex_args @ ''_'' @ name ex_args))
       = files ex_final2 (model_file ex_args (model_name ex_args @ ''_'' @ name ex_args))"
    by simp
  from same have enc: "files ex_final (model_file ex_args ''enc'') = files ex_final2 (model_file ex_args ''enc'')"
    by simp
  have toks: "ex_toks (TST ex_utils) \<noteq> ex_toks2 (TST ex_utils)"
    by (simp add: ex_toks_def ex_toks2_def ex_fields)
  have ids: "files ex_final (ids_file (tmp_dir_of ex_args) (TST ex_utils) (lang ex_args))
       \<noteq> files ex_final2 (ids_file (tmp_dir_of ex_args) (TST ex_utils) (lang ex_args))"
    by (simp add: ex_final_def ex_final2_def ex_final_files_def ex_cache_def ex_cache2_def
          ex_paths ex_fields)
  from ex_run ex_run2 tst toks ids w enc show ?thesis by (intro conjI) simp_all
qed

subsection \<open>What every outcome leaves untouched\<close>

lemma touches_refl: "touches ok D E s s"
  by (simp add: touches_def)

lemma touches_trace [simp]: "E ev \<Longrightarrow> touches ok D E s (s\<lparr>trace := trace s @ [ev]\<rparr>)"
  by (simp add: touches_def)

lemma touches_trans:
  assumes "touches ok D E s s1" and "touches ok D E s1 s2"
  shows "touches ok D E s s2"
proof -
  from assms obtain evs1 evs2 where
    t1: "trace s1 = trace s @ evs1" "\<forall>ev \<in> set evs1. E ev" and
    t2: "trace s2 = trace s1 @ evs2" "\<forall>ev \<in> set evs2. E ev"
    unfolding touches_def by blast
  then have tr: "\<exists>evs. trace s2 = trace s @ evs \<and> (\<forall>ev \<in> set evs. E ev)"
    by (intro exI [of _ "evs1 @ evs2"]) auto
  have fl: "\<exists>c. files s2 p = Some c \<and> ok p c" if "files s2 p \<noteq> files s p" for p
  proof (cases "files s2 p = files s1 p")
    case True
    with that assms(1) show ?thesis unfolding touches_def by metis
  next
    case False
    with assms(2) show ?thesis unfolding touches_def by blast
  qed
  from assms have "dirs s \<subseteq> dirs s2" "dirs s2 \<subseteq> dirs s \<union> D"
    unfolding touches_def by blast+
  with tr fl show ?thesis unfolding touches_def by blast
qed

lemma framesI: "(\<And>s r s'. m s = (r, s') \<Longrightarrow> R s s') \<Longrightarrow> frames R m"
  by (simp add: frames_def)

lemma framesD: "frames R m \<Longrightarrow> m s = (r, s') \<Longrightarrow> R s s'"
  by (simp add: frames_def)

lemma frames_bind:
  assumes "frames (touches ok D E) m" and "\<And>x. frames (touches ok D E) (f x)"
  shows "frames (touches ok D E) (bind_m m f)"
proof (rule framesI)
  fix s r s' assume b: "bind_m m f s = (r, s')"
  show "touches ok D E s s'"
  proof (cases "m s")
    case (Pair r1 s1)
    have one: "touches ok D E s s1" by (rule framesD [OF assms(1) Pair])
    show ?thesis
    proof (cases r1)
      case (Inl err)
      with Pair b one show ?thesis by (simp add: bind_m_def)
    next
      case (Inr x)
      with Pair b have "f x s1 = (r, s')" by (simp add: bind_m_def)
      then have "touches ok D E s1 s'" by (rule framesD [OF assms(2)])
      with one show ?thesis by (rule touches_trans)
    qed
  qed
qed

lemma frames_same:
  assumes "\<And>s r s'. m s = (r, s') \<Longrightarrow> s' = s"
  shows "frames (touches ok D E) m"
proof (rule framesI)
  fix s r s' assume "m s = (r, s')"
  then have "s' = s" by (rule assms)
  then show "touches ok D E s s'" by (simp add: touches_refl)
qed

lemma frames_return [simp]: "frames (touches ok D E) (return x)"
  by (rule frames_same) (simp add: return_def)

lemma frames_raise [simp]: "frames (touches ok D E) (raise err)"
  by (rule frames_same) (simp add: raise_def)

lemma frames_getitem [simp]: "frames (touches ok D E) (getitem d key)"
  by (rule frames_same) (auto simp: getitem_def return_def raise_def split: option.splits)

lemma frames_exists_m [simp]: "frames (touches ok D E) (exists_m p)"
  by (rule frames_same) (simp add: exists_m_def)

lemma frames_read_file [simp]: "frames (touches ok D E) (read_file p)"
  by (rule frames_same) (auto simp: read_file_def split: option.splits)

lemma frames_check_inputs [simp]: "frames (touches ok D E) (check_inputs k a)"
  by (rule frames_same) (simp add: check_inputs_eq)

lemma frames_if:
  "frames R m \<Longrightarrow> frames R n \<Longrightarrow> frames R (if b then m else n)"
  by simp

lemma frames_emit: "E ev \<Longrightarrow> frames (touches ok D E) (emit ev)"
  by (auto intro!: framesI simp: emit_def)

lemma frames_write_file: "ok p c \<Longrightarrow> frames (touches ok D E) (write_file p c)"
  by (auto intro!: framesI simp: write_file_def touches_def split: if_splits)

lemma frames_mkdir: "p \<in> D \<Longrightarrow> frames (touches ok D E) (mkdir_exist_ok p)"
  by (auto intro!: framesI simp: mkdir_exist_ok_def touches_def split: if_splits)

lemma frames_loads [simp]:
  "frames (touches ok D E) (np_load_ids p)"
  "frames (touches ok D E) (np_load_lbl p)"
  "frames (touches ok D E) (pickle_load_vocab p)"
  "frames (touches ok D E) (torch_load_encoder p)"
  unfolding np_load_ids_def np_load_lbl_def pickle_load_vocab_def torch_load_encoder_def
  by (auto intro!: frames_bind split: content.splits)

lemma frames_case_prod: "(\<And>x y. frames R (f x y)) \<Longrightarrow> frames R (case_prod f p)"
  by (cases p) simp

lemma not_fine_tune_event [simp]:
  "Print Msg_reading \<notin> set fine_tune_events" "Print Msg_loading \<notin> set fine_tune_events"
  "Print Msg_cuda_unavailable \<notin> set fine_tune_events"
  "Print Msg_using_qrnn \<notin> set fine_tune_events"
  "Print (Msg_dataset ds lg) \<notin> set fine_tune_events"
  "Print (Msg_sizes n1 n2 n3) \<notin> set fine_tune_events"
  "Print (Msg_saving p) \<notin> set fine_tune_events"
  "Set_device i \<notin> set fine_tune_events" "Read_clas_data dd ds lg \<notin> set fine_tune_events"
  "Lm_from_ids dl \<notin> set fine_tune_events" "Clas_from_ids dc \<notin> set fine_tune_events"
  "Language_model_learner \<notin> set fine_tune_events"
  "Text_classifier_learner \<notin> set fine_tune_events"
  "Load_encoder n \<notin> set fine_tune_events" "Fit_one_cycle CLAS c \<notin> set fine_tune_events"
  "Freeze_to CLAS i \<notin> set fine_tune_events" "Unfreeze CLAS \<notin> set fine_tune_events"
  "Save n \<notin> set fine_tune_events"
  by (simp_all add: fine_tune_events_def)

lemma frames_call_read_clas_data:
  "E (Read_clas_data dd ds lg) \<Longrightarrow> frames (touches ok D E) (call_read_clas_data e dd ds lg)"
  unfolding call_read_clas_data_def
  by (intro frames_bind frames_emit) (simp_all split: sum.splits)

lemma frames_save_splits:
  assumes "\<And>sp. sp \<in> set splits \<Longrightarrow>
             (\<forall>arr. ok (ids_file td sp lg) (Npy_ids arr)) \<and> (\<forall>l. ok (lbl_file td sp lg) (Npy_lbl l))"
  shows "frames (touches ok D E) (save_splits k td lg stoi tk lb splits idm)"
  using assms
proof (induction splits arbitrary: idm)
  case Nil
  show ?case by simp
next
  case (Cons sp rest)
  have rest: "frames (touches ok D E) (save_splits k td lg stoi tk lb rest idm')" for idm'
    by (rule Cons.IH) (simp add: Cons.prems)
  from Cons.prems [of sp] have ok: "ok (ids_file td sp lg) (Npy_ids arr)"
    "ok (lbl_file td sp lg) (Npy_lbl l)" for arr l
    by simp_all
  show ?case
    unfolding save_splits.simps
    by (intro frames_bind frames_getitem frames_write_file ok rest)
qed

lemma frames_load_splits: "frames (touches ok D E) (load_splits td lg splits idm lb)"
proof (induction splits arbitrary: idm lb)
  case Nil
  show ?case by simp
next
  case (Cons sp rest)
  show ?case
    unfolding load_splits.simps
    by (intro frames_bind frames_loads Cons.IH)
qed

lemma cache_files_mem:
  "vocab_pkl (tmp_dir_of a) (lang a) \<in> set (cache_files k a)"
  "sp \<in> {TRN k, VAL k, TST k} \<Longrightarrow> ids_file (tmp_dir_of a) sp (lang a) \<in> set (cache_files k a)"
  "sp \<in> {TRN k, VAL k, TST k} \<Longrightarrow> lbl_file (tmp_dir_of a) sp (lang a) \<in> set (cache_files k a)"
  by (auto simp: cache_files_def)

lemma frames_prepare_data:
  assumes "permits k a ok D E"
  shows "frames (touches ok D E) (prepare_data k e a)"
proof -
  from assms have tmp: "tmp_dir_of a \<in> D"
    and okc: "\<And>p c. p \<in> set (cache_files k a) \<Longrightarrow> is_cache_content c \<Longrightarrow> ok p c"
    and ev: "\<And>ev. ev \<notin> set fine_tune_events \<Longrightarrow> E ev"
    unfolding permits_def by blast+
  have voc: "ok (vocab_pkl (tmp_dir_of a) (lang a)) (Pickle_vocab v)" for v
    by (rule okc) (simp_all add: cache_files_mem is_cache_content_def)
  have spl: "(\<forall>arr. ok (ids_file (tmp_dir_of a) sp (lang a)) (Npy_ids arr))
           \<and> (\<forall>l. ok (lbl_file (tmp_dir_of a) sp (lang a)) (Npy_lbl l))"
    if "sp \<in> set [TRN k, VAL k, TST k]" for sp
    using that by (auto intro!: okc simp: cache_files_def is_cache_content_def)
  have fresh: "frames (touches ok D E) (tokenize_and_cache k e a (dataset_dir_of a) (tmp_dir_of a))"
    unfolding tokenize_and_cache_def
    by (intro frames_bind frames_emit frames_call_read_clas_data frames_case_prod
          frames_getitem frames_write_file frames_save_splits frames_return ev voc spl)
       simp_all
  have cached: "frames (touches ok D E) (load_cached k a (tmp_dir_of a))"
    unfolding load_cached_def
    by (intro frames_bind frames_emit frames_load_splits frames_case_prod frames_loads
          frames_return ev)
       simp_all
  show ?thesis
    unfolding prepare_data_def
    by (intro frames_bind frames_mkdir tmp frames_exists_m frames_if fresh cached)
qed

lemma touches_events:
  assumes "\<And>ev. ev \<in> set evs \<Longrightarrow> E ev"
  shows "touches ok D E s (s\<lparr>trace := trace s @ evs\<rparr>)"
  using assms by (auto simp: touches_def)

lemma touches_events_write:
  assumes "\<And>ev. ev \<in> set evs \<Longrightarrow> E ev" and "ok p c"
  shows "touches ok D E s (s\<lparr>trace := trace s @ evs, files := (files s)(p \<mapsto> c)\<rparr>)"
  using assms by (auto simp: touches_def)

lemma fine_tune_lm_eq:
  "fine_tune_lm l s =
     write_file (pth_file l ''enc'') (Encoder_pth (fine_tuned (l_net l)))
       (s\<lparr>trace := trace s @ fine_tune_events\<rparr>)"
  by (simp add: fine_tune_lm_def unfreeze_def fit_def save_encoder_def bind_m_def emit_def
        return_def fine_tune_events_def fine_tuned_def)

lemma frames_fine_tune_lm:
  assumes "\<And>ev. ev \<in> set fine_tune_events \<Longrightarrow> E ev"
      and "\<And>n. ok (pth_file l ''enc'') (Encoder_pth n)"
  shows "frames (touches ok D E) (fine_tune_lm l)"
proof (rule framesI)
  fix s r s' assume "fine_tune_lm l s = (r, s')"
  then consider "s' = s\<lparr>trace := trace s @ fine_tune_events\<rparr>"
    | "s' = s\<lparr>trace := trace s @ fine_tune_events,
               files := (files s)(pth_file l ''enc'' \<mapsto> Encoder_pth (fine_tuned (l_net l)))\<rparr>"
    by (auto simp: fine_tune_lm_eq write_file_def split: if_splits)
  then show "touches ok D E s s'"
  proof cases
    case 1
    show ?thesis unfolding 1 by (rule touches_events) (erule assms(1))
  next
    case 2
    show ?thesis unfolding 2 by (rule touches_events_write) (erule assms(1), rule assms(2))
  qed
qed

lemma train_clas_eq:
  assumes "evs = [Text_classifier_learner, Load_encoder ''enc'', Fit_one_cycle CLAS 1,
        Freeze_to CLAS (- 2), Fit_one_cycle CLAS 1, Unfreeze CLAS, Fit_one_cycle CLAS 10,
        Print (Msg_saving (learner_dir l)), Save (model_name a @ ''_'' @ name a)]"
  shows "train_clas a l s =
     (case torch_load_encoder (pth_file l ''enc'')
             (s\<lparr>trace := trace s @ [Text_classifier_learner, Load_encoder ''enc'']\<rparr>) of
        (Inl err, s1) \<Rightarrow> (Inl err, s1)
      | (Inr enc, s1) \<Rightarrow>
          write_file (pth_file l (model_name a @ ''_'' @ name a))
            (Model_pth (trained enc (l_net l))) (s\<lparr>trace := trace s @ evs\<rparr>))"
  by (cases "files s (pth_file l ''enc'')")
     (auto simp: train_clas_def load_encoder_def fit_one_cycle_def freeze_to_def unfreeze_def
        save_def bind_m_def emit_def return_def raise_def trained_def assms
        torch_load_encoder_def read_file_def split: content.splits)

lemma frames_train_clas:
  assumes ev: "\<And>ev. ev \<notin> set fine_tune_events \<Longrightarrow> E ev"
      and ok: "\<And>n. ok (pth_file l (model_name a @ ''_'' @ name a)) (Model_pth n)"
  shows "frames (touches ok D E) (train_clas a l)"
proof (rule framesI)
  fix s r s' assume run: "train_clas a l s = (r, s')"
  define evs where "evs = [Text_classifier_learner, Load_encoder ''enc'', Fit_one_cycle CLAS 1,
        Freeze_to CLAS (- 2), Fit_one_cycle CLAS 1, Unfreeze CLAS, Fit_one_cycle CLAS 10,
        Print (Msg_saving (learner_dir l)), Save (model_name a @ ''_'' @ name a)]"
  have E1: "E ev" if "ev \<in> set [Text_classifier_learner, Load_encoder ''enc'']" for ev
    using that by (auto intro: ev)
  have E2: "E ev" if "ev \<in> set evs" for ev
    using that unfolding evs_def by (auto intro: ev)
  from run consider
      "s' = s\<lparr>trace := trace s @ [Text_classifier_learner, Load_encoder ''enc'']\<rparr>"
    | "s' = s\<lparr>trace := trace s @ evs\<rparr>"
    | enc where "s' = s\<lparr>trace := trace s @ evs,
        files := (files s)(pth_file l (model_name a @ ''_'' @ name a)
                             \<mapsto> Model_pth (trained enc (l_net l)))\<rparr>"
    unfolding train_clas_eq [OF evs_def]
    by (cases "files s (pth_file l ''enc'')")
       (auto simp: torch_load_encoder_def bind_m_def read_file_def return_def raise_def
          write_file_def split: content.splits if_splits)
  then show "touches ok D E s s'"
  proof cases
    case 1
    show ?thesis unfolding 1 by (rule touches_events) (erule E1)
  next
    case 2
    show ?thesis unfolding 2 by (rule touches_events) (erule E2)
  next
    case 3
    show ?thesis unfolding 3 by (rule touches_events_write) (erule E2, rule ok)
  qed
qed

lemma frames_train:
  assumes "permits k a ok D E"
  shows "frames (touches ok D E) (train k a d)"
proof -
  from assms have ev: "\<And>ev. ev \<notin> set fine_tune_events \<Longrightarrow> E ev"
    and ft: "fine_tune a \<Longrightarrow> ev \<in> set fine_tune_events \<Longrightarrow> E ev"
    and enc: "fine_tune a \<Longrightarrow> ok (model_file a ''enc'') (Encoder_pth n)"
    and w: "ok (model_file a (model_name a @ ''_'' @ name a)) (Model_pth n)" for ev n
    unfolding permits_def by blast+
  have tune: "frames (touches ok D E)
      (if fine_tune a then fine_tune_lm (language_model_learner k a dl) else return ())" for dl
    by (cases "fine_tune a") (simp_all add: frames_fine_tune_lm ft enc)
  have clas: "frames (touches ok D E) (train_clas a (text_classifier_learner k a dc))" for dc
  proof (rule frames_train_clas)
    show "E ev" if "ev \<notin> set fine_tune_events" for ev using that by (rule ev)
    show "ok (pth_file (text_classifier_learner k a dc) (model_name a @ ''_'' @ name a))
            (Model_pth n)" for n
      unfolding pth_file_learners by (rule w)
  qed
  show ?thesis
    unfolding train_def
    by (cases d) (auto intro!: frames_bind frames_emit frames_getitem tune clas ev)
qed

lemma frames_new_train_clas:
  assumes "permits k a ok D E"
  shows "frames (touches ok D E) (new_train_clas k e a)"
proof -
  from assms have ev: "\<And>ev. ev \<notin> set fine_tune_events \<Longrightarrow> E ev"
    unfolding permits_def by blast
  show ?thesis
    unfolding new_train_clas_def
    by (intro frames_bind frames_if frames_emit frames_return frames_check_inputs
          frames_prepare_data frames_train assms ev)
       simp_all
qed

lemma cache_files_under_tmp:
  "p \<in> set (cache_files k a) \<Longrightarrow> \<exists>n. p = tmp_dir_of a @ [n]"
  by (auto simp: cache_files_def ids_file_eq lbl_file_eq vocab_pkl_eq)

lemma cache_files_neq_model [simp]:
  "p \<in> set (cache_files k a) \<Longrightarrow> p \<noteq> model_file a n"
  by (auto simp: cache_files_def)

lemma assertion_without_dataset_dir:
  assumes "\<not> path_exists s (path_join (data_dir a) (dataset a))"
  shows "\<exists>m. new_train_clas k e a s = (Inl (AssertionError m), s\<lparr>trace := trace s @ prelude e a\<rparr>)"
proof -
  from assms have "\<exists>m. fst (check_inputs k a s) = Inl (AssertionError m)"
    by (simp add: check_inputs_eq)
  then show ?thesis by (auto simp: prelude_run)
qed

text \<open>
  Claim C7. Whatever the outcome of a run, value or exception: every file whose content has
  changed is either one of the seven files of the cache, directly under the tmp directory
  of \<^verbatim>\<open>data_dir/dataset\<close>, and holds ids, labels or the vocabulary; or the encoder file or the
  weights file, directly under the directory of the learners (which is the model directory
  given), and holds an encoder or the weights of a model. No directory is removed and none
  is made but the tmp directory. When the directory of the data set does not exist, the run
  ends with an assertion error and has written nothing.
\<close>

theorem C7_writes_only_under_tmp_and_model_dir:
  assumes "new_train_clas k e a s = (r, s')"
  shows "(\<forall>p. files s' p \<noteq> files s p \<longrightarrow>
            (\<exists>c. files s' p = Some c
               \<and> ((p \<in> set (cache_files k a) \<and> (\<exists>n. p = tmp_dir_of a @ [n]) \<and> is_cache_content c)
                \<or> (p \<in> {model_file a ''enc'', model_file a (model_name a @ ''_'' @ name a)}
                     \<and> (\<exists>n. p = learn_dir a @ [n]) \<and> is_weights c))))
       \<and> dirs s \<subseteq> dirs s' \<and> dirs s' \<subseteq> insert (tmp_dir_of a) (dirs s)
       \<and> tmp_dir_of a = path_join (path_join (data_dir a) (dataset a)) ''tmp''
       \<and> ([] \<notin> set (model_dir a) \<longrightarrow> learn_dir a = model_dir a)
       \<and> (\<not> path_exists s (path_join (data_dir a) (dataset a))
            \<longrightarrow> (\<exists>m. r = Inl (AssertionError m)) \<and> files s' = files s \<and> dirs s' = dirs s)"
proof -
  define ok where "ok p c \<longleftrightarrow>
      (p \<in> set (cache_files k a) \<and> is_cache_content c)
    \<or> (p \<in> {model_file a ''enc'', model_file a (model_name a @ ''_'' @ name a)} \<and> is_weights c)"
    for p c
  have "permits k a ok {tmp_dir_of a} (\<lambda>_. True)"
    by (simp add: permits_def ok_def is_weights_def)
  then have "frames (touches ok {tmp_dir_of a} (\<lambda>_. True)) (new_train_clas k e a)"
    by (rule frames_new_train_clas)
  from framesD [OF this assms] have
    fl: "\<And>p. files s' p \<noteq> files s p \<Longrightarrow> \<exists>c. files s' p = Some c \<and> ok p c" and
    dr: "dirs s \<subseteq> dirs s'" "dirs s' \<subseteq> insert (tmp_dir_of a) (dirs s)"
    unfolding touches_def by auto
  have files: "\<exists>c. files s' p = Some c
               \<and> ((p \<in> set (cache_files k a) \<and> (\<exists>n. p = tmp_dir_of a @ [n]) \<and> is_cache_content c)
                \<or> (p \<in> {model_file a ''enc'', model_file a (model_name a @ ''_'' @ name a)}
                     \<and> (\<exists>n. p = learn_dir a @ [n]) \<and> is_weights c))"
    if "files s' p \<noteq> files s p" for p
  proof -
    from fl [OF that] obtain c where c: "files s' p = Some c" "ok p c" by blast
    from c(2) consider
        "p \<in> set (cache_files k a)" "is_cache_content c"
      | "p \<in> {model_file a ''enc'', model_file a (model_name a @ ''_'' @ name a)}" "is_weights c"
      unfolding ok_def by blast
    then show ?thesis
    proof cases
      case 1
      with c(1) cache_files_under_tmp [of p k a] show ?thesis by blast
    next
      case 2
      from 2(1) have "\<exists>n. p = learn_dir a @ [n]" by (auto simp: model_file_eq)
      with 2 c(1) show ?thesis by blast
    qed
  qed
  have tmp: "tmp_dir_of a = path_join (path_join (data_dir a) (dataset a)) ''tmp''"
    by (simp add: tmp_dir_of_def dataset_dir_of_def)
  have md: "[] \<notin> set (model_dir a) \<longrightarrow> learn_dir a = model_dir a"
    by (simp add: learn_dir_eq)
  have nodir: "(\<exists>m. r = Inl (AssertionError m)) \<and> files s' = files s \<and> dirs s' = dirs s"
    if "\<not> path_exists s (path_join (data_dir a) (dataset a))"
    using assertion_without_dataset_dir [OF that, of k e] assms by auto
  from files dr tmp md nodir show ?thesis by blast
qed

theorem C7_witness:
  "new_train_clas ex_utils ex_env ex_args ex_state = (Inr (), ex_final)
   \<and> files ex_final (vocab_pkl (tmp_dir_of ex_args) (lang ex_args))
       = Some (Pickle_vocab ex_itos)
   \<and> files ex_state (vocab_pkl (tmp_dir_of ex_args) (lang ex_args)) = None
   \<and> vocab_pkl (tmp_dir_of ex_args) (lang ex_args) = tmp_dir_of ex_args @ [''vocab_en.pkl'']
   \<and> files ex_final (model_file ex_args ''enc'') = Some (Encoder_pth ex_enc)
   \<and> model_file ex_args ''enc'' = model_dir ex_args @ [''enc.pth'']
   \<and> dirs ex_state \<subseteq> dirs ex_final
   \<and> dirs ex_final \<subseteq> insert (tmp_dir_of ex_args) (dirs ex_state)
   \<and> learn_dir ex_args = model_dir ex_args"
proof -
  note inst = C7_writes_only_under_tmp_and_model_dir [OF ex_run]
  from inst have d1: "dirs ex_state \<subseteq> dirs ex_final"
    by (elim conjE)
  from inst have d2: "dirs ex_final \<subseteq> insert (tmp_dir_of ex_args) (dirs ex_state)"
    by (elim conjE)
  have "[] \<notin> set (model_dir ex_args)" by (simp add: ex_fields)
  with inst have l: "learn_dir ex_args = model_dir ex_args" by (elim conjE) simp
  have v: "files ex_final (vocab_pkl (tmp_dir_of ex_args) (lang ex_args)) = Some (Pickle_vocab ex_itos)"
    by (simp add: ex_final_def ex_final_files_def ex_cache_def ex_paths ex_fields)
  have n: "files ex_state (vocab_pkl (tmp_dir_of ex_args) (lang ex_args)) = None"
    by (simp add: ex_state_def)
  have vp: "vocab_pkl (tmp_dir_of ex_args) (lang ex_args) = tmp_dir_of ex_args @ [''vocab_en.pkl'']"
    by (simp add: ex_paths ex_fields)
  have en: "files ex_final (model_file ex_args ''enc'') = Some (Encoder_pth ex_enc)"
    by (simp add: ex_final_def ex_final_files_def ex_model_paths)
  have ep: "model_file ex_args ''enc'' = model_dir ex_args @ [''enc.pth'']"
    by (simp add: ex_model_paths ex_fields)
  from ex_run v n vp en ep d1 d2 l show ?thesis by (intro conjI)
qed

subsection \<open>Runs without fine-tuning\<close>

lemma no_fine_tune_frame:
  assumes "\<not> fine_tune a" and "new_train_clas k e a s = (r, s')"
  shows "files s' (model_file a ''enc'') = files s (model_file a ''enc'')"
    and "\<exists>evs. trace s' = trace s @ evs \<and> (\<forall>ev \<in> set evs. ev \<notin> set fine_tune_events)"
proof -
  have "permits k a (\<lambda>p c. p \<noteq> model_file a ''enc'') {tmp_dir_of a}
          (\<lambda>ev. ev \<notin> set fine_tune_events)"
    using assms(1) cache_files_neq_model [of "model_file a ''enc''" k a "''enc''"]
    by (auto simp: permits_def model_name_def)
  then have "frames (touches (\<lambda>p c. p \<noteq> model_file a ''enc'') {tmp_dir_of a}
          (\<lambda>ev. ev \<notin> set fine_tune_events)) (new_train_clas k e a)"
    by (rule frames_new_train_clas)
  from framesD [OF this assms(2)] show
    "files s' (model_file a ''enc'') = files s (model_file a ''enc'')"
    "\<exists>evs. trace s' = trace s @ evs \<and> (\<forall>ev \<in> set evs. ev \<notin> set fine_tune_events)"
    unfolding touches_def by auto
qed

lemma no_fine_tune_success:
  assumes "\<not> fine_tune a" and "new_train_clas k e a s = (Inr u, s')"
  shows "\<exists>n c. files s (model_file a ''enc'') = Some (Encoder_pth n)
           \<and> files s' (model_file a (model_name a @ ''_'' @ name a)) = Some (Model_pth (trained n c))"
    and "\<exists>pre. trace s' = trace s @ pre @ clas_events a"
proof -
  show "\<exists>n c. files s (model_file a ''enc'') = Some (Encoder_pth n)
           \<and> files s' (model_file a (model_name a @ ''_'' @ name a)) = Some (Model_pth (trained n c))"
  proof (rule run_success [OF assms(2)])
    fix idm lb itos s1 trn val tst tl vl enc
    let ?s0 = "s\<lparr>trace := trace s @ prelude e a @ (if qrnn a then [Print Msg_using_qrnn] else [])\<rparr>"
    assume p: "prepare_data k e a ?s0 = (Inr (idm, lb, itos), s1)"
      and e: "if fine_tune a
                then enc = fine_tuned (l_net (language_model_learner k a (data_lm_of a itos trn val)))
                else files s1 (model_file a ''enc'') = Some (Encoder_pth enc)"
      and f: "files s' = (if fine_tune a then (files s1)(model_file a ''enc'' \<mapsto> Encoder_pth enc)
                  else files s1)
                 (model_file a (model_name a @ ''_'' @ name a) \<mapsto>
                    Model_pth (trained enc
                      (l_net (text_classifier_learner k a (data_clas_of a itos trn val tl vl)))))"
    have "files s1 (model_file a ''enc'') = files ?s0 (model_file a ''enc'')"
      by (rule prepare_data_files(3) [OF p]) simp_all
    with e assms(1) have n: "files s (model_file a ''enc'') = Some (Encoder_pth enc)" by simp
    have w: "files s' (model_file a (model_name a @ ''_'' @ name a))
        = Some (Model_pth (trained enc
            (l_net (text_classifier_learner k a (data_clas_of a itos trn val tl vl)))))"
      unfolding f by simp
    from n w show ?thesis by blast
  qed
  show "\<exists>pre. trace s' = trace s @ pre @ clas_events a"
  proof (rule run_success [OF assms(2)])
    fix idm lb itos s1 trn val tst tl vl enc
    assume "trace s' = trace s @ prelude e a @ (if qrnn a then [Print Msg_using_qrnn] else [])
       @ (if path_exists s (ids_file (tmp_dir_of a) (TRN k) (lang a))
          then [Print Msg_loading]
          else [Print Msg_reading, Read_clas_data (dataset_dir_of a) (dataset a) (lang a)])
       @ [Print (Msg_sizes (length trn) (length val) (length tst)),
          Lm_from_ids (data_lm_of a itos trn val),
          Clas_from_ids (data_clas_of a itos trn val tl vl),
          Language_model_learner]
       @ (if fine_tune a then fine_tune_events else []) @ clas_events a"
    with assms(1) have "trace s' = trace s @ (prelude e a
       @ (if qrnn a then [Print Msg_using_qrnn] else [])
       @ (if path_exists s (ids_file (tmp_dir_of a) (TRN k) (lang a))
          then [Print Msg_loading]
          else [Print Msg_reading, Read_clas_data (dataset_dir_of a) (dataset a) (lang a)])
       @ [Print (Msg_sizes (length trn) (length val) (length tst)),
          Lm_from_ids (data_lm_of a itos trn val),
          Clas_from_ids (data_clas_of a itos trn val tl vl),
          Language_model_learner]) @ clas_events a"
      by simp
    then show ?thesis by (rule exI)
  qed
qed

lemma fine_tune_leaves_encoder:
  assumes "fine_tune a" and "new_train_clas k e a t = (Inr u, t')"
  shows "\<exists>lm. files t' (model_file a ''enc'') = Some (Encoder_pth (fine_tuned lm))"
proof (rule run_success [OF assms(2)])
  fix idm lb itos s1 trn val tst tl vl enc
  assume e: "if fine_tune a
                then enc = fine_tuned (l_net (language_model_learner k a (data_lm_of a itos trn val)))
                else files s1 (model_file a ''enc'') = Some (Encoder_pth enc)"
    and f: "files t' = (if fine_tune a then (files s1)(model_file a ''enc'' \<mapsto> Encoder_pth enc)
                  else files s1)
                 (model_file a (model_name a @ ''_'' @ name a) \<mapsto>
                    Model_pth (trained enc
                      (l_net (text_classifier_learner k a (data_clas_of a itos trn val tl vl)))))"
  from f assms(1) have "files t' (model_file a ''enc'') = Some (Encoder_pth enc)"
    by (auto simp: model_name_def)
  with e assms(1) show ?thesis by auto
qed


subsection \<open>The small run without fine-tuning\<close>

lemma nf_fields:
  "data_dir nf_args = [''data'']" "lang nf_args = ''en''" "cuda_id nf_args = 0"
  "pretrain_name nf_args = ''wt-103''" "model_dir nf_args = [''models'']"
  "qrnn nf_args = True" "fine_tune nf_args = False" "max_vocab nf_args = 2"
  "bs nf_args = 70" "bptt nf_args = 70" "name nf_args = ''imdb-clas''"
  "dataset nf_args = ''imdb''"
  by (simp_all add: nf_args_def ex_args_def)

lemma nf_dirs:
  "tmp_dir_of nf_args = tmp_dir_of ex_args" "dataset_dir_of nf_args = dataset_dir_of ex_args"
  by (simp_all add: nf_args_def tmp_dir_of_def dataset_dir_of_def)

lemma nf_same:
  "check_inputs k nf_args = check_inputs k ex_args"
  "prepare_data k e nf_args = prepare_data k e ex_args"
  "prelude e nf_args = prelude e ex_args"
  "data_lm_of nf_args = data_lm_of ex_args"
  "data_clas_of nf_args = data_clas_of ex_args"
  "model_file nf_args = model_file ex_args"
  "learn_dir nf_args = learn_dir ex_args"
  "model_name nf_args = model_name ex_args"
  "text_classifier_learner k nf_args = text_classifier_learner k ex_args"
proof -
  show "check_inputs k nf_args = check_inputs k ex_args"
    by (simp add: nf_args_def check_inputs_def)
  have tc: "tokenize_and_cache k e nf_args = tokenize_and_cache k e ex_args"
    by (simp add: fun_eq_iff tokenize_and_cache_def nf_fields ex_fields)
  have lc: "load_cached k nf_args = load_cached k ex_args"
    by (simp add: fun_eq_iff load_cached_def nf_fields ex_fields)
  show "prepare_data k e nf_args = prepare_data k e ex_args"
    by (simp only: prepare_data_def nf_dirs tc lc nf_fields ex_fields)
  show "prelude e nf_args = prelude e ex_args"
    by (simp add: prelude_def nf_fields ex_fields)
  show "data_lm_of nf_args = data_lm_of ex_args"
    by (simp add: fun_eq_iff data_lm_of_def nf_dirs nf_fields ex_fields)
  show "data_clas_of nf_args = data_clas_of ex_args"
    by (simp add: fun_eq_iff data_clas_of_def nf_dirs nf_fields ex_fields)
  show l: "learn_dir nf_args = learn_dir ex_args"
    by (simp add: learn_dir_def nf_fields ex_fields)
  show "model_file nf_args = model_file ex_args"
    by (simp add: fun_eq_iff model_file_def l)
  show "model_name nf_args = model_name ex_args"
    by (simp add: model_name_def nf_fields ex_fields)
  show "text_classifier_learner k nf_args = text_classifier_learner k ex_args"
    by (simp add: fun_eq_iff text_classifier_learner_def arch_of_def nf_fields ex_fields)
qed

lemma nf_train_stuck:
  "train ex_utils nf_args (ex_ids, ex_lbls, ex_itos)
     \<lparr>dirs = insert [''data'', ''imdb'', ''tmp''] (dirs ex_state), files = ex_cache, trace = t\<rparr>
   = (Inl (FileNotFoundError [''models'', ''enc.pth'']),
      \<lparr>dirs = insert [''data'', ''imdb'', ''tmp''] (dirs ex_state), files = ex_cache,
       trace = t @ [Print (Msg_sizes 1 1 1), Lm_from_ids ex_data_lm, Clas_from_ids ex_data_clas,
                    Language_model_learner, Text_classifier_learner, Load_encoder ''enc'']\<rparr>)"
  unfolding train_def train_clas_def nf_same
  by (simp add: bind_m_def getitem_def ex_ids_def ex_lbls_def ex_fields nf_fields return_def
        emit_def load_encoder_def torch_load_encoder_def read_file_def ex_model_paths
        ex_state_def ex_cache_def ex_data_lm_def ex_data_clas_def)

lemma nf_run_stuck:
  "new_train_clas ex_utils ex_env nf_args ex_state =
     (Inl (FileNotFoundError [''models'', ''enc.pth'']), nf_stuck)"
proof -
  have pre: "prelude ex_env ex_args =
      [Print Msg_cuda_unavailable, Set_device (- 1), Print (Msg_dataset ''imdb'' ''en'')]"
    by (simp add: prelude_def ex_env_def ex_fields)
  have st: "ex_state\<lparr>trace := trace ex_state @ t\<rparr> = ex_state\<lparr>trace := t\<rparr>" for t
    by (simp add: ex_state_def)
  show ?thesis
    by (simp add: prelude_run nf_same ex_check pre st bind_m_def emit_def nf_fields
          ex_prepare_from nf_train_stuck nf_stuck_def)
qed

lemma nf_load:
  "prepare_data ex_utils e ex_args (ex_final\<lparr>trace := t\<rparr>) =
     (Inr (ex_ids, ex_lbls, ex_itos), ex_final\<lparr>trace := t @ [Print Msg_loading]\<rparr>)"
  unfolding prepare_data_def load_cached_def ex_paths ex_fields
  by (simp add: bind_m_def mkdir_exist_ok_def exists_m_def path_exists_def ex_final_def
        ex_final_files_def emit_def return_def np_load_ids_def np_load_lbl_def
        pickle_load_vocab_def read_file_def ex_paths ex_cache_def ex_ids_def ex_lbls_def)

lemma nf_train_clas:
  "train_clas nf_args (text_classifier_learner ex_utils ex_args ex_data_clas)
     (ex_final\<lparr>trace := t\<rparr>)
   = (Inr (), ex_final\<lparr>trace := t @ clas_events ex_args\<rparr>)"
proof -
  have same: "ex_final_files([''models'', ''qrnn_imdb-clas.pth''] \<mapsto> Model_pth ex_weights)
      = ex_final_files"
    by (simp add: ex_final_files_def)
  have enc: "ex_final_files [''models'', ''enc.pth''] = Some (Encoder_pth ex_enc)"
    by (simp add: ex_final_files_def)
  have nm: "model_name nf_args @ ''_'' @ name nf_args = ''qrnn_imdb-clas''"
    by (simp add: nf_same ex_model_paths nf_fields)
  have fs: "files (ex_final\<lparr>trace := t\<rparr>) = ex_final_files"
    "dirs (ex_final\<lparr>trace := t\<rparr>) = {[''data'', ''imdb'', ''tmp''], [''data''], [''data'', ''imdb''], [''models'']}"
    by (simp_all add: ex_final_def ex_state_def)
  show ?thesis
    unfolding train_clas_Inr nm pth_file_learners learner_dir_learners ex_model_paths fs
    apply (rule exI [of _ ex_enc])
    apply (intro conjI)
       apply (rule enc)
      apply simp
     apply (simp add: path_parent_def)
    apply (simp add: same [unfolded ex_weights_def] clas_events_def ex_model_paths ex_fields
        ex_final_def)
    done
qed

lemma nf_train:
  "train ex_utils nf_args (ex_ids, ex_lbls, ex_itos) (ex_final\<lparr>trace := t\<rparr>)
   = (Inr (),
      ex_final\<lparr>trace := t @ [Print (Msg_sizes 1 1 1), Lm_from_ids ex_data_lm,
                    Clas_from_ids ex_data_clas, Language_model_learner] @ clas_events ex_args\<rparr>)"
  unfolding train_def nf_same
  by (simp add: bind_m_def getitem_def ex_ids_def ex_lbls_def ex_fields nf_fields return_def
        emit_def ex_data_lm_def [symmetric] ex_data_clas_def [symmetric] nf_train_clas)

lemma nf_check: "check_inputs ex_utils ex_args ex_final = (Inr (), ex_final)"
  by (simp add: check_inputs_eq ex_fields path_name_def path_exists_def ex_final_def ex_state_def
        path_join_def)

lemma nf_run: "new_train_clas ex_utils ex_env nf_args ex_final = (Inr (), nf_done)"
proof -
  have pre: "prelude ex_env ex_args =
      [Print Msg_cuda_unavailable, Set_device (- 1), Print (Msg_dataset ''imdb'' ''en'')]"
    by (simp add: prelude_def ex_env_def ex_fields)
  show ?thesis
    by (simp add: prelude_run nf_same nf_check pre bind_m_def emit_def nf_fields
          nf_load nf_train nf_done_def nf_events_def clas_events_def ex_model_paths ex_fields)
qed


subsection \<open>The data that a returning run was trained on\<close>

lemma prepare_data_loaded:
  assumes "prepare_data k e a s = (Inr (idm, lb, itos), s1)"
      and "path_exists s (ids_file (tmp_dir_of a) (TRN k) (lang a))"
      and "sp \<in> {TRN k, VAL k, TST k}"
      and "idm sp = Some arr" and "lb sp = Some l"
  shows "files s (ids_file (tmp_dir_of a) sp (lang a)) = Some (Npy_ids arr)"
    and "files s (lbl_file (tmp_dir_of a) sp (lang a)) = Some (Npy_lbl l)"
    and "files s (vocab_pkl (tmp_dir_of a) (lang a)) = Some (Pickle_vocab itos)"
proof -
  note C = prepare_data_cached [OF assms(1,2)]
  from C assms(3) have "\<exists>arr l.
             files s (ids_file (tmp_dir_of a) sp (lang a)) = Some (Npy_ids arr)
           \<and> files s (lbl_file (tmp_dir_of a) sp (lang a)) = Some (Npy_lbl l)
           \<and> idm sp = Some arr \<and> lb sp = Some l"
    by blast
  with assms(4,5) show "files s (ids_file (tmp_dir_of a) sp (lang a)) = Some (Npy_ids arr)"
    "files s (lbl_file (tmp_dir_of a) sp (lang a)) = Some (Npy_lbl l)"
    by auto
  from C show "files s (vocab_pkl (tmp_dir_of a) (lang a)) = Some (Pickle_vocab itos)"
    by blast
qed

lemma prepare_data_computed:
  assumes "prepare_data k e a s = (Inr (idm, lb, itos), s1)"
      and "\<not> path_exists s (ids_file (tmp_dir_of a) (TRN k) (lang a))"
  obtains tk w where
    "read_clas_data e (dataset_dir_of a) (dataset a) (lang a) = Inr (tk, lb)"
    "tk (TRN k) = Some w" "itos = build_itos k (max_vocab a) w"
    "\<And>sp arr. sp \<in> {TRN k, VAL k, TST k} \<Longrightarrow> idm sp = Some arr \<Longrightarrow>
        \<exists>ex. tk sp = Some ex \<and> arr = numericalize k (Vocab_stoi itos) ex"
proof -
  from prepare_data_fresh [OF assms] obtain tk w where
    rd: "read_clas_data e (dataset_dir_of a) (dataset a) (lang a) = Inr (tk, lb)" and
    w: "tk (TRN k) = Some w" and
    itos: "itos = build_itos k (max_vocab a) w" and
    per: "\<forall>sp \<in> {TRN k, VAL k, TST k}. \<exists>ex l. tk sp = Some ex \<and> lb sp = Some l
            \<and> idm sp = Some (numericalize k (Vocab_stoi itos) ex)
            \<and> files s1 (ids_file (tmp_dir_of a) sp (lang a))
                 = Some (Npy_ids (numericalize k (Vocab_stoi itos) ex))
            \<and> files s1 (lbl_file (tmp_dir_of a) sp (lang a)) = Some (Npy_lbl l)"
    by (elim exE conjE)
  have "\<exists>ex. tk sp = Some ex \<and> arr = numericalize k (Vocab_stoi itos) ex"
    if "sp \<in> {TRN k, VAL k, TST k}" "idm sp = Some arr" for sp arr
    using per that by fastforce
  with rd w itos show thesis by (rule that)
qed

text \<open>
  Claim C6. A run that returns has done, in this order and nothing else: the choice of the
  device and the first prints; then the data, either loaded (the vocabulary, the ids and the
  labels are the contents of the cache files) or read and computed (the vocabulary built from
  the training split, every split encoded with it); then the print of the sizes and the two
  data bunches made of exactly that vocabulary, the training and validation ids and labels,
  and the language model learner; when \<open>fine_tune\<close> is set, the unfreezing and the two epochs
  of the language model and the saving of its encoder, which is then the fine-tuned language
  model of that data; then the classifier learner, the loading of the encoder, one cycle,
  \<^verbatim>\<open>freeze_to(-2)\<close>, one cycle, the unfreezing, ten cycles; and last the saving of the weights:
  the file of the model directory then holds the classifier of that data, with the encoder
  that was saved or found, after these three stages.
\<close>

theorem C6_fixed_order_of_training:
  assumes "new_train_clas k e a s = (Inr u, s')"
  shows "\<exists>itos trn val tst tl vl tsl enc data_lm data_clas ar.
      (if path_exists s (ids_file (tmp_dir_of a) (TRN k) (lang a))
       then files s (vocab_pkl (tmp_dir_of a) (lang a)) = Some (Pickle_vocab itos)
          \<and> files s (ids_file (tmp_dir_of a) (TRN k) (lang a)) = Some (Npy_ids trn)
          \<and> files s (ids_file (tmp_dir_of a) (VAL k) (lang a)) = Some (Npy_ids val)
          \<and> files s (ids_file (tmp_dir_of a) (TST k) (lang a)) = Some (Npy_ids tst)
          \<and> files s (lbl_file (tmp_dir_of a) (TRN k) (lang a)) = Some (Npy_lbl tl)
          \<and> files s (lbl_file (tmp_dir_of a) (VAL k) (lang a)) = Some (Npy_lbl vl)
          \<and> files s (lbl_file (tmp_dir_of a) (TST k) (lang a)) = Some (Npy_lbl tsl)
       else (\<exists>tk lb w v t.
               read_clas_data e (dataset_dir_of a) (dataset a) (lang a) = Inr (tk, lb)
             \<and> tk (TRN k) = Some w \<and> tk (VAL k) = Some v \<and> tk (TST k) = Some t
             \<and> lb (TRN k) = Some tl \<and> lb (VAL k) = Some vl \<and> lb (TST k) = Some tsl
             \<and> itos = build_itos k (max_vocab a) w
             \<and> trn = numericalize k (Vocab_stoi itos) w
             \<and> val = numericalize k (Vocab_stoi itos) v
             \<and> tst = numericalize k (Vocab_stoi itos) t))
    \<and> data_lm = \<lparr>lm_path = tmp_dir_of a, lm_vocab = itos, lm_trn_ids = trn, lm_val_ids = val,
                  lm_bs = bs a, lm_bptt = bptt a\<rparr>
    \<and> data_clas = \<lparr>cl_path = tmp_dir_of a, cl_vocab = itos, cl_trn_ids = trn, cl_val_ids = val,
                    cl_trn_lbls = tl, cl_val_lbls = vl, cl_bs = bs a\<rparr>
    \<and> ar = \<lparr>a_bptt = bptt a, a_emb_sz = 400, a_nh = (if qrnn a then 1550 else 1150), a_nl = 3,
             a_qrnn = qrnn a, a_pad_token = PAD_TOKEN_ID k\<rparr>
    \<and> trace s' = trace s
         @ (if \<not> cuda_is_available e then [Print Msg_cuda_unavailable] else [])
         @ [Set_device (if \<not> cuda_is_available e then - 1 else cuda_id a),
            Print (Msg_dataset (dataset a) (lang a))]
         @ (if qrnn a then [Print Msg_using_qrnn] else [])
         @ (if path_exists s (ids_file (tmp_dir_of a) (TRN k) (lang a))
            then [Print Msg_loading]
            else [Print Msg_reading, Read_clas_data (dataset_dir_of a) (dataset a) (lang a)])
         @ [Print (Msg_sizes (length trn) (length val) (length tst)),
            Lm_from_ids data_lm, Clas_from_ids data_clas, Language_model_learner]
         @ (if fine_tune a
            then [Print Msg_fine_tuning, Unfreeze LM, Fit LM 2, Save_encoder ''enc'']
            else [])
         @ [Text_classifier_learner, Load_encoder ''enc'', Fit_one_cycle CLAS 1,
            Freeze_to CLAS (- 2), Fit_one_cycle CLAS 1, Unfreeze CLAS, Fit_one_cycle CLAS 10,
            Print (Msg_saving (learn_dir a)), Save (model_name a @ ''_'' @ name a)]
    \<and> (if fine_tune a
        then enc = Fitted 2 (Dec 1 (- 4), Dec 1 (- 2))
                     (Unfrozen (Language_model data_lm ar
                        (''lstm_'' @ pretrain_name a, ''itos_'' @ pretrain_name a)))
           \<and> files s' (model_file a ''enc'') = Some (Encoder_pth enc)
        else files s (model_file a ''enc'') = Some (Encoder_pth enc)
           \<and> files s' (model_file a ''enc'') = files s (model_file a ''enc''))
    \<and> files s' (model_file a (model_name a @ ''_'' @ name a)) =
        Some (Model_pth
          (One_cycle 10 (Dec 5 (- 3)) (Dec 8 (- 1), Dec 7 (- 1)) (Dec 1 (- 7))
            (Unfrozen
              (One_cycle 1 (Dec 5 (- 3)) (Dec 8 (- 1), Dec 7 (- 1)) (Dec 1 (- 7))
                (Frozen_to (- 2)
                  (One_cycle 1 (Dec 5 (- 3)) (Dec 8 (- 1), Dec 7 (- 1)) (Dec 1 (- 7))
                    (With_encoder enc (Text_classifier data_clas ar))))))))"
proof (rule run_success [OF assms])
  fix idm lb itos s1 trn val tst tl vl enc
  let ?s0 = "s\<lparr>trace := trace s @ prelude e a @ (if qrnn a then [Print Msg_using_qrnn] else [])\<rparr>"
  let ?td = "tmp_dir_of a" and ?lg = "lang a"
  let ?F = "ids_file ?td (TRN k) ?lg"
  let ?W = "model_file a (model_name a @ ''_'' @ name a)"
  let ?dl = "\<lparr>lm_path = tmp_dir_of a, lm_vocab = itos, lm_trn_ids = trn, lm_val_ids = val,
                  lm_bs = bs a, lm_bptt = bptt a\<rparr>"
  let ?dc = "\<lparr>cl_path = tmp_dir_of a, cl_vocab = itos, cl_trn_ids = trn, cl_val_ids = val,
                    cl_trn_lbls = tl, cl_val_lbls = vl, cl_bs = bs a\<rparr>"
  let ?ar = "\<lparr>a_bptt = bptt a, a_emb_sz = 400, a_nh = (if qrnn a then 1550 else 1150), a_nl = 3,
             a_qrnn = qrnn a, a_pad_token = PAD_TOKEN_ID k\<rparr>"
  assume prep: "prepare_data k e a ?s0 = (Inr (idm, lb, itos), s1)"
    and I: "idm (TRN k) = Some trn" "idm (VAL k) = Some val" "idm (TST k) = Some tst"
    and L: "lb (TRN k) = Some tl" "lb (VAL k) = Some vl"
    and e: "if fine_tune a
              then enc = fine_tuned (l_net (language_model_learner k a (data_lm_of a itos trn val)))
              else files s1 (model_file a ''enc'') = Some (Encoder_pth enc)"
    and f: "files s' = (if fine_tune a then (files s1)(model_file a ''enc'' \<mapsto> Encoder_pth enc)
                  else files s1)
                 (?W \<mapsto>
                    Model_pth (trained enc
                      (l_net (text_classifier_learner k a (data_clas_of a itos trn val tl vl)))))"
    and t: "trace s' = trace s @ prelude e a @ (if qrnn a then [Print Msg_using_qrnn] else [])
       @ (if path_exists s ?F
          then [Print Msg_loading]
          else [Print Msg_reading, Read_clas_data (dataset_dir_of a) (dataset a) (lang a)])
       @ [Print (Msg_sizes (length trn) (length val) (length tst)),
          Lm_from_ids (data_lm_of a itos trn val),
          Clas_from_ids (data_clas_of a itos trn val tl vl),
          Language_model_learner]
       @ (if fine_tune a then fine_tune_events else []) @ clas_events a"
  have dl: "data_lm_of a itos trn val = ?dl" by (simp add: data_lm_of_def)
  have dc: "data_clas_of a itos trn val tl vl = ?dc" by (simp add: data_clas_of_def)
  have ar: "arch_of k a = ?ar" by (simp add: arch_of_def)
  have "\<exists>arr l. idm (TST k) = Some arr \<and> lb (TST k) = Some l
             \<and> files s1 (ids_file ?td (TST k) ?lg) = Some (Npy_ids arr)
             \<and> files s1 (lbl_file ?td (TST k) ?lg) = Some (Npy_lbl l)"
    by (rule prepare_data_files(2) [OF prep]) simp
  then obtain tsl where T: "lb (TST k) = Some tsl" by blast
  have data: "if path_exists s ?F
       then files s (vocab_pkl ?td ?lg) = Some (Pickle_vocab itos)
          \<and> files s (ids_file ?td (TRN k) ?lg) = Some (Npy_ids trn)
          \<and> files s (ids_file ?td (VAL k) ?lg) = Some (Npy_ids val)
          \<and> files s (ids_file ?td (TST k) ?lg) = Some (Npy_ids tst)
          \<and> files s (lbl_file ?td (TRN k) ?lg) = Some (Npy_lbl tl)
          \<and> files s (lbl_file ?td (VAL k) ?lg) = Some (Npy_lbl vl)
          \<and> files s (lbl_file ?td (TST k) ?lg) = Some (Npy_lbl tsl)
       else (\<exists>tk lb w v t.
               read_clas_data e (dataset_dir_of a) (dataset a) (lang a) = Inr (tk, lb)
             \<and> tk (TRN k) = Some w \<and> tk (VAL k) = Some v \<and> tk (TST k) = Some t
             \<and> lb (TRN k) = Some tl \<and> lb (VAL k) = Some vl \<and> lb (TST k) = Some tsl
             \<and> itos = build_itos k (max_vocab a) w
             \<and> trn = numericalize k (Vocab_stoi itos) w
             \<and> val = numericalize k (Vocab_stoi itos) v
             \<and> tst = numericalize k (Vocab_stoi itos) t)"
  proof (cases "path_exists s ?F")
    case True
    then have c: "path_exists ?s0 ?F" by simp
    from prepare_data_loaded [OF prep c _ I(1) L(1)] prepare_data_loaded [OF prep c _ I(2) L(2)]
      prepare_data_loaded [OF prep c _ I(3) T] True
    show ?thesis by simp
  next
    case False
    then have n: "\<not> path_exists ?s0 ?F" by simp
    from prepare_data_computed [OF prep n] obtain tk w where
      rd: "read_clas_data e (dataset_dir_of a) (dataset a) (lang a) = Inr (tk, lb)" and
      w: "tk (TRN k) = Some w" and itos: "itos = build_itos k (max_vocab a) w" and
      per: "\<And>sp arr. sp \<in> {TRN k, VAL k, TST k} \<Longrightarrow> idm sp = Some arr \<Longrightarrow>
        \<exists>ex. tk sp = Some ex \<and> arr = numericalize k (Vocab_stoi itos) ex"
      by blast
    from per [OF _ I(1)] w have 1: "trn = numericalize k (Vocab_stoi itos) w" by auto
    from per [OF _ I(2)] obtain v where 2: "tk (VAL k) = Some v" "val = numericalize k (Vocab_stoi itos) v"
      by auto
    from per [OF _ I(3)] obtain t where 3: "tk (TST k) = Some t" "tst = numericalize k (Vocab_stoi itos) t"
      by auto
    have "\<exists>tk lb w v t.
               read_clas_data e (dataset_dir_of a) (dataset a) (lang a) = Inr (tk, lb)
             \<and> tk (TRN k) = Some w \<and> tk (VAL k) = Some v \<and> tk (TST k) = Some t
             \<and> lb (TRN k) = Some tl \<and> lb (VAL k) = Some vl \<and> lb (TST k) = Some tsl
             \<and> itos = build_itos k (max_vocab a) w
             \<and> trn = numericalize k (Vocab_stoi itos) w
             \<and> val = numericalize k (Vocab_stoi itos) v
             \<and> tst = numericalize k (Vocab_stoi itos) t"
      apply (rule exI [of _ tk], rule exI [of _ lb], rule exI [of _ w], rule exI [of _ v],
          rule exI [of _ t])
      apply (intro conjI)
      apply (rule rd w 2 3 L T itos 1)+
      done
    with False show ?thesis by simp
  qed
  have tr: "trace s' = trace s
         @ (if \<not> cuda_is_available e then [Print Msg_cuda_unavailable] else [])
         @ [Set_device (if \<not> cuda_is_available e then - 1 else cuda_id a),
            Print (Msg_dataset (dataset a) (lang a))]
         @ (if qrnn a then [Print Msg_using_qrnn] else [])
         @ (if path_exists s ?F
            then [Print Msg_loading]
            else [Print Msg_reading, Read_clas_data (dataset_dir_of a) (dataset a) (lang a)])
         @ [Print (Msg_sizes (length trn) (length val) (length tst)),
            Lm_from_ids ?dl, Clas_from_ids ?dc, Language_model_learner]
         @ (if fine_tune a
            then [Print Msg_fine_tuning, Unfreeze LM, Fit LM 2, Save_encoder ''enc'']
            else [])
         @ [Text_classifier_learner, Load_encoder ''enc'', Fit_one_cycle CLAS 1,
            Freeze_to CLAS (- 2), Fit_one_cycle CLAS 1, Unfreeze CLAS, Fit_one_cycle CLAS 10,
            Print (Msg_saving (learn_dir a)), Save (model_name a @ ''_'' @ name a)]"
    unfolding t dl dc prelude_def fine_tune_events_def clas_events_def
    by (simp only: append_assoc)
  have keep: "files s1 (model_file a ''enc'') = files ?s0 (model_file a ''enc'')"
    by (rule prepare_data_files(3) [OF prep]) simp_all
  have encf: "if fine_tune a
        then enc = Fitted 2 (Dec 1 (- 4), Dec 1 (- 2))
                     (Unfrozen (Language_model ?dl ?ar
                        (''lstm_'' @ pretrain_name a, ''itos_'' @ pretrain_name a)))
           \<and> files s' (model_file a ''enc'') = Some (Encoder_pth enc)
        else files s (model_file a ''enc'') = Some (Encoder_pth enc)
           \<and> files s' (model_file a ''enc'') = files s (model_file a ''enc'')"
  proof (cases "fine_tune a")
    case True
    with e have "enc = Fitted 2 (Dec 1 (- 4), Dec 1 (- 2))
                     (Unfrozen (Language_model ?dl ?ar
                        (''lstm_'' @ pretrain_name a, ''itos_'' @ pretrain_name a)))"
      by (simp add: fine_tuned_def language_model_learner_def dl ar)
    moreover from f True have "files s' (model_file a ''enc'') = Some (Encoder_pth enc)"
      using enc_neq_weights [of a] by (simp del: enc_neq_weights)
    ultimately show ?thesis using True by simp
  next
    case False
    with e keep have "files s (model_file a ''enc'') = Some (Encoder_pth enc)" by simp
    moreover from f False keep have "files s' (model_file a ''enc'') = files s (model_file a ''enc'')"
      using enc_neq_weights [of a] by (simp del: enc_neq_weights)
    ultimately show ?thesis using False by simp
  qed
  have wf: "files s' ?W =
        Some (Model_pth
          (One_cycle 10 (Dec 5 (- 3)) (Dec 8 (- 1), Dec 7 (- 1)) (Dec 1 (- 7))
            (Unfrozen
              (One_cycle 1 (Dec 5 (- 3)) (Dec 8 (- 1), Dec 7 (- 1)) (Dec 1 (- 7))
                (Frozen_to (- 2)
                  (One_cycle 1 (Dec 5 (- 3)) (Dec 8 (- 1), Dec 7 (- 1)) (Dec 1 (- 7))
                    (With_encoder enc (Text_classifier ?dc ?ar))))))))"
    unfolding f by (simp add: trained_def text_classifier_learner_def dc ar)
  show ?thesis
    apply (rule exI [of _ itos], rule exI [of _ trn], rule exI [of _ val], rule exI [of _ tst],
        rule exI [of _ tl], rule exI [of _ vl], rule exI [of _ tsl], rule exI [of _ enc],
        rule exI [of _ ?dl], rule exI [of _ ?dc], rule exI [of _ ?ar])
    apply (intro conjI)
          apply (rule data)
         apply (rule refl)
        apply (rule refl)
       apply (rule refl)
      apply (rule tr)
     apply (rule encf)
    apply (rule wf)
    done
qed

theorem C6_witness:
  "new_train_clas ex_utils ex_env ex_args ex_state = (Inr (), ex_final)
   \<and> \<not> path_exists ex_state (ids_file (tmp_dir_of ex_args) (TRN ex_utils) (lang ex_args))
   \<and> trace ex_final =
        [Print Msg_cuda_unavailable, Set_device (- 1), Print (Msg_dataset ''imdb'' ''en''),
         Print Msg_using_qrnn, Print Msg_reading,
         Read_clas_data [''data'', ''imdb''] ''imdb'' ''en'', Print (Msg_sizes 1 1 1),
         Lm_from_ids ex_data_lm, Clas_from_ids ex_data_clas, Language_model_learner,
         Print Msg_fine_tuning, Unfreeze LM, Fit LM 2, Save_encoder ''enc'',
         Text_classifier_learner, Load_encoder ''enc'', Fit_one_cycle CLAS 1,
         Freeze_to CLAS (- 2), Fit_one_cycle CLAS 1, Unfreeze CLAS, Fit_one_cycle CLAS 10,
         Print (Msg_saving [''models'']), Save ''qrnn_imdb-clas'']
   \<and> files ex_final (model_file ex_args ''enc'') = Some (Encoder_pth ex_enc)
   \<and> files ex_final (model_file ex_args (model_name ex_args @ ''_'' @ name ex_args))
        = Some (Model_pth ex_weights)
   \<and> (\<exists>enc data_clas ar.
        files ex_final (model_file ex_args (model_name ex_args @ ''_'' @ name ex_args)) =
          Some (Model_pth
            (One_cycle 10 (Dec 5 (- 3)) (Dec 8 (- 1), Dec 7 (- 1)) (Dec 1 (- 7))
              (Unfrozen
                (One_cycle 1 (Dec 5 (- 3)) (Dec 8 (- 1), Dec 7 (- 1)) (Dec 1 (- 7))
                  (Frozen_to (- 2)
                    (One_cycle 1 (Dec 5 (- 3)) (Dec 8 (- 1), Dec 7 (- 1)) (Dec 1 (- 7))
                      (With_encoder enc (Text_classifier data_clas ar)))))))))"
proof -
  from C6_fixed_order_of_training [OF ex_run] have
    w: "\<exists>enc data_clas ar.
        files ex_final (model_file ex_args (model_name ex_args @ ''_'' @ name ex_args)) =
          Some (Model_pth
            (One_cycle 10 (Dec 5 (- 3)) (Dec 8 (- 1), Dec 7 (- 1)) (Dec 1 (- 7))
              (Unfrozen
                (One_cycle 1 (Dec 5 (- 3)) (Dec 8 (- 1), Dec 7 (- 1)) (Dec 1 (- 7))
                  (Frozen_to (- 2)
                    (One_cycle 1 (Dec 5 (- 3)) (Dec 8 (- 1), Dec 7 (- 1)) (Dec 1 (- 7))
                      (With_encoder enc (Text_classifier data_clas ar))))))))"
    by (elim exE conjE) ((rule exI)+, assumption)
  have t: "trace ex_final =
        [Print Msg_cuda_unavailable, Set_device (- 1), Print (Msg_dataset ''imdb'' ''en''),
         Print Msg_using_qrnn, Print Msg_reading,
         Read_clas_data [''data'', ''imdb''] ''imdb'' ''en'', Print (Msg_sizes 1 1 1),
         Lm_from_ids ex_data_lm, Clas_from_ids ex_data_clas, Language_model_learner,
         Print Msg_fine_tuning, Unfreeze LM, Fit LM 2, Save_encoder ''enc'',
         Text_classifier_learner, Load_encoder ''enc'', Fit_one_cycle CLAS 1,
         Freeze_to CLAS (- 2), Fit_one_cycle CLAS 1, Unfreeze CLAS, Fit_one_cycle CLAS 10,
         Print (Msg_saving [''models'']), Save ''qrnn_imdb-clas'']"
    by (simp add: ex_final_def)
  have en: "files ex_final (model_file ex_args ''enc'') = Some (Encoder_pth ex_enc)"
    by (simp add: ex_final_def ex_final_files_def ex_model_paths)
  have we: "files ex_final (model_file ex_args (model_name ex_args @ ''_'' @ name ex_args))
        = Some (Model_pth ex_weights)"
    by (simp add: ex_final_def ex_final_files_def ex_model_paths ex_fields)
  from ex_run ex_fresh t en we w show ?thesis by (intro conjI)
qed

end
